theory Spec2Isabelle
  imports Complex_Main
begin

section \<open>The WebGL context\<close>

text \<open>
  The renderer talks to the GPU only through one \<open>WebGLRenderingContext\<close>. The
  embedding keeps that context's state in the world: the ordered log of every call
  issued (\<open>calls\<close>), the number of objects it was asked to create (\<open>created\<close>, which
  is also the next fresh handle), the canvas size, and the driver's answers. The
  answers are arbitrary functions of the handle in question, so every sequence of
  driver outcomes is covered: whether the n-th \<open>create*\<close> call yields an object
  (\<open>null\<close> otherwise), the compile status and info log of a shader, the link status
  of a program, and which uniforms and attributes a program declares.
\<close>

type_synonym handle = nat

datatype shader_type = VERTEX_SHADER | FRAGMENT_SHADER

datatype draw_mode = LINE_LOOP | TRIANGLES

datatype buffer_target = ARRAY_BUFFER | ELEMENT_ARRAY_BUFFER

datatype tex_param = TEXTURE_WRAP_S_REPEAT | TEXTURE_WRAP_T_REPEAT | TEXTURE_MIN_FILTER_LINEAR

datatype buffer_data = Floats "real list" | Indices "nat list"

text \<open>A uniform location is the pair of the program and the uniform's name; \<open>None\<close> is \<open>null\<close>.\<close>

type_synonym uniform_location = "(handle \<times> string) option"

datatype gl_call =
    CreateShader shader_type
  | ShaderSource handle "string option"
  | CompileShader handle
  | GetShaderParameter handle
  | GetShaderInfoLog handle
  | CreateProgram
  | AttachShader handle handle
  | LinkProgram handle
  | DeleteShader handle
  | GetProgramParameter handle
  | UseProgram handle
  | GetUniformLocation handle string
  | GetAttribLocation handle string
  | EnableVertexAttribArray int
  | VertexAttribPointer int nat nat nat
  | Uniform1i uniform_location nat
  | Uniform2fv uniform_location "real list"
  | Uniform3fv uniform_location "real list"
  | UniformMatrix4fv uniform_location "real list"
  | CreateTexture
  | ActiveTexture nat
  | BindTexture handle
  | TexParameteri tex_param
  | TexImage2D nat nat "nat list"
  | GenerateMipmap
  | DeleteTexture handle
  | CreateBuffer
  | BindBuffer buffer_target "handle option"
  | BufferData buffer_target buffer_data
  | Viewport real real real real
  | ClearColor real real real real
  | EnableDepthTest
  | DrawElements draw_mode nat nat
  | Flush
  | Finish

record webgl =
  canvas_width :: nat
  canvas_height :: nat
  calls :: "gl_call list"
  created :: nat
  createOk :: "nat \<Rightarrow> bool"
  compileStatus :: "handle \<Rightarrow> bool"
  shaderInfoLog :: "handle \<Rightarrow> string"
  linkStatus :: "handle \<Rightarrow> bool"
  uniformDeclared :: "handle \<Rightarrow> string \<Rightarrow> bool"
  attribLocation :: "handle \<Rightarrow> string \<Rightarrow> int"

section \<open>Models, cameras, lights, images\<close>

text \<open>
  \<open>ModelGL\<close>, \<open>Camera\<close>, \<open>GLLights\<close>, \<open>PPM\<close> and \<open>SceneData\<close> are imported by the
  renderer; the records hold the fields and getters the renderer reads and writes.
  \<open>numTriangles\<close> is read as \<open>model.numTriangles!\<close>, so it may be undefined.
\<close>

record ModelGL =
  renderingProgram :: "handle option"
  getVertexShaderName :: string
  getFragmentShaderName :: string
  hasDiffuseMap :: bool
  hasNormalMap :: bool
  diffuseTexture :: "handle option"
  normalTexture :: "handle option"
  textures :: "string \<rightharpoonup> string"
  vertexStride :: nat
  textureOffset :: nat
  normalOffset :: nat
  packedVertexBuffer :: "real list"
  vertexIndices :: "nat list"
  numTriangles :: "nat option"
  getModelMatrix :: "real list"

record Camera =
  usePerspective :: bool
  renderSolid :: bool
  viewPortWidth :: nat
  viewPortHeight :: nat
  projectionMatrixFor :: "nat \<Rightarrow> nat \<Rightarrow> real list"
  viewMatrix :: "real list"

text \<open>
  Modelled from the spec: the \<open>Camera\<close> class is not part of the sources. Its projection
  matrix is "recomputed from viewport dimensions on demand".
\<close>

definition projectionMatrix :: "Camera \<Rightarrow> real list" where
  "projectionMatrix c = projectionMatrixFor c (viewPortWidth c) (viewPortHeight c)"

record GLPointLight =
  position :: "real list"
  color :: "real list"

type_synonym GLLights = "GLPointLight list"

text \<open>
  Modelled from the spec: the \<open>GLLights\<close> class is not part of the sources. It
  "exposes flattened position/color arrays" in insertion order.
\<close>

definition getPositionsFloat32 :: "GLLights \<Rightarrow> real list" where
  "getPositionsFloat32 ls = concat (map position ls)"

definition getColorsFloat32 :: "GLLights \<Rightarrow> real list" where
  "getColorsFloat32 ls = concat (map color ls)"

record PPM =
  ppmWidth :: nat
  ppmHeight :: nat
  ppmData :: "nat list option"

section \<open>The world\<close>

text \<open>
  All module-level state of the renderer and of its collaborators. \<open>glContext\<close>,
  \<open>model\<close>, \<open>camera\<close>, \<open>lights\<close>, \<open>width\<close>, \<open>height\<close> and \<open>sceneFrameNumber\<close> are the
  fields of the single \<open>sceneData\<close> object; \<open>fps\<close>, \<open>lastTime\<close> and \<open>frameNumber\<close> are
  the module's own variables. \<open>glContext\<close> is the nullable reference to the context,
  whose state is \<open>gpu\<close>. \<open>modelCache\<close> is the cache of the \<open>PPMFileLoader\<close> singleton,
  \<open>fetched\<close> the URLs it has requested and \<open>network\<close> what a request answers.
  \<open>performance.now()\<close> reads \<open>clock\<close> at the next index, so successive readings are
  arbitrary. \<open>animationFrameRequests\<close> counts the calls of \<open>requestAnimationFrame\<close>.

  Every call site passes \<open>sceneData.glContext\<close> for the parameter \<open>gl\<close> and
  \<open>sceneData.model\<close> for the parameter \<open>model\<close>; the objects are shared, so the
  embedding reads and writes them in the world.
\<close>

datatype console_entry = ConsoleLog string | ConsoleError string

record world =
  gpu :: webgl
  glContext :: "unit option"
  model :: "ModelGL option"
  camera :: "Camera option"
  lights :: "GLLights option"
  width :: nat
  height :: nat
  sceneFrameNumber :: nat
  fps :: nat
  lastTime :: real
  frameNumber :: nat
  console :: "console_entry list"
  modelCache :: "string \<rightharpoonup> PPM"
  fetched :: "string list"
  network :: "string \<Rightarrow> string + PPM"
  shaderSourceCodeMap :: "string \<rightharpoonup> string"
  clock :: "nat \<Rightarrow> real"
  clockReads :: nat
  animationFrameRequests :: nat

text \<open>A function either returns a value or throws an \<open>Error\<close> with a message.\<close>

datatype 'a completion = Returns 'a | Throws string

definition glDo :: "gl_call \<Rightarrow> world \<Rightarrow> world" where
  "glDo c w = w\<lparr>gpu := (gpu w)\<lparr>calls := calls (gpu w) @ [c]\<rparr>\<rparr>"

definition glCreate :: "gl_call \<Rightarrow> world \<Rightarrow> handle option \<times> world" where
  "glCreate c w =
     (let g = gpu w; n = created g
      in (if createOk g n then Some n else None,
          w\<lparr>gpu := g\<lparr>calls := calls g @ [c], created := Suc n\<rparr>\<rparr>))"

definition getUniformLocation :: "handle \<Rightarrow> string \<Rightarrow> world \<Rightarrow> uniform_location \<times> world" where
  "getUniformLocation p name w =
     (if uniformDeclared (gpu w) p name then Some (p, name) else None,
      glDo (GetUniformLocation p name) w)"

definition getAttribLocation :: "handle \<Rightarrow> string \<Rightarrow> world \<Rightarrow> int \<times> world" where
  "getAttribLocation p name w = (attribLocation (gpu w) p name, glDo (GetAttribLocation p name) w)"

definition consoleLog :: "string \<Rightarrow> world \<Rightarrow> world" where
  "consoleLog s w = w\<lparr>console := console w @ [ConsoleLog s]\<rparr>"

definition consoleError :: "string \<Rightarrow> world \<Rightarrow> world" where
  "consoleError s w = w\<lparr>console := console w @ [ConsoleError s]\<rparr>"

definition performance_now :: "world \<Rightarrow> real \<times> world" where
  "performance_now w = (clock w (clockReads w), w\<lparr>clockReads := Suc (clockReads w)\<rparr>)"

text \<open>What \<open>console.log\<close> prints for a string that may be \<open>undefined\<close>.\<close>

definition showSource :: "string option \<Rightarrow> string" where
  "showSource s = (case s of None \<Rightarrow> ''undefined'' | Some t \<Rightarrow> t)"

section \<open>compileProgram\<close>

text \<open>
  The three banner-commented parts of \<open>compileProgram\<close> after its guards: the vertex
  shader, the fragment shader, and the program. Each continues into the next. The two
  shader names are read from the model once, before the first part.
\<close>

definition linkStage :: "handle \<Rightarrow> handle \<Rightarrow> world \<Rightarrow> handle option completion \<times> world" where
  "linkStage vertexShaderProgram fragmentShaderObject w =
     (case glCreate CreateProgram w of
        (None, w1) \<Rightarrow> (Throws ''Failed to create shader program'', w1)
      | (Some shaderProgram, w1) \<Rightarrow>
          let w2 = glDo (AttachShader shaderProgram vertexShaderProgram) w1;
              w3 = glDo (AttachShader shaderProgram fragmentShaderObject) w2;
              w4 = glDo (LinkProgram shaderProgram) w3;
              w5 = glDo (DeleteShader vertexShaderProgram) w4;
              w6 = glDo (DeleteShader fragmentShaderObject) w5;
              w7 = glDo (GetProgramParameter shaderProgram) w6
          in if \<not> linkStatus (gpu w7) shaderProgram
             then (Returns None, consoleError ''Failed to link shader program'' w7)
             else (Returns (Some shaderProgram),
                   w7\<lparr>model :=
                        map_option (\<lambda>m. m\<lparr>renderingProgram := Some shaderProgram\<rparr>) (model w7)\<rparr>))"

definition fragmentStage :: "string \<Rightarrow> handle \<Rightarrow> world \<Rightarrow> handle option completion \<times> world" where
  "fragmentStage fragmentShaderName vertexShaderProgram w =
     (case glCreate (CreateShader FRAGMENT_SHADER) w of
        (None, w1) \<Rightarrow> (Throws ''Failed to create fragment shader'', w1)
      | (Some fragmentShaderObject, w1) \<Rightarrow>
          let fragmentShader = shaderSourceCodeMap w1 fragmentShaderName;
              w2 = glDo (ShaderSource fragmentShaderObject fragmentShader) w1;
              w3 = glDo (CompileShader fragmentShaderObject) w2;
              w4 = glDo (GetShaderParameter fragmentShaderObject) w3
          in if \<not> compileStatus (gpu w4) fragmentShaderObject
             then (Returns None,
                   consoleError ''Failed to compile fragment shader''
                    (consoleLog (shaderInfoLog (gpu w4) fragmentShaderObject)
                      (glDo (GetShaderInfoLog fragmentShaderObject)
                        (consoleLog (''tried to compile '' @ fragmentShaderName)
                          (consoleLog (showSource fragmentShader) w4)))))
             else linkStage vertexShaderProgram fragmentShaderObject w4)"

definition vertexStage :: "string \<Rightarrow> string \<Rightarrow> world \<Rightarrow> handle option completion \<times> world" where
  "vertexStage vertexShaderName fragmentShaderName w =
     (case glCreate (CreateShader VERTEX_SHADER) w of
        (None, w1) \<Rightarrow> (Throws ''Failed to create vertex shader'', w1)
      | (Some vertexShaderProgram, w1) \<Rightarrow>
          let vertexShader = shaderSourceCodeMap w1 vertexShaderName;
              w2 = glDo (ShaderSource vertexShaderProgram vertexShader) w1;
              w3 = glDo (CompileShader vertexShaderProgram) w2;
              w4 = glDo (GetShaderParameter vertexShaderProgram) w3
          in if \<not> compileStatus (gpu w4) vertexShaderProgram
             then (Returns None,
                   consoleError ''Failed to compile vertex shader''
                    (consoleLog (shaderInfoLog (gpu w4) vertexShaderProgram)
                      (glDo (GetShaderInfoLog vertexShaderProgram)
                        (consoleLog (''tried to compile '' @ vertexShaderName)
                          (consoleLog (showSource vertexShader) w4)))))
             else fragmentStage fragmentShaderName vertexShaderProgram w4)"

definition compileProgram :: "world \<Rightarrow> handle option completion \<times> world" where
  "compileProgram w =
     (case model w of
        None \<Rightarrow> (Returns None, w)
      | Some m \<Rightarrow>
          (case renderingProgram m of
             Some p \<Rightarrow> (Returns (Some p), w)
           | None \<Rightarrow>
               if camera w = None then (Returns None, w)
               else if glContext w = None then (Returns None, w)
               else
                 let vertexShaderName = getVertexShaderName m;
                     fragmentShaderName = getFragmentShaderName m
                 in vertexStage vertexShaderName fragmentShaderName
                      (consoleLog (''Compiling '' @ vertexShaderName @ '' and ''
                                   @ fragmentShaderName) w)))"

section \<open>PPMFileLoader\<close>

text \<open>
  \<open>loadFile\<close> looks the path up in \<open>modelCache\<close>; on a hit it also writes one line to
  the console.
\<close>

definition loadFile :: "string \<Rightarrow> world \<Rightarrow> PPM option \<times> world" where
  "loadFile textureFilePath w =
     (if modelCache w textureFilePath \<noteq> None
      then (modelCache w textureFilePath, consoleLog (textureFilePath @ '' already loaded'') w)
      else (None, w))"

definition URLPrefix :: string where
  "URLPrefix = ''http://localhost:8080/objects/''"

text \<open>
  \<open>loadIntoCache\<close> with its promise run to completion. \<open>network\<close> gives, for a URL,
  either the image parsed from an ok response, or what \<open>console.log(error)\<close> prints for
  the error that the \<open>catch\<close> branch receives (a failed request, a response that is not
  ok, a parse error). On a miss the function has no \<open>return\<close> after the \<open>await\<close>, so it
  resolves to \<open>undefined\<close>.
\<close>

definition loadIntoCache :: "string \<Rightarrow> world \<Rightarrow> PPM option \<times> world" where
  "loadIntoCache textureFilePath w =
     (if modelCache w textureFilePath \<noteq> None
      then (modelCache w textureFilePath, consoleLog (textureFilePath @ '' already loaded'') w)
      else
        let w1 = consoleLog (''>>>>>>>loading into cache'' @ textureFilePath) w;
            fullPath = URLPrefix @ textureFilePath;
            w2 = consoleLog fullPath w1;
            w3 = w2\<lparr>fetched := fetched w2 @ [fullPath]\<rparr>
        in (case network w3 fullPath of
              Inl error \<Rightarrow> (None, consoleLog error w3)
            | Inr img \<Rightarrow>
                (None, consoleLog (''>>>>>>>loaded into cache '' @ textureFilePath)
                         (w3\<lparr>modelCache := (modelCache w3)(textureFilePath \<mapsto> img)\<rparr>))))"

section \<open>setUpLights\<close>

text \<open>
  \<open>sceneData.model!.getVertexShaderName()\<close> on a null model is a \<open>TypeError\<close>.
\<close>

definition setUpLights :: "handle \<Rightarrow> world \<Rightarrow> unit completion \<times> world" where
  "setUpLights shaderProgram w =
     (if glContext w = None then (Returns (), w)
      else case lights w of
        None \<Rightarrow> (Returns (), w)
      | Some ls \<Rightarrow>
          (case model w of
             None \<Rightarrow> (Throws ''TypeError'', w)
           | Some m \<Rightarrow>
               if getVertexShaderName m \<noteq> ''vertexTextureNormalNormalMapShader''
               then (Returns (), w)
               else
                 (case getUniformLocation shaderProgram ''lightsUniform'' w of
                    (None, w1) \<Rightarrow> (Throws ''Failed to get the storage location of hack'', w1)
                  | (Some lightPositionsLocation, w1) \<Rightarrow>
                      let w2 = glDo (Uniform3fv (Some lightPositionsLocation)
                                       (getPositionsFloat32 ls)) w1
                      in (case getUniformLocation shaderProgram ''lightColors'' w2 of
                            (None, w3) \<Rightarrow>
                              (Throws ''Failed to get the storage location of lightColor'', w3)
                          | (Some lightColorsLocation, w3) \<Rightarrow>
                              (Returns (),
                               glDo (Uniform3fv (Some lightColorsLocation)
                                       (getColorsFloat32 ls)) w3)))))"

section \<open>Textures\<close>

text \<open>
  \<open>model.textures.get(textureType)\<close> may be \<open>undefined\<close>; \<open>loadFile(undefined)\<close> misses
  the cache silently.
\<close>

definition setUpTexture ::
  "handle \<Rightarrow> nat \<Rightarrow> string \<Rightarrow> string \<Rightarrow> world \<Rightarrow> handle option completion \<times> world" where
  "setUpTexture shaderProgram textureUnit textureType samplerName w =
     (if glContext w = None then (Returns None, w)
      else case model w of
        None \<Rightarrow> (Returns None, w)
      | Some m \<Rightarrow>
          let (texCoordLocation, w1) = getAttribLocation shaderProgram ''textureCoord'' w;
              w2 = (if texCoordLocation = - 1
                    then consoleLog ''Failed to get the storage location of texCoord'' w1
                    else w1);
              w3 = glDo (EnableVertexAttribArray texCoordLocation) w2;
              w4 = glDo (VertexAttribPointer texCoordLocation 2 (vertexStride m)
                           (textureOffset m)) w3
          in (case glCreate CreateTexture w4 of
                (None, w5) \<Rightarrow> (Returns None, consoleLog ''Failed to create the texture object'' w5)
              | (Some texture, w5) \<Rightarrow>
                  let w6 = glDo (ActiveTexture textureUnit) w5;
                      w7 = glDo (BindTexture texture) w6;
                      w8 = glDo (TexParameteri TEXTURE_WRAP_S_REPEAT) w7;
                      w9 = glDo (TexParameteri TEXTURE_WRAP_T_REPEAT) w8;
                      w10 = glDo (TexParameteri TEXTURE_MIN_FILTER_LINEAR) w9;
                      (ppmIMG, w11) = (case textures m textureType of
                                         None \<Rightarrow> (None, w10)
                                       | Some diffuseTextureName \<Rightarrow> loadFile diffuseTextureName w10)
                  in (case ppmIMG of
                        None \<Rightarrow> (Returns None, consoleLog ''ppmFile is undefined'' w11)
                      | Some img \<Rightarrow>
                          (case ppmData img of
                             None \<Rightarrow> (Returns None, consoleLog ''ppmFile.data is undefined'' w11)
                           | Some pixels \<Rightarrow>
                               (case getUniformLocation shaderProgram samplerName w11 of
                                  (None, w12) \<Rightarrow>
                                    (Throws (''The sampler name '' @ samplerName
                                             @ '' was not found in the program''), w12)
                                | (Some textureLocation, w12) \<Rightarrow>
                                    let w13 = glDo (Uniform1i (Some textureLocation) textureUnit) w12;
                                        w14 = glDo (TexImage2D (ppmWidth img) (ppmHeight img)
                                                      pixels) w13;
                                        w15 = glDo GenerateMipmap w14
                                    in (Returns (Some texture), w15))))))"

definition updateModel :: "(ModelGL \<Rightarrow> ModelGL) \<Rightarrow> world \<Rightarrow> world" where
  "updateModel f w = w\<lparr>model := map_option f (model w)\<rparr>"

text \<open>JavaScript's \<open>%\<close> on numbers: the remainder has the sign of the dividend.\<close>

definition jsRemainder :: "real \<Rightarrow> real \<Rightarrow> real" where
  "jsRemainder a b =
     (if 0 \<le> a / b then a - b * of_int \<lfloor>a / b\<rfloor> else a - b * of_int \<lceil>a / b\<rceil>)"

definition uvData :: "real \<Rightarrow> real list" where
  "uvData now = [sin (jsRemainder now 25000 / 25000 * 2 * pi), 0]"

text \<open>The two \<open>if\<close> blocks of \<open>setUpTextures\<close>, for the diffuse and for the normal map.\<close>

definition setUpDiffuse :: "handle \<Rightarrow> world \<Rightarrow> unit completion \<times> world" where
  "setUpDiffuse shaderProgram w =
     (case model w of
        None \<Rightarrow> (Returns (), w)
      | Some m \<Rightarrow>
          if hasDiffuseMap m then
            (case (if diffuseTexture m = None
                   then (case setUpTexture shaderProgram 0 ''map_Kd'' ''textureSampler'' w of
                           (Throws e, w1) \<Rightarrow> (Throws e, w1)
                         | (Returns t, w1) \<Rightarrow>
                             (Returns t, updateModel (\<lambda>m. m\<lparr>diffuseTexture := t\<rparr>) w1))
                   else (Returns (diffuseTexture m), w)) of
               (Throws e, w2) \<Rightarrow> (Throws e, w2)
             | (Returns None, w2) \<Rightarrow>
                 (Throws ''Failed to set up diffuse texture, it was expected to be there but it was not'', w2)
             | (Returns (Some t), w2) \<Rightarrow> (Returns (), w2))
          else (Returns (), w))"

definition setUpNormal :: "handle \<Rightarrow> world \<Rightarrow> unit completion \<times> world" where
  "setUpNormal shaderProgram w =
     (case model w of
        None \<Rightarrow> (Returns (), w)
      | Some m \<Rightarrow>
          if hasNormalMap m then
            (case (if normalTexture m = None
                   then (case setUpTexture shaderProgram 1 ''map_Bump'' ''normalSampler'' w of
                           (Throws e, w1) \<Rightarrow> (Throws e, w1)
                         | (Returns t, w1) \<Rightarrow>
                             (Returns t, updateModel (\<lambda>m. m\<lparr>normalTexture := t\<rparr>) w1))
                   else (Returns (normalTexture m), w)) of
               (Throws e, w2) \<Rightarrow> (Throws e, w2)
             | (Returns None, w2) \<Rightarrow>
                 (Throws ''Failed to set up normal texture, it was expected to be there but it was not'', w2)
             | (Returns (Some t), w2) \<Rightarrow>
                 let (uvOffsetLocation, w3) = getUniformLocation shaderProgram ''uvOffset'' w2;
                     (now, w4) = performance_now w3
                 in (Returns (), glDo (Uniform2fv uvOffsetLocation (uvData now)) w4))
          else (Returns (), w))"

definition setUpTextures :: "handle \<Rightarrow> world \<Rightarrow> bool completion \<times> world" where
  "setUpTextures shaderProgram w =
     (if glContext w = None then (Returns False, w)
      else if model w = None then (Returns False, w)
      else case setUpDiffuse shaderProgram w of
             (Throws e, w1) \<Rightarrow> (Throws e, w1)
           | (Returns _, w1) \<Rightarrow>
               (case setUpNormal shaderProgram w1 of
                  (Throws e, w2) \<Rightarrow> (Throws e, w2)
                | (Returns _, w2) \<Rightarrow> (Returns True, w2)))"

definition cleanUpTextures :: "world \<Rightarrow> world" where
  "cleanUpTextures w =
     (if glContext w = None then w
      else case model w of
        None \<Rightarrow> w
      | Some m \<Rightarrow>
          let w1 = (if hasDiffuseMap m
                    then (case diffuseTexture m of
                            None \<Rightarrow> w
                          | Some t \<Rightarrow> updateModel (\<lambda>m. m\<lparr>diffuseTexture := None\<rparr>)
                                        (glDo (DeleteTexture t) w))
                    else w)
          in (if hasNormalMap m
              then (case normalTexture m of
                      None \<Rightarrow> w1
                    | Some t \<Rightarrow> updateModel (\<lambda>m. m\<lparr>normalTexture := None\<rparr>)
                                  (glDo (DeleteTexture t) w1))
              else w1))"

section \<open>setUpVertexBuffer\<close>

text \<open>
  From here on \<open>m\<close> is the local variable \<open>model\<close> of \<open>renderLoop\<close>, used for the
  fields that no function writes.
\<close>

definition setUpVertexBuffer :: "ModelGL \<Rightarrow> handle \<Rightarrow> world \<Rightarrow> world" where
  "setUpVertexBuffer m shaderProgram w =
     (let (positionBuffer, w1) = glCreate CreateBuffer w;
          w2 = glDo (BindBuffer ARRAY_BUFFER positionBuffer) w1;
          w3 = glDo (BufferData ARRAY_BUFFER (Floats (packedVertexBuffer m))) w2;
          (indexBuffer, w4) = glCreate CreateBuffer w3;
          w5 = glDo (BindBuffer ELEMENT_ARRAY_BUFFER indexBuffer) w4;
          w6 = glDo (BufferData ELEMENT_ARRAY_BUFFER (Indices (vertexIndices m))) w5;
          (positionLocation, w7) = getAttribLocation shaderProgram ''position'' w6;
          w8 = glDo (EnableVertexAttribArray positionLocation) w7
      in glDo (VertexAttribPointer positionLocation 3 (vertexStride m) 0) w8)"

section \<open>renderLoop\<close>

text \<open>\<open>name.includes(sub)\<close>: \<open>sub\<close> occurs in \<open>name\<close> as a contiguous substring.\<close>

fun includes_str :: "string \<Rightarrow> string \<Rightarrow> bool" where
  "includes_str [] sub = (sub = [])"
| "includes_str (x # xs) sub = (take (length sub) (x # xs) = sub \<or> includes_str xs sub)"

text \<open>How JavaScript prints a non-negative integer.\<close>

function showNat :: "nat \<Rightarrow> string" where
  "showNat n =
     (if n < 10 then [char_of (48 + n)] else showNat (n div 10) @ [char_of (48 + n mod 10)])"
  by pat_completeness auto
termination
  by (relation "measure id") auto

definition setUpNormalAttribute :: "ModelGL \<Rightarrow> handle \<Rightarrow> world \<Rightarrow> world" where
  "setUpNormalAttribute m shaderProgram w =
     (if includes_str (getVertexShaderName m) ''Normal''
      then
        let (normalLocation, w1) = getAttribLocation shaderProgram ''normal'' w;
            w2 = glDo (EnableVertexAttribArray normalLocation) w1
        in glDo (VertexAttribPointer normalLocation 3 (vertexStride m) (normalOffset m)) w2
      else w)"

definition updateCamera :: "(Camera \<Rightarrow> Camera) \<Rightarrow> world \<Rightarrow> world" where
  "updateCamera f w = w\<lparr>camera := map_option f (camera w)\<rparr>"

text \<open>
  The camera gets the scene's size, then the projection, view and model matrices are
  uploaded. The locations are not checked; WebGL ignores an upload to \<open>null\<close>.
\<close>

definition uploadMatrices :: "ModelGL \<Rightarrow> handle \<Rightarrow> world \<Rightarrow> world" where
  "uploadMatrices m shaderProgram w =
     (let w1 = updateCamera (\<lambda>c. c\<lparr>viewPortWidth := width w\<rparr>) w;
          w2 = updateCamera (\<lambda>c. c\<lparr>viewPortHeight := height w1\<rparr>) w1;
          (projectionMatrixLocation, w3) = getUniformLocation shaderProgram ''projectionMatrix'' w2;
          w4 = glDo (UniformMatrix4fv projectionMatrixLocation
                       (case camera w3 of None \<Rightarrow> [] | Some c \<Rightarrow> projectionMatrix c)) w3;
          (viewMatrixLocation, w5) = getUniformLocation shaderProgram ''viewMatrix'' w4;
          w6 = glDo (UniformMatrix4fv viewMatrixLocation
                       (case camera w5 of None \<Rightarrow> [] | Some c \<Rightarrow> viewMatrix c)) w5;
          (modelMatrixLocation, w7) = getUniformLocation shaderProgram ''modelMatrix'' w6
      in glDo (UniformMatrix4fv modelMatrixLocation (getModelMatrix m)) w7)"

text \<open>The whole-canvas viewport and the clear colour, which advances \<open>sceneData.frameNumber\<close>.\<close>

definition clearCanvas :: "world \<Rightarrow> world" where
  "clearCanvas w =
     (let w1 = glDo (Viewport 0 0 (real (canvas_width (gpu w))) (real (canvas_height (gpu w)))) w;
          color = real (sceneFrameNumber w1 mod 255) / 255;
          w2 = w1\<lparr>sceneFrameNumber := sceneFrameNumber w1 + 1\<rparr>
      in glDo (ClearColor color (2 / 10) (6 / 10) (1 / 10)) w2)"

text \<open>
  The viewport of the frame. Canvas sizes are integers, and JavaScript's division by
  two of their difference is exact.
\<close>

definition setViewport :: "Camera \<Rightarrow> world \<Rightarrow> world" where
  "setViewport c w =
     (let canvasWidth = canvas_width (gpu w);
          canvasHeight = canvas_height (gpu w)
      in if \<not> usePerspective c then
           let squareSize = (if canvasWidth > canvasHeight then canvasHeight else canvasWidth);
               xOffset = (real canvasWidth - real squareSize) / 2;
               yOffset = (real canvasHeight - real squareSize) / 2
           in glDo (Viewport xOffset yOffset (real squareSize) (real squareSize)) w
         else glDo (Viewport 0 0 (real canvasWidth) (real canvasHeight)) w)"

text \<open>
  \<open>DrawElements mode count offset\<close> is \<open>gl.drawElements(mode, count, gl.UNSIGNED_SHORT, offset)\<close>,
  the offset in bytes. An undefined \<open>numTriangles\<close> makes the loop condition false at once.
\<close>

function wireframeLoop :: "nat \<Rightarrow> nat \<Rightarrow> world \<Rightarrow> world" where
  "wireframeLoop i n w =
     (if i < n
      then let index = i * 3
           in wireframeLoop (i + 1) n (glDo (DrawElements LINE_LOOP 3 (index * 2)) w)
      else w)"
  by pat_completeness auto
termination
  by (relation "measure (\<lambda>(i, n, w). n - i)") auto

definition drawModel :: "Camera \<Rightarrow> ModelGL \<Rightarrow> world \<Rightarrow> world" where
  "drawModel c m w =
     (if \<not> renderSolid c
      then (case numTriangles m of None \<Rightarrow> w | Some n \<Rightarrow> wireframeLoop 0 n w)
      else glDo (DrawElements TRIANGLES (length (vertexIndices m)) 0) w)"

definition measureFPS :: "world \<Rightarrow> world" where
  "measureFPS w =
     (let w1 = w\<lparr>frameNumber := frameNumber w + 1\<rparr>;
          (now, w2) = performance_now w1
      in if now - lastTime w2 > 1000
         then
           let w3 = w2\<lparr>fps := frameNumber w2\<rparr>;
               w4 = consoleLog (''FPS: '' @ showNat (fps w3)) w3
           in w4\<lparr>frameNumber := 0, lastTime := now\<rparr>
         else w2)"

definition requestAnimationFrame :: "world \<Rightarrow> world" where
  "requestAnimationFrame w = w\<lparr>animationFrameRequests := animationFrameRequests w + 1\<rparr>"

text \<open>The part of \<open>renderLoop\<close> after \<open>setUpTextures\<close>; nothing in it throws.\<close>

definition finishFrame :: "Camera \<Rightarrow> ModelGL \<Rightarrow> handle \<Rightarrow> world \<Rightarrow> world" where
  "finishFrame c m shaderProgram w =
     (let w1 = setUpNormalAttribute m shaderProgram w;
          w2 = uploadMatrices m shaderProgram w1;
          w3 = clearCanvas w2;
          w4 = setViewport c w3;
          w5 = glDo EnableDepthTest w4;
          w6 = drawModel c m w5;
          w7 = glDo Flush w6;
          w8 = glDo Finish w7;
          w9 = measureFPS w8
      in requestAnimationFrame w9)"

definition renderLoop :: "world \<Rightarrow> unit completion \<times> world" where
  "renderLoop w =
     (if glContext w = None then (Returns (), w)
      else case model w of
        None \<Rightarrow> (Returns (), w)
      | Some m \<Rightarrow>
          (case camera w of
             None \<Rightarrow> (Returns (), w)
           | Some c \<Rightarrow>
               (case compileProgram w of
                  (Throws e, w1) \<Rightarrow> (Throws e, w1)
                | (Returns None, w1) \<Rightarrow> (Returns (), w1)
                | (Returns (Some shaderProgram), w1) \<Rightarrow>
                    let w2 = glDo (UseProgram shaderProgram) w1;
                        w3 = setUpVertexBuffer m shaderProgram w2
                    in (case setUpLights shaderProgram w3 of
                          (Throws e, w4) \<Rightarrow> (Throws e, w4)
                        | (Returns _, w4) \<Rightarrow>
                            (case setUpTextures shaderProgram w4 of
                               (Throws e, w5) \<Rightarrow> (Throws e, w5)
                             | (Returns _, w5) \<Rightarrow>
                                 (Returns (), finishFrame c m shaderProgram w5))))))"

section \<open>updateSceneData\<close>

definition updateSceneData :: "ModelGL option \<Rightarrow> Camera option \<Rightarrow> world \<Rightarrow> unit completion \<times> world" where
  "updateSceneData newModel newCamera w =
     (let w1 = cleanUpTextures w;
          w2 = w1\<lparr>camera := newCamera\<rparr>;
          w3 = w2\<lparr>model := newModel\<rparr>
      in if newModel \<noteq> None \<and> newCamera \<noteq> None then renderLoop w3 else (Returns (), w3))"

section \<open>Outcomes of a compilation, and counting calls\<close>

text \<open>
  \<open>compiling\<close>: the guards of \<open>compileProgram\<close> pass and nothing is cached, so the
  shaders get compiled. The next predicates say how far the compilation gets, in terms
  of the driver's answers for the three objects it creates.
\<close>

definition compiling :: "world \<Rightarrow> bool" where
  "compiling w =
     (case model w of
        None \<Rightarrow> False
      | Some m \<Rightarrow> renderingProgram m = None \<and> camera w \<noteq> None \<and> glContext w \<noteq> None)"

definition missingCompileInput :: "world \<Rightarrow> bool" where
  "missingCompileInput w =
     (case model w of
        None \<Rightarrow> True
      | Some m \<Rightarrow> renderingProgram m = None \<and> (camera w = None \<or> glContext w = None))"

definition vertexCompileFails :: "world \<Rightarrow> bool" where
  "vertexCompileFails w =
     (compiling w \<and> createOk (gpu w) (created (gpu w))
      \<and> \<not> compileStatus (gpu w) (created (gpu w)))"

definition fragmentCompileFails :: "world \<Rightarrow> bool" where
  "fragmentCompileFails w =
     (compiling w \<and> createOk (gpu w) (created (gpu w))
      \<and> compileStatus (gpu w) (created (gpu w))
      \<and> createOk (gpu w) (created (gpu w) + 1)
      \<and> \<not> compileStatus (gpu w) (created (gpu w) + 1))"

definition linked :: "world \<Rightarrow> bool" where
  "linked w =
     (compiling w \<and> createOk (gpu w) (created (gpu w))
      \<and> compileStatus (gpu w) (created (gpu w))
      \<and> createOk (gpu w) (created (gpu w) + 1)
      \<and> compileStatus (gpu w) (created (gpu w) + 1)
      \<and> createOk (gpu w) (created (gpu w) + 2))"

definition linkFails :: "world \<Rightarrow> bool" where
  "linkFails w = (linked w \<and> \<not> linkStatus (gpu w) (created (gpu w) + 2))"

definition linkSucceeds :: "world \<Rightarrow> bool" where
  "linkSucceeds w = (linked w \<and> linkStatus (gpu w) (created (gpu w) + 2))"

text \<open>The calls of one complete compile and link, for the fresh handles from \<open>n\<close> on.\<close>

definition compileLinkSequence :: "handle \<Rightarrow> string option \<Rightarrow> string option \<Rightarrow> gl_call list" where
  "compileLinkSequence n vertexShader fragmentShader =
     [CreateShader VERTEX_SHADER, ShaderSource n vertexShader, CompileShader n,
      GetShaderParameter n,
      CreateShader FRAGMENT_SHADER, ShaderSource (n + 1) fragmentShader, CompileShader (n + 1),
      GetShaderParameter (n + 1),
      CreateProgram, AttachShader (n + 2) n, AttachShader (n + 2) (n + 1), LinkProgram (n + 2),
      DeleteShader n, DeleteShader (n + 1), GetProgramParameter (n + 2)]"

fun isLinkProgram :: "gl_call \<Rightarrow> bool" where
  "isLinkProgram (LinkProgram _) = True"
| "isLinkProgram _ = False"

definition linkCount :: "world \<Rightarrow> nat" where
  "linkCount w = length (filter isLinkProgram (calls (gpu w)))"

fun isDrawElements :: "gl_call \<Rightarrow> bool" where
  "isDrawElements (DrawElements _ _ _) = True"
| "isDrawElements _ = False"

definition drawCalls :: "world \<Rightarrow> gl_call list" where
  "drawCalls w = filter isDrawElements (calls (gpu w))"

fun isUniformWrite :: "gl_call \<Rightarrow> bool" where
  "isUniformWrite (Uniform1i _ _) = True"
| "isUniformWrite (Uniform2fv _ _) = True"
| "isUniformWrite (Uniform3fv _ _) = True"
| "isUniformWrite (UniformMatrix4fv _ _) = True"
| "isUniformWrite _ = False"

definition uniformWrites :: "world \<Rightarrow> gl_call list" where
  "uniformWrites w = filter isUniformWrite (calls (gpu w))"

text \<open>The viewport and draw calls of the log, in order: what the frame renders with.\<close>

fun isViewport :: "gl_call \<Rightarrow> bool" where
  "isViewport (Viewport _ _ _ _) = True"
| "isViewport _ = False"

definition renderingCalls :: "world \<Rightarrow> gl_call list" where
  "renderingCalls w = filter (\<lambda>c. isViewport c \<or> isDrawElements c) (calls (gpu w))"

text \<open>
  What the functions that run between the guards of \<open>renderLoop\<close> and the end of its
  texture setup leave alone: everything but the call log, the creation counter, the
  console, the number of clock readings and the model, and in the call log the viewport
  and draw calls.
\<close>

definition setupPreserves :: "world \<Rightarrow> world \<Rightarrow> bool" where
  "setupPreserves w w' =
     (glContext w' = glContext w \<and> camera w' = camera w \<and> lights w' = lights w
      \<and> modelCache w' = modelCache w
      \<and> animationFrameRequests w' = animationFrameRequests w
      \<and> frameNumber w' = frameNumber w \<and> fps w' = fps w \<and> lastTime w' = lastTime w
      \<and> clock w' = clock w
      \<and> canvas_width (gpu w') = canvas_width (gpu w)
      \<and> canvas_height (gpu w') = canvas_height (gpu w)
      \<and> createOk (gpu w') = createOk (gpu w)
      \<and> uniformDeclared (gpu w') = uniformDeclared (gpu w)
      \<and> attribLocation (gpu w') = attribLocation (gpu w)
      \<and> drawCalls w' = drawCalls w
      \<and> renderingCalls w' = renderingCalls w)"

text \<open>The lights upload of \<open>setUpLights\<close> is due: context, lights and the shader name.\<close>

definition lightsDue :: "world \<Rightarrow> bool" where
  "lightsDue w =
     (glContext w \<noteq> None \<and> lights w \<noteq> None
      \<and> (case model w of
            None \<Rightarrow> False
          | Some m \<Rightarrow> getVertexShaderName m = ''vertexTextureNormalNormalMapShader''))"

text \<open>The pixel data of the model's texture of the given type is not in the loader's cache.\<close>

definition textureDataMissing :: "string \<Rightarrow> world \<Rightarrow> bool" where
  "textureDataMissing textureType w =
     (case model w of
        None \<Rightarrow> False
      | Some m \<Rightarrow>
          (case textures m textureType of
             None \<Rightarrow> True
           | Some name \<Rightarrow>
               (case modelCache w name of None \<Rightarrow> True | Some img \<Rightarrow> ppmData img = None)))"

text \<open>
  The invariant of the data model: a texture handle is set only if the model has the
  corresponding map.
\<close>

definition textureInvariant :: "ModelGL \<Rightarrow> bool" where
  "textureInvariant m =
     ((diffuseTexture m \<noteq> None \<longrightarrow> hasDiffuseMap m)
      \<and> (normalTexture m \<noteq> None \<longrightarrow> hasNormalMap m))"

section \<open>Example scenes\<close>

definition okGpu :: webgl where
  "okGpu = \<lparr>canvas_width = 800, canvas_height = 600, calls = [], created = 0,
            createOk = (\<lambda>_. True), compileStatus = (\<lambda>_. True), shaderInfoLog = (\<lambda>_. []),
            linkStatus = (\<lambda>_. True), uniformDeclared = (\<lambda>_ _. True),
            attribLocation = (\<lambda>_ _. 0)\<rparr>"

definition okModel :: ModelGL where
  "okModel = \<lparr>renderingProgram = None,
              getVertexShaderName = ''vertexTextureNormalNormalMapShader'',
              getFragmentShaderName = ''fragmentTextureNormalNormalMapShader'',
              hasDiffuseMap = True, hasNormalMap = True,
              diffuseTexture = None, normalTexture = None,
              textures = [''map_Kd'' \<mapsto> ''d.ppm'', ''map_Bump'' \<mapsto> ''n.ppm''],
              vertexStride = 32, textureOffset = 12, normalOffset = 20,
              packedVertexBuffer = [], vertexIndices = [0, 1, 2, 2, 1, 3],
              numTriangles = Some 2, getModelMatrix = []\<rparr>"

definition okCamera :: Camera where
  "okCamera = \<lparr>usePerspective = False, renderSolid = True, viewPortWidth = 0,
               viewPortHeight = 0, projectionMatrixFor = (\<lambda>_ _. []), viewMatrix = []\<rparr>"

definition okImage :: PPM where
  "okImage = \<lparr>ppmWidth = 1, ppmHeight = 1, ppmData = Some [255, 255, 255]\<rparr>"

definition okWorld :: world where
  "okWorld = \<lparr>gpu = okGpu, glContext = Some (), model = Some okModel, camera = Some okCamera,
              lights = Some [], width = 800, height = 600, sceneFrameNumber = 0,
              fps = 0, lastTime = 0, frameNumber = 0, console = [],
              modelCache = [''d.ppm'' \<mapsto> okImage, ''n.ppm'' \<mapsto> okImage],
              fetched = [], network = (\<lambda>_. Inl ''Error: Network response was not ok''),
              shaderSourceCodeMap = Map.empty,
              clock = (\<lambda>_. 0), clockReads = 0, animationFrameRequests = 0\<rparr>"

text \<open>The scene with a program already cached on the model.\<close>

definition cachedWorld :: world where
  "cachedWorld = okWorld\<lparr>model := Some (okModel\<lparr>renderingProgram := Some 7\<rparr>)\<rparr>"

text \<open>Scenes whose driver rejects the vertex shader, or the link.\<close>

definition vertexFailWorld :: world where
  "vertexFailWorld = okWorld\<lparr>gpu := okGpu\<lparr>compileStatus := (\<lambda>_. False)\<rparr>\<rparr>"

definition linkFailWorld :: world where
  "linkFailWorld = okWorld\<lparr>gpu := okGpu\<lparr>linkStatus := (\<lambda>_. False)\<rparr>\<rparr>"

text \<open>A scene whose texture files have not been loaded into the cache yet.\<close>

definition textureMissingWorld :: world where
  "textureMissingWorld = cachedWorld\<lparr>modelCache := Map.empty\<rparr>"

text \<open>Scenes whose program declares no lights array, or no diffuse sampler.\<close>

definition noLightsUniformWorld :: world where
  "noLightsUniformWorld =
     cachedWorld\<lparr>gpu := okGpu\<lparr>uniformDeclared := (\<lambda>_ name. name \<noteq> ''lightsUniform'')\<rparr>\<rparr>"

definition noSamplerWorld :: world where
  "noSamplerWorld =
     cachedWorld\<lparr>gpu := okGpu\<lparr>uniformDeclared := (\<lambda>_ name. name \<noteq> ''textureSampler'')\<rparr>\<rparr>"

text \<open>A model with both textures set up.\<close>

definition texturedModel :: ModelGL where
  "texturedModel = okModel\<lparr>diffuseTexture := Some 3, normalTexture := Some 4\<rparr>"

definition texturedWorld :: world where
  "texturedWorld = okWorld\<lparr>model := Some texturedModel, gpu := okGpu\<lparr>created := 5\<rparr>\<rparr>"

text \<open>A model whose vertex shader name contains \<open>Normal\<close> but is not the gated one.\<close>

definition normalShaderWorld :: world where
  "normalShaderWorld =
     okWorld\<lparr>model := Some (okModel\<lparr>getVertexShaderName := ''vertexTextureNormalShader''\<rparr>)\<rparr>"

text \<open>59 frames counted so far in a window that started at time 0.\<close>

definition fpsWorld :: "real \<Rightarrow> world" where
  "fpsWorld now = okWorld\<lparr>frameNumber := 59, clock := (\<lambda>_. now)\<rparr>"

section \<open>Texture deletions, and the frame up to its texture setup\<close>

text \<open>The deletions \<open>cleanUpTextures\<close> issues for a model, in order.\<close>

definition deletedTextures :: "ModelGL \<Rightarrow> gl_call list" where
  "deletedTextures m =
     (if hasDiffuseMap m
      then (case diffuseTexture m of None \<Rightarrow> [] | Some t \<Rightarrow> [DeleteTexture t]) else [])
     @ (if hasNormalMap m
        then (case normalTexture m of None \<Rightarrow> [] | Some t \<Rightarrow> [DeleteTexture t]) else [])"

text \<open>
  The world in which \<open>renderLoop\<close> calls \<open>setUpTextures\<close>, from the world \<open>compileProgram\<close>
  left: the program is bound, the buffers are uploaded and the lights are set up.
\<close>

definition frameSetup :: "ModelGL \<Rightarrow> handle \<Rightarrow> world \<Rightarrow> world" where
  "frameSetup m shaderProgram w =
     snd (setUpLights shaderProgram
            (setUpVertexBuffer m shaderProgram (glDo (UseProgram shaderProgram) w)))"

text \<open>
  The frame gets as far as its texture setup with program \<open>p\<close>: the guards pass, the
  program compiles or is cached, and the lights upload, if due, finds its two arrays.
\<close>

definition frameReachesTextures :: "world \<Rightarrow> handle \<Rightarrow> bool" where
  "frameReachesTextures w p =
     (glContext w \<noteq> None \<and> model w \<noteq> None \<and> camera w \<noteq> None
      \<and> fst (compileProgram w) = Returns (Some p)
      \<and> (lightsDue w \<longrightarrow> uniformDeclared (gpu w) p ''lightsUniform''
                         \<and> uniformDeclared (gpu w) p ''lightColors''))"

text \<open>The number of objects the frame has created when it comes to its first texture.\<close>

definition createdBeforeTextures :: "world \<Rightarrow> nat" where
  "createdBeforeTextures w = created (gpu w) + (if compiling w then 5 else 2)"

text \<open>
  The diffuse block of \<open>setUpTextures\<close> in that world returns: there is nothing to
  create, or the texture object is created, its data is cached and the program declares
  the sampler. The normal texture is then the next object created.
\<close>

definition diffuseSetupPasses :: "world \<Rightarrow> handle \<Rightarrow> ModelGL \<Rightarrow> bool" where
  "diffuseSetupPasses w p m =
     (\<not> hasDiffuseMap m \<or> diffuseTexture m \<noteq> None
      \<or> (createOk (gpu w) (createdBeforeTextures w)
          \<and> \<not> textureDataMissing ''map_Kd'' w
          \<and> uniformDeclared (gpu w) p ''textureSampler''))"

definition createdBeforeNormal :: "world \<Rightarrow> ModelGL \<Rightarrow> nat" where
  "createdBeforeNormal w m =
     createdBeforeTextures w + (if hasDiffuseMap m \<and> diffuseTexture m = None then 1 else 0)"

text \<open>The normal block returns likewise, in the world the diffuse block has left.\<close>

definition normalSetupPasses :: "world \<Rightarrow> handle \<Rightarrow> ModelGL \<Rightarrow> bool" where
  "normalSetupPasses w p m =
     (\<not> hasNormalMap m \<or> normalTexture m \<noteq> None
      \<or> (createOk (gpu w) (createdBeforeNormal w m)
          \<and> \<not> textureDataMissing ''map_Bump'' w
          \<and> uniformDeclared (gpu w) p ''normalSampler''))"

text \<open>
  The frame gets through its whole setup, so that \<open>renderLoop\<close> goes on to draw: the
  guards pass, \<open>compileProgram\<close> returns a program, and neither \<open>setUpLights\<close> nor
  \<open>setUpTextures\<close> throws.
\<close>

definition frameCompletes :: "world \<Rightarrow> bool" where
  "frameCompletes w =
     (glContext w \<noteq> None \<and> camera w \<noteq> None
      \<and> (case model w of
            None \<Rightarrow> False
          | Some m \<Rightarrow>
              (case fst (compileProgram w) of
                 Throws _ \<Rightarrow> False
               | Returns None \<Rightarrow> False
               | Returns (Some p) \<Rightarrow>
                   (case fst (setUpLights p
                                (setUpVertexBuffer m p
                                   (glDo (UseProgram p) (snd (compileProgram w))))) of
                      Throws _ \<Rightarrow> False
                    | Returns _ \<Rightarrow>
                        (case fst (setUpTextures p (frameSetup m p (snd (compileProgram w)))) of
                           Throws _ \<Rightarrow> False
                         | Returns _ \<Rightarrow> True)))))"

text \<open>The draw calls of the frame's draw step, for its camera and model.\<close>

definition frameDrawCalls :: "Camera \<Rightarrow> ModelGL \<Rightarrow> gl_call list" where
  "frameDrawCalls c m =
     (if renderSolid c then [DrawElements TRIANGLES (length (vertexIndices m)) 0]
      else (case numTriangles m of
              None \<Rightarrow> []
            | Some n \<Rightarrow> map (\<lambda>i. DrawElements LINE_LOOP 3 (3 * i * 2)) [0..<n]))"

text \<open>
  The invariant of the scene that the renderer keeps: a texture handle of the active
  model is set only if the model has the corresponding map, and then it is an object
  that the context has created.
\<close>

definition sceneInvariant :: "world \<Rightarrow> bool" where
  "sceneInvariant w =
     (case model w of
        None \<Rightarrow> True
      | Some m \<Rightarrow>
          textureInvariant m
          \<and> (case diffuseTexture m of
                None \<Rightarrow> True
              | Some t \<Rightarrow> glContext w \<noteq> None \<and> t < created (gpu w))
          \<and> (case normalTexture m of
                None \<Rightarrow> True
              | Some t \<Rightarrow> glContext w \<noteq> None \<and> t < created (gpu w)))"

text \<open>Further scenes: missing normal-map data or sampler, wireframe, portrait canvas.\<close>

definition normalMissingWorld :: world where
  "normalMissingWorld = cachedWorld\<lparr>modelCache := [''d.ppm'' \<mapsto> okImage]\<rparr>"

definition noNormalSamplerWorld :: world where
  "noNormalSamplerWorld =
     cachedWorld\<lparr>gpu := okGpu\<lparr>uniformDeclared := (\<lambda>_ name. name \<noteq> ''normalSampler'')\<rparr>\<rparr>"

definition wireframeWorld :: world where
  "wireframeWorld = cachedWorld\<lparr>camera := Some (okCamera\<lparr>renderSolid := False\<rparr>)\<rparr>"

definition portraitWorld :: world where
  "portraitWorld = cachedWorld\<lparr>gpu := okGpu\<lparr>canvas_width := 600, canvas_height := 800\<rparr>\<rparr>"

definition perspectiveWorld :: world where
  "perspectiveWorld = cachedWorld\<lparr>camera := Some (okCamera\<lparr>usePerspective := True\<rparr>)\<rparr>"

text \<open>The 60th frame of a window that started at time 0, rendered at time \<open>now\<close>.\<close>

definition fpsFrameWorld :: "real \<Rightarrow> world" where
  "fpsFrameWorld now = cachedWorld\<lparr>frameNumber := 59, clock := (\<lambda>_. now)\<rparr>"

section \<open>What the primitive operations change\<close>

text \<open>
  Each primitive touches one or two fields; the equations below read every field after
  it, so that later proofs never unfold a primitive.
\<close>

lemma glDo_fields [simp]:
  "canvas_width (gpu (glDo c w)) = canvas_width (gpu w)"
  "canvas_height (gpu (glDo c w)) = canvas_height (gpu w)"
  "created (gpu (glDo c w)) = created (gpu w)"
  "createOk (gpu (glDo c w)) = createOk (gpu w)"
  "compileStatus (gpu (glDo c w)) = compileStatus (gpu w)"
  "shaderInfoLog (gpu (glDo c w)) = shaderInfoLog (gpu w)"
  "linkStatus (gpu (glDo c w)) = linkStatus (gpu w)"
  "uniformDeclared (gpu (glDo c w)) = uniformDeclared (gpu w)"
  "attribLocation (gpu (glDo c w)) = attribLocation (gpu w)"
  "glContext (glDo c w) = glContext w"
  "model (glDo c w) = model w"
  "camera (glDo c w) = camera w"
  "lights (glDo c w) = lights w"
  "width (glDo c w) = width w"
  "height (glDo c w) = height w"
  "sceneFrameNumber (glDo c w) = sceneFrameNumber w"
  "fps (glDo c w) = fps w"
  "lastTime (glDo c w) = lastTime w"
  "frameNumber (glDo c w) = frameNumber w"
  "console (glDo c w) = console w"
  "modelCache (glDo c w) = modelCache w"
  "fetched (glDo c w) = fetched w"
  "network (glDo c w) = network w"
  "shaderSourceCodeMap (glDo c w) = shaderSourceCodeMap w"
  "clock (glDo c w) = clock w"
  "clockReads (glDo c w) = clockReads w"
  "animationFrameRequests (glDo c w) = animationFrameRequests w"
  "calls (gpu (glDo c w)) = calls (gpu w) @ [c]"
  by (simp_all add: glDo_def)

lemma glCreate_fields [simp]:
  "canvas_width (gpu (snd (glCreate c w))) = canvas_width (gpu w)"
  "canvas_height (gpu (snd (glCreate c w))) = canvas_height (gpu w)"
  "createOk (gpu (snd (glCreate c w))) = createOk (gpu w)"
  "compileStatus (gpu (snd (glCreate c w))) = compileStatus (gpu w)"
  "shaderInfoLog (gpu (snd (glCreate c w))) = shaderInfoLog (gpu w)"
  "linkStatus (gpu (snd (glCreate c w))) = linkStatus (gpu w)"
  "uniformDeclared (gpu (snd (glCreate c w))) = uniformDeclared (gpu w)"
  "attribLocation (gpu (snd (glCreate c w))) = attribLocation (gpu w)"
  "glContext (snd (glCreate c w)) = glContext w"
  "model (snd (glCreate c w)) = model w"
  "camera (snd (glCreate c w)) = camera w"
  "lights (snd (glCreate c w)) = lights w"
  "width (snd (glCreate c w)) = width w"
  "height (snd (glCreate c w)) = height w"
  "sceneFrameNumber (snd (glCreate c w)) = sceneFrameNumber w"
  "fps (snd (glCreate c w)) = fps w"
  "lastTime (snd (glCreate c w)) = lastTime w"
  "frameNumber (snd (glCreate c w)) = frameNumber w"
  "console (snd (glCreate c w)) = console w"
  "modelCache (snd (glCreate c w)) = modelCache w"
  "fetched (snd (glCreate c w)) = fetched w"
  "network (snd (glCreate c w)) = network w"
  "shaderSourceCodeMap (snd (glCreate c w)) = shaderSourceCodeMap w"
  "clock (snd (glCreate c w)) = clock w"
  "clockReads (snd (glCreate c w)) = clockReads w"
  "animationFrameRequests (snd (glCreate c w)) = animationFrameRequests w"
  "calls (gpu (snd (glCreate c w))) = calls (gpu w) @ [c]"
  "created (gpu (snd (glCreate c w))) = Suc (created (gpu w))"
  "fst (glCreate c w) = (if createOk (gpu w) (created (gpu w)) then Some (created (gpu w)) else None)"
  by (simp_all add: glCreate_def Let_def)

lemma consoleLog_fields [simp]:
  "gpu (consoleLog s w) = gpu w"
  "glContext (consoleLog s w) = glContext w"
  "model (consoleLog s w) = model w"
  "camera (consoleLog s w) = camera w"
  "lights (consoleLog s w) = lights w"
  "width (consoleLog s w) = width w"
  "height (consoleLog s w) = height w"
  "sceneFrameNumber (consoleLog s w) = sceneFrameNumber w"
  "fps (consoleLog s w) = fps w"
  "lastTime (consoleLog s w) = lastTime w"
  "frameNumber (consoleLog s w) = frameNumber w"
  "modelCache (consoleLog s w) = modelCache w"
  "fetched (consoleLog s w) = fetched w"
  "network (consoleLog s w) = network w"
  "shaderSourceCodeMap (consoleLog s w) = shaderSourceCodeMap w"
  "clock (consoleLog s w) = clock w"
  "clockReads (consoleLog s w) = clockReads w"
  "animationFrameRequests (consoleLog s w) = animationFrameRequests w"
  "console (consoleLog s w) = console w @ [ConsoleLog s]"
  by (simp_all add: consoleLog_def)

lemma consoleError_fields [simp]:
  "gpu (consoleError s w) = gpu w"
  "glContext (consoleError s w) = glContext w"
  "model (consoleError s w) = model w"
  "camera (consoleError s w) = camera w"
  "lights (consoleError s w) = lights w"
  "width (consoleError s w) = width w"
  "height (consoleError s w) = height w"
  "sceneFrameNumber (consoleError s w) = sceneFrameNumber w"
  "fps (consoleError s w) = fps w"
  "lastTime (consoleError s w) = lastTime w"
  "frameNumber (consoleError s w) = frameNumber w"
  "modelCache (consoleError s w) = modelCache w"
  "fetched (consoleError s w) = fetched w"
  "network (consoleError s w) = network w"
  "shaderSourceCodeMap (consoleError s w) = shaderSourceCodeMap w"
  "clock (consoleError s w) = clock w"
  "clockReads (consoleError s w) = clockReads w"
  "animationFrameRequests (consoleError s w) = animationFrameRequests w"
  "console (consoleError s w) = console w @ [ConsoleError s]"
  by (simp_all add: consoleError_def)

lemma performance_now_fields [simp]:
  "gpu (snd (performance_now w)) = gpu w"
  "glContext (snd (performance_now w)) = glContext w"
  "model (snd (performance_now w)) = model w"
  "camera (snd (performance_now w)) = camera w"
  "lights (snd (performance_now w)) = lights w"
  "width (snd (performance_now w)) = width w"
  "height (snd (performance_now w)) = height w"
  "sceneFrameNumber (snd (performance_now w)) = sceneFrameNumber w"
  "fps (snd (performance_now w)) = fps w"
  "lastTime (snd (performance_now w)) = lastTime w"
  "frameNumber (snd (performance_now w)) = frameNumber w"
  "console (snd (performance_now w)) = console w"
  "modelCache (snd (performance_now w)) = modelCache w"
  "fetched (snd (performance_now w)) = fetched w"
  "network (snd (performance_now w)) = network w"
  "shaderSourceCodeMap (snd (performance_now w)) = shaderSourceCodeMap w"
  "clock (snd (performance_now w)) = clock w"
  "animationFrameRequests (snd (performance_now w)) = animationFrameRequests w"
  "clockReads (snd (performance_now w)) = Suc (clockReads w)"
  "fst (performance_now w) = clock w (clockReads w)"
  by (simp_all add: performance_now_def)

lemma updateModel_fields [simp]:
  "gpu (updateModel f w) = gpu w"
  "glContext (updateModel f w) = glContext w"
  "camera (updateModel f w) = camera w"
  "lights (updateModel f w) = lights w"
  "width (updateModel f w) = width w"
  "height (updateModel f w) = height w"
  "sceneFrameNumber (updateModel f w) = sceneFrameNumber w"
  "fps (updateModel f w) = fps w"
  "lastTime (updateModel f w) = lastTime w"
  "frameNumber (updateModel f w) = frameNumber w"
  "console (updateModel f w) = console w"
  "modelCache (updateModel f w) = modelCache w"
  "fetched (updateModel f w) = fetched w"
  "network (updateModel f w) = network w"
  "shaderSourceCodeMap (updateModel f w) = shaderSourceCodeMap w"
  "clock (updateModel f w) = clock w"
  "clockReads (updateModel f w) = clockReads w"
  "animationFrameRequests (updateModel f w) = animationFrameRequests w"
  "model (updateModel f w) = map_option f (model w)"
  by (simp_all add: updateModel_def)

lemma updateCamera_fields [simp]:
  "gpu (updateCamera f w) = gpu w"
  "glContext (updateCamera f w) = glContext w"
  "model (updateCamera f w) = model w"
  "lights (updateCamera f w) = lights w"
  "width (updateCamera f w) = width w"
  "height (updateCamera f w) = height w"
  "sceneFrameNumber (updateCamera f w) = sceneFrameNumber w"
  "fps (updateCamera f w) = fps w"
  "lastTime (updateCamera f w) = lastTime w"
  "frameNumber (updateCamera f w) = frameNumber w"
  "console (updateCamera f w) = console w"
  "modelCache (updateCamera f w) = modelCache w"
  "fetched (updateCamera f w) = fetched w"
  "network (updateCamera f w) = network w"
  "shaderSourceCodeMap (updateCamera f w) = shaderSourceCodeMap w"
  "clock (updateCamera f w) = clock w"
  "clockReads (updateCamera f w) = clockReads w"
  "animationFrameRequests (updateCamera f w) = animationFrameRequests w"
  "camera (updateCamera f w) = map_option f (camera w)"
  by (simp_all add: updateCamera_def)

lemma requestAnimationFrame_fields [simp]:
  "gpu (requestAnimationFrame w) = gpu w"
  "glContext (requestAnimationFrame w) = glContext w"
  "model (requestAnimationFrame w) = model w"
  "camera (requestAnimationFrame w) = camera w"
  "lights (requestAnimationFrame w) = lights w"
  "width (requestAnimationFrame w) = width w"
  "height (requestAnimationFrame w) = height w"
  "sceneFrameNumber (requestAnimationFrame w) = sceneFrameNumber w"
  "fps (requestAnimationFrame w) = fps w"
  "lastTime (requestAnimationFrame w) = lastTime w"
  "frameNumber (requestAnimationFrame w) = frameNumber w"
  "console (requestAnimationFrame w) = console w"
  "modelCache (requestAnimationFrame w) = modelCache w"
  "fetched (requestAnimationFrame w) = fetched w"
  "network (requestAnimationFrame w) = network w"
  "shaderSourceCodeMap (requestAnimationFrame w) = shaderSourceCodeMap w"
  "clock (requestAnimationFrame w) = clock w"
  "clockReads (requestAnimationFrame w) = clockReads w"
  "animationFrameRequests (requestAnimationFrame w) = Suc (animationFrameRequests w)"
  by (simp_all add: requestAnimationFrame_def)

lemma getUniformLocation_simps [simp]:
  "fst (getUniformLocation p name w) = (if uniformDeclared (gpu w) p name then Some (p, name) else None)"
  "snd (getUniformLocation p name w) = glDo (GetUniformLocation p name) w"
  by (simp_all add: getUniformLocation_def)

lemma getAttribLocation_simps [simp]:
  "fst (getAttribLocation p name w) = attribLocation (gpu w) p name"
  "snd (getAttribLocation p name w) = glDo (GetAttribLocation p name) w"
  by (simp_all add: getAttribLocation_def)

lemma model_field_update [simp]:
  "gpu (w\<lparr>model := x\<rparr>) = gpu w" "glContext (w\<lparr>model := x\<rparr>) = glContext w"
  "model (w\<lparr>model := x\<rparr>) = x"
  by simp_all

lemma drawCalls_simps [simp]:
  "drawCalls (glDo c w) = drawCalls w @ (if isDrawElements c then [c] else [])"
  "drawCalls (snd (glCreate c w)) = drawCalls w @ (if isDrawElements c then [c] else [])"
  "drawCalls (consoleLog s w) = drawCalls w"
  "drawCalls (consoleError s w) = drawCalls w"
  "drawCalls (snd (performance_now w)) = drawCalls w"
  "drawCalls (updateModel f w) = drawCalls w"
  "drawCalls (updateCamera g w) = drawCalls w"
  "drawCalls (requestAnimationFrame w) = drawCalls w"
  "drawCalls (w\<lparr>model := x\<rparr>) = drawCalls w"
  by (simp_all add: drawCalls_def)

lemma linkCount_simps [simp]:
  "linkCount (glDo c w) = linkCount w + (if isLinkProgram c then 1 else 0)"
  "linkCount (snd (glCreate c w)) = linkCount w + (if isLinkProgram c then 1 else 0)"
  "linkCount (consoleLog s w) = linkCount w"
  "linkCount (consoleError s w) = linkCount w"
  "linkCount (w\<lparr>model := x\<rparr>) = linkCount w"
  by (simp_all add: linkCount_def)

lemma uniformWrites_simps [simp]:
  "uniformWrites (glDo c w) = uniformWrites w @ (if isUniformWrite c then [c] else [])"
  "uniformWrites (snd (glCreate c w)) = uniformWrites w @ (if isUniformWrite c then [c] else [])"
  "uniformWrites (consoleLog s w) = uniformWrites w"
  "uniformWrites (consoleError s w) = uniformWrites w"
  by (simp_all add: uniformWrites_def)

lemma setupPreserves_refl [simp]: "setupPreserves w w"
  by (simp add: setupPreserves_def)

lemma setupPreserves_trans:
  "setupPreserves w w1 \<Longrightarrow> setupPreserves w1 w2 \<Longrightarrow> setupPreserves w w2"
  by (simp add: setupPreserves_def)

lemma renderingCalls_simps [simp]:
  "renderingCalls (glDo c w) =
     renderingCalls w @ (if isViewport c \<or> isDrawElements c then [c] else [])"
  "renderingCalls (snd (glCreate c w)) =
     renderingCalls w @ (if isViewport c \<or> isDrawElements c then [c] else [])"
  "renderingCalls (consoleLog s w) = renderingCalls w"
  "renderingCalls (consoleError s w) = renderingCalls w"
  "renderingCalls (snd (performance_now w)) = renderingCalls w"
  "renderingCalls (updateModel f w) = renderingCalls w"
  "renderingCalls (updateCamera g w) = renderingCalls w"
  "renderingCalls (requestAnimationFrame w) = renderingCalls w"
  "renderingCalls (w\<lparr>model := x\<rparr>) = renderingCalls w"
  by (simp_all add: renderingCalls_def)

lemma setupPreserves_simps [simp]:
  "\<not> isDrawElements c \<Longrightarrow> \<not> isViewport c \<Longrightarrow>
   setupPreserves w (glDo c w') = setupPreserves w w'"
  "\<not> isDrawElements c \<Longrightarrow> \<not> isViewport c \<Longrightarrow>
   setupPreserves w (snd (glCreate c w')) = setupPreserves w w'"
  "setupPreserves w (consoleLog s w') = setupPreserves w w'"
  "setupPreserves w (consoleError s w') = setupPreserves w w'"
  "setupPreserves w (snd (performance_now w')) = setupPreserves w w'"
  "setupPreserves w (updateModel f w') = setupPreserves w w'"
  "setupPreserves w (w'\<lparr>model := x\<rparr>) = setupPreserves w w'"
  by (simp_all add: setupPreserves_def)

section \<open>Selecting from the example scenes\<close>

lemma okWorld_sel [simp]:
  "gpu okWorld = okGpu" "glContext okWorld = Some ()" "model okWorld = Some okModel"
  "camera okWorld = Some okCamera" "lights okWorld = Some []" "width okWorld = 800"
  "height okWorld = 600" "sceneFrameNumber okWorld = 0" "fps okWorld = 0"
  "lastTime okWorld = 0" "frameNumber okWorld = 0" "console okWorld = []"
  "modelCache okWorld = [''d.ppm'' \<mapsto> okImage, ''n.ppm'' \<mapsto> okImage]"
  "fetched okWorld = []" "clock okWorld = (\<lambda>_. 0)" "clockReads okWorld = 0"
  "animationFrameRequests okWorld = 0"
  by (simp_all add: okWorld_def)

lemma okGpu_sel [simp]:
  "canvas_width okGpu = 800" "canvas_height okGpu = 600" "calls okGpu = []"
  "created okGpu = 0" "createOk okGpu = (\<lambda>_. True)" "compileStatus okGpu = (\<lambda>_. True)"
  "linkStatus okGpu = (\<lambda>_. True)" "uniformDeclared okGpu = (\<lambda>_ _. True)"
  "attribLocation okGpu = (\<lambda>_ _. 0)"
  by (simp_all add: okGpu_def)

lemma okModel_sel [simp]:
  "renderingProgram okModel = None"
  "getVertexShaderName okModel = ''vertexTextureNormalNormalMapShader''"
  "hasDiffuseMap okModel" "hasNormalMap okModel"
  "diffuseTexture okModel = None" "normalTexture okModel = None"
  "textures okModel = [''map_Kd'' \<mapsto> ''d.ppm'', ''map_Bump'' \<mapsto> ''n.ppm'']"
  "vertexIndices okModel = [0, 1, 2, 2, 1, 3]" "numTriangles okModel = Some 2"
  by (simp_all add: okModel_def)

lemma okCamera_sel [simp]:
  "usePerspective okCamera = False" "renderSolid okCamera = True"
  by (simp_all add: okCamera_def)

lemma okImage_sel [simp]:
  "ppmData okImage = Some [255, 255, 255]" "ppmWidth okImage = 1" "ppmHeight okImage = 1"
  by (simp_all add: okImage_def)

section \<open>compileProgram: the paths\<close>

lemmas compile_defs = compileProgram_def vertexStage_def fragmentStage_def linkStage_def
  Let_def case_prod_unfold

lemmas outcome_defs = compiling_def missingCompileInput_def vertexCompileFails_def
  fragmentCompileFails_def linked_def linkFails_def linkSucceeds_def

lemma compileProgram_hit:
  "model w = Some m \<Longrightarrow> renderingProgram m = Some p \<Longrightarrow>
   compileProgram w = (Returns (Some p), w)"
  by (simp add: compileProgram_def)

lemma compileProgram_not_compiling: "\<not> compiling w \<Longrightarrow> snd (compileProgram w) = w"
  by (auto simp: compileProgram_def compiling_def split: option.splits)

lemma compileProgram_linkSucceeds:
  assumes "linkSucceeds w" "model w = Some m"
  shows "fst (compileProgram w) = Returns (Some (created (gpu w) + 2))"
    and "calls (gpu (snd (compileProgram w))) =
           calls (gpu w) @ compileLinkSequence (created (gpu w))
                             (shaderSourceCodeMap w (getVertexShaderName m))
                             (shaderSourceCodeMap w (getFragmentShaderName m))"
    and "created (gpu (snd (compileProgram w))) = created (gpu w) + 3"
    and "model (snd (compileProgram w)) =
           Some (m\<lparr>renderingProgram := Some (created (gpu w) + 2)\<rparr>)"
    and "linkCount (snd (compileProgram w)) = linkCount w + 1"
  using assms
  by (auto simp: outcome_defs compile_defs compileLinkSequence_def)

lemma compileProgram_linkFails:
  assumes "linkFails w" "model w = Some m"
  shows "fst (compileProgram w) = Returns None"
    and "calls (gpu (snd (compileProgram w))) =
           calls (gpu w) @ compileLinkSequence (created (gpu w))
                             (shaderSourceCodeMap w (getVertexShaderName m))
                             (shaderSourceCodeMap w (getFragmentShaderName m))"
    and "created (gpu (snd (compileProgram w))) = created (gpu w) + 3"
    and "model (snd (compileProgram w)) = Some m"
    and "linkCount (snd (compileProgram w)) = linkCount w + 1"
    and "linkFails (snd (compileProgram w)) =
           (createOk (gpu w) (created (gpu w) + 3) \<and> compileStatus (gpu w) (created (gpu w) + 3)
            \<and> createOk (gpu w) (created (gpu w) + 4) \<and> compileStatus (gpu w) (created (gpu w) + 4)
            \<and> createOk (gpu w) (created (gpu w) + 5) \<and> \<not> linkStatus (gpu w) (created (gpu w) + 5))"
  using assms
  by (auto simp: outcome_defs compile_defs compileLinkSequence_def numeral_eq_Suc)

lemma compileProgram_returns_Some:
  assumes "compileProgram w = (Returns (Some p), w1)"
  shows "(\<exists>m. model w = Some m \<and> renderingProgram m = Some p \<and> w1 = w) \<or> linkSucceeds w"
  using assms
  by (auto simp: outcome_defs compile_defs split: option.splits if_splits)

lemma compileProgram_model_changed:
  "model (snd (compileProgram w)) \<noteq> model w \<Longrightarrow> linkSucceeds w"
  by (auto simp: outcome_defs compile_defs split: option.splits if_splits)

lemma compileProgram_returns_None:
  "fst (compileProgram w) = Returns None \<longleftrightarrow>
     (missingCompileInput w \<or> vertexCompileFails w \<or> fragmentCompileFails w \<or> linkFails w)"
  by (auto simp: outcome_defs compile_defs split: option.splits if_splits)

lemma compileProgram_setupPreserves: "setupPreserves w (snd (compileProgram w))"
  by (simp add: compile_defs split: option.split)

lemma compileProgram_logs_failure:
  assumes "vertexCompileFails w \<or> fragmentCompileFails w \<or> linkFails w"
  shows "\<exists>es msg. console (snd (compileProgram w)) = console w @ es @ [ConsoleError msg]"
  using assms
  by (auto simp: outcome_defs compile_defs split: option.splits if_splits)

lemma linkSucceeds_model:
  "linkSucceeds w \<Longrightarrow> \<exists>m. model w = Some m \<and> renderingProgram m = None"
  by (auto simp: outcome_defs split: option.splits)

lemma compileProgram_model_changed_iff:
  "model (snd (compileProgram w)) \<noteq> model w \<longleftrightarrow> linkSucceeds w"
proof
  assume "model (snd (compileProgram w)) \<noteq> model w"
  then show "linkSucceeds w" by (rule compileProgram_model_changed)
next
  assume ls: "linkSucceeds w"
  then obtain m where m: "model w = Some m" "renderingProgram m = None"
    using linkSucceeds_model by blast
  have "renderingProgram (m\<lparr>renderingProgram := Some (created (gpu w) + 2)\<rparr>) \<noteq> renderingProgram m"
    using m by simp
  then have "m\<lparr>renderingProgram := Some (created (gpu w) + 2)\<rparr> \<noteq> m" by metis
  with compileProgram_linkSucceeds(4) [OF ls m(1)] m show "model (snd (compileProgram w)) \<noteq> model w"
    by simp
qed

section \<open>C1: the program cache\<close>

text \<open>
  Claim C1, amended. If the model's \<open>renderingProgram\<close> is set, \<open>compileProgram\<close> returns
  that handle and leaves the whole world, the call log included, as it was. Whenever a
  call returns a handle, the next call returns the same handle and changes nothing; if the
  first call had to compile, it issued exactly one compile and link sequence (one
  \<open>linkProgram\<close>), and if the handle was cached before, none. Nothing is said for a first
  call that fails: it caches nothing.
\<close>

theorem compileProgram_cached_handle:
  "(\<forall>m p. model w = Some m \<and> renderingProgram m = Some p \<longrightarrow>
       compileProgram w = (Returns (Some p), w))
   \<and> (\<forall>p w1. compileProgram w = (Returns (Some p), w1) \<longrightarrow>
         compileProgram w1 = (Returns (Some p), w1)
         \<and> (if compiling w
            then (\<exists>vs fs. calls (gpu w1) =
                            calls (gpu w) @ compileLinkSequence (created (gpu w)) vs fs)
                 \<and> linkCount w1 = linkCount w + 1
            else w1 = w))"
proof (intro conjI allI impI)
  fix m p assume "model w = Some m \<and> renderingProgram m = Some p"
  then show "compileProgram w = (Returns (Some p), w)"
    by (simp add: compileProgram_hit)
next
  fix p w1 assume r: "compileProgram w = (Returns (Some p), w1)"
  then have fs: "fst (compileProgram w) = Returns (Some p)" "snd (compileProgram w) = w1"
    by simp_all
  from compileProgram_returns_Some [OF r]
  have "\<exists>m. model w1 = Some m \<and> renderingProgram m = Some p"
  proof
    assume "\<exists>m. model w = Some m \<and> renderingProgram m = Some p \<and> w1 = w"
    then show ?thesis by auto
  next
    assume ls: "linkSucceeds w"
    then obtain m where m: "model w = Some m" using linkSucceeds_model by blast
    from compileProgram_linkSucceeds(1,4) [OF ls m] fs show ?thesis by auto
  qed
  then show "compileProgram w1 = (Returns (Some p), w1)"
    by (auto simp: compileProgram_hit)
  show "if compiling w
        then (\<exists>vs fs. calls (gpu w1) =
                        calls (gpu w) @ compileLinkSequence (created (gpu w)) vs fs)
             \<and> linkCount w1 = linkCount w + 1
        else w1 = w"
  proof (cases "compiling w")
    case False
    with compileProgram_not_compiling [of w] fs show ?thesis by simp
  next
    case True
    then obtain m where m: "model w = Some m" "renderingProgram m = None"
      by (auto simp: compiling_def split: option.splits)
    with compileProgram_returns_Some [OF r] have ls: "linkSucceeds w" by auto
    from compileProgram_linkSucceeds(2,5) [OF ls m(1)] fs True show ?thesis
      by auto
  qed
qed

lemma linkSucceeds_okWorld: "linkSucceeds okWorld"
  by (simp add: outcome_defs)

lemma linkFails_linkFailWorld: "linkFails linkFailWorld"
  by (simp add: outcome_defs linkFailWorld_def)

lemma vertexCompileFails_vertexFailWorld: "vertexCompileFails vertexFailWorld"
  by (simp add: outcome_defs vertexFailWorld_def)

theorem compileProgram_cached_handle_witness:
  "compileProgram cachedWorld = (Returns (Some 7), cachedWorld)
   \<and> fst (compileProgram okWorld) = Returns (Some 2)
   \<and> compileProgram (snd (compileProgram okWorld)) =
       (Returns (Some 2), snd (compileProgram okWorld))
   \<and> linkCount (snd (compileProgram okWorld)) = 1"
proof -
  have c: "model cachedWorld = Some (okModel\<lparr>renderingProgram := Some 7\<rparr>)
           \<and> renderingProgram (okModel\<lparr>renderingProgram := Some 7\<rparr>) = Some 7"
    by (simp add: cachedWorld_def)
  have f: "fst (compileProgram okWorld) = Returns (Some 2)"
    using compileProgram_linkSucceeds(1) [OF linkSucceeds_okWorld, of okModel] by simp
  then have e: "compileProgram okWorld = (Returns (Some 2), snd (compileProgram okWorld))"
    by (simp add: prod_eq_iff)
  have k: "compiling okWorld" "linkCount okWorld = 0"
    by (simp_all add: compiling_def linkCount_def)
  from compileProgram_cached_handle [of cachedWorld] c
  have "compileProgram cachedWorld = (Returns (Some 7), cachedWorld)" by blast
  moreover from compileProgram_cached_handle [of okWorld] e k
  have "compileProgram (snd (compileProgram okWorld)) =
          (Returns (Some 2), snd (compileProgram okWorld))
        \<and> linkCount (snd (compileProgram okWorld)) = 1"
    by (metis add_0)
  ultimately show ?thesis using f by simp
qed

text \<open>
  The claim as stated fails for a model whose program does not link: two calls in a row
  both return \<open>null\<close>, no handle is cached, and the shaders are compiled and linked twice.
\<close>

theorem compileProgram_twice_counterexample:
  "fst (compileProgram linkFailWorld) = Returns None
   \<and> fst (compileProgram (snd (compileProgram linkFailWorld))) = Returns None
   \<and> linkCount linkFailWorld = 0
   \<and> linkCount (snd (compileProgram (snd (compileProgram linkFailWorld)))) = 2
   \<and> model (snd (compileProgram (snd (compileProgram linkFailWorld)))) = Some okModel
   \<and> renderingProgram okModel = None"
proof -
  have m: "model linkFailWorld = Some okModel" by (simp add: linkFailWorld_def)
  note r1 = compileProgram_linkFails [OF linkFails_linkFailWorld m]
  let ?w1 = "snd (compileProgram linkFailWorld)"
  have lf1: "linkFails ?w1" by (simp add: r1(6)) (simp add: linkFailWorld_def)
  note r2 = compileProgram_linkFails [OF lf1 r1(4)]
  have c0: "linkCount linkFailWorld = 0" by (simp add: linkCount_def linkFailWorld_def)
  from r1 r2 c0 show ?thesis by simp
qed

section \<open>C9: a failed compilation leaves the cache alone\<close>

text \<open>
  Claim C9. On every failure path of \<open>compileProgram\<close> (no model; nothing cached and no
  camera or no context; the vertex or the fragment shader does not compile; the program
  does not link) the function returns \<open>null\<close> and the model is unchanged. These are all
  the paths that return \<open>null\<close>. The model changes if and only if the link succeeded, and
  then the only change is that \<open>renderingProgram\<close> holds the linked program, which is the
  handle returned.
\<close>

theorem compileProgram_failure_keeps_cache:
  "(missingCompileInput w \<or> vertexCompileFails w \<or> fragmentCompileFails w \<or> linkFails w
      \<longleftrightarrow> fst (compileProgram w) = Returns None)
   \<and> (fst (compileProgram w) = Returns None \<longrightarrow> model (snd (compileProgram w)) = model w)
   \<and> (model (snd (compileProgram w)) \<noteq> model w \<longleftrightarrow> linkSucceeds w)
   \<and> (linkSucceeds w \<longrightarrow>
        fst (compileProgram w) = Returns (Some (created (gpu w) + 2))
        \<and> model (snd (compileProgram w)) =
            map_option (\<lambda>m. m\<lparr>renderingProgram := Some (created (gpu w) + 2)\<rparr>) (model w))"
proof (intro conjI impI)
  show "missingCompileInput w \<or> vertexCompileFails w \<or> fragmentCompileFails w \<or> linkFails w
          \<longleftrightarrow> fst (compileProgram w) = Returns None"
    by (simp add: compileProgram_returns_None)
  show "model (snd (compileProgram w)) \<noteq> model w \<longleftrightarrow> linkSucceeds w"
    by (rule compileProgram_model_changed_iff)
next
  assume n: "fst (compileProgram w) = Returns None"
  show "model (snd (compileProgram w)) = model w"
  proof (rule ccontr)
    assume "model (snd (compileProgram w)) \<noteq> model w"
    then have ls: "linkSucceeds w" by (rule compileProgram_model_changed)
    then obtain m where m: "model w = Some m" using linkSucceeds_model by blast
    from compileProgram_linkSucceeds(1) [OF ls m] n show False by simp
  qed
next
  assume ls: "linkSucceeds w"
  then obtain m where m: "model w = Some m" using linkSucceeds_model by blast
  from compileProgram_linkSucceeds(1) [OF ls m]
  show "fst (compileProgram w) = Returns (Some (created (gpu w) + 2))" .
  from compileProgram_linkSucceeds(4) [OF ls m] m
  show "model (snd (compileProgram w)) =
          map_option (\<lambda>m. m\<lparr>renderingProgram := Some (created (gpu w) + 2)\<rparr>) (model w)"
    by simp
qed

theorem compileProgram_failure_keeps_cache_witness:
  "fst (compileProgram vertexFailWorld) = Returns None
   \<and> model (snd (compileProgram vertexFailWorld)) = Some okModel
   \<and> fst (compileProgram linkFailWorld) = Returns None
   \<and> model (snd (compileProgram linkFailWorld)) = Some okModel
   \<and> fst (compileProgram okWorld) = Returns (Some 2)
   \<and> model (snd (compileProgram okWorld)) = Some (okModel\<lparr>renderingProgram := Some 2\<rparr>)"
proof -
  have mv: "model vertexFailWorld = Some okModel" by (simp add: vertexFailWorld_def)
  have ml: "model linkFailWorld = Some okModel" by (simp add: linkFailWorld_def)
  from compileProgram_failure_keeps_cache [of vertexFailWorld]
    vertexCompileFails_vertexFailWorld mv
  have "fst (compileProgram vertexFailWorld) = Returns None
        \<and> model (snd (compileProgram vertexFailWorld)) = Some okModel"
    by metis
  moreover from compileProgram_failure_keeps_cache [of linkFailWorld]
    linkFails_linkFailWorld ml
  have "fst (compileProgram linkFailWorld) = Returns None
        \<and> model (snd (compileProgram linkFailWorld)) = Some okModel"
    by metis
  moreover from compileProgram_failure_keeps_cache [of okWorld] linkSucceeds_okWorld
  have "fst (compileProgram okWorld) = Returns (Some 2)
        \<and> model (snd (compileProgram okWorld)) = Some (okModel\<lparr>renderingProgram := Some 2\<rparr>)"
    by simp
  ultimately show ?thesis by simp
qed

section \<open>C10: loadFile only looks the cache up\<close>

lemma loadIntoCache_miss_fetches:
  "modelCache w path = None \<Longrightarrow>
   fetched (snd (loadIntoCache path w)) = fetched w @ [URLPrefix @ path]"
  by (simp add: loadIntoCache_def Let_def split: sum.split)

text \<open>
  Claim C10. \<open>loadFile\<close> returns what the cache holds for the path: the image on a hit,
  \<open>undefined\<close> on a miss. It leaves the cache as it is and requests nothing from the
  network, unlike \<open>loadIntoCache\<close>; its only trace is one console line on a hit.
\<close>

theorem loadFile_lookup_only:
  "fst (loadFile path w) = modelCache w path
   \<and> modelCache (snd (loadFile path w)) = modelCache w
   \<and> fetched (snd (loadFile path w)) = fetched w
   \<and> network (snd (loadFile path w)) = network w
   \<and> gpu (snd (loadFile path w)) = gpu w
   \<and> model (snd (loadFile path w)) = model w
   \<and> console (snd (loadFile path w)) =
       console w @ (if modelCache w path \<noteq> None
                    then [ConsoleLog (path @ '' already loaded'')] else [])"
  by (simp add: loadFile_def)

theorem loadFile_lookup_only_witness:
  "fst (loadFile ''d.ppm'' okWorld) = Some okImage
   \<and> fst (loadFile ''x.ppm'' okWorld) = None
   \<and> modelCache (snd (loadFile ''d.ppm'' okWorld)) = modelCache okWorld
   \<and> fetched (snd (loadFile ''d.ppm'' okWorld)) = []
   \<and> fetched (snd (loadFile ''x.ppm'' okWorld)) = []"
  using loadFile_lookup_only [of "''d.ppm''" okWorld] loadFile_lookup_only [of "''x.ppm''" okWorld]
  by simp

section \<open>C8: the gate of setUpLights\<close>

lemma setUpLights_not_due: "\<not> lightsDue w \<Longrightarrow> snd (setUpLights p w) = w"
  by (auto simp: setUpLights_def lightsDue_def split: option.splits)

lemma setUpLights_uploads:
  assumes "lightsDue w" "lights w = Some ls"
    and "uniformDeclared (gpu w) p ''lightsUniform''" "uniformDeclared (gpu w) p ''lightColors''"
  shows "fst (setUpLights p w) = Returns ()"
    and "calls (gpu (snd (setUpLights p w))) =
           calls (gpu w) @
           [GetUniformLocation p ''lightsUniform'',
            Uniform3fv (Some (p, ''lightsUniform'')) (getPositionsFloat32 ls),
            GetUniformLocation p ''lightColors'',
            Uniform3fv (Some (p, ''lightColors'')) (getColorsFloat32 ls)]"
  using assms
  by (auto simp: setUpLights_def lightsDue_def Let_def case_prod_unfold split: option.splits)

text \<open>
  Claim C8. \<open>setUpLights\<close> uploads the light positions and colours only when the vertex
  shader name of the active model is exactly \<open>vertexTextureNormalNormalMapShader\<close>. For
  any other name it returns with the world, and so the call log, unchanged. When the
  name matches (and context and lights are there) and the program declares both arrays,
  the calls it issues are the two lookups and the two uploads.
\<close>

theorem setUpLights_exact_name_gate:
  "(\<forall>m. model w = Some m \<and> getVertexShaderName m \<noteq> ''vertexTextureNormalNormalMapShader''
        \<longrightarrow> setUpLights p w = (Returns (), w))
   \<and> (uniformWrites (snd (setUpLights p w)) \<noteq> uniformWrites w \<longrightarrow>
        (\<exists>m. model w = Some m
             \<and> getVertexShaderName m = ''vertexTextureNormalNormalMapShader''))
   \<and> (\<forall>ls. lightsDue w \<and> lights w = Some ls
          \<and> uniformDeclared (gpu w) p ''lightsUniform''
          \<and> uniformDeclared (gpu w) p ''lightColors'' \<longrightarrow>
          fst (setUpLights p w) = Returns ()
          \<and> calls (gpu (snd (setUpLights p w))) =
              calls (gpu w) @
              [GetUniformLocation p ''lightsUniform'',
               Uniform3fv (Some (p, ''lightsUniform'')) (getPositionsFloat32 ls),
               GetUniformLocation p ''lightColors'',
               Uniform3fv (Some (p, ''lightColors'')) (getColorsFloat32 ls)])"
proof (intro conjI allI impI)
  fix m assume "model w = Some m \<and> getVertexShaderName m \<noteq> ''vertexTextureNormalNormalMapShader''"
  then show "setUpLights p w = (Returns (), w)"
    by (simp add: setUpLights_def split: option.split)
next
  assume "uniformWrites (snd (setUpLights p w)) \<noteq> uniformWrites w"
  with setUpLights_not_due [of w p] have "lightsDue w" by metis
  then show "\<exists>m. model w = Some m
                \<and> getVertexShaderName m = ''vertexTextureNormalNormalMapShader''"
    by (auto simp: lightsDue_def split: option.splits)
next
  fix ls
  assume a: "lightsDue w \<and> lights w = Some ls \<and> uniformDeclared (gpu w) p ''lightsUniform''
             \<and> uniformDeclared (gpu w) p ''lightColors''"
  with setUpLights_uploads [of w ls p]
  show "fst (setUpLights p w) = Returns ()"
    and "calls (gpu (snd (setUpLights p w))) =
           calls (gpu w) @
           [GetUniformLocation p ''lightsUniform'',
            Uniform3fv (Some (p, ''lightsUniform'')) (getPositionsFloat32 ls),
            GetUniformLocation p ''lightColors'',
            Uniform3fv (Some (p, ''lightColors'')) (getColorsFloat32 ls)]"
    by simp_all
qed

theorem setUpLights_exact_name_gate_witness:
  "includes_str ''vertexTextureNormalShader'' ''Normal''
   \<and> setUpLights 7 normalShaderWorld = (Returns (), normalShaderWorld)
   \<and> fst (setUpLights 7 cachedWorld) = Returns ()
   \<and> calls (gpu (snd (setUpLights 7 cachedWorld))) =
       [GetUniformLocation 7 ''lightsUniform'', Uniform3fv (Some (7, ''lightsUniform'')) [],
        GetUniformLocation 7 ''lightColors'', Uniform3fv (Some (7, ''lightColors'')) []]"
proof -
  have n: "model normalShaderWorld
             = Some (okModel\<lparr>getVertexShaderName := ''vertexTextureNormalShader''\<rparr>)
           \<and> getVertexShaderName (okModel\<lparr>getVertexShaderName := ''vertexTextureNormalShader''\<rparr>)
               \<noteq> ''vertexTextureNormalNormalMapShader''"
    by (simp add: normalShaderWorld_def)
  have c: "lightsDue cachedWorld \<and> lights cachedWorld = Some []
           \<and> uniformDeclared (gpu cachedWorld) 7 ''lightsUniform''
           \<and> uniformDeclared (gpu cachedWorld) 7 ''lightColors''"
    by (simp add: cachedWorld_def lightsDue_def)
  have i: "includes_str ''vertexTextureNormalShader'' ''Normal''" by simp
  from setUpLights_exact_name_gate [of normalShaderWorld 7] n
  have "setUpLights 7 normalShaderWorld = (Returns (), normalShaderWorld)" by blast
  moreover from setUpLights_exact_name_gate [of cachedWorld 7] c
  have "fst (setUpLights 7 cachedWorld) = Returns ()
        \<and> calls (gpu (snd (setUpLights 7 cachedWorld))) =
            calls (gpu cachedWorld) @
            [GetUniformLocation 7 ''lightsUniform'',
             Uniform3fv (Some (7, ''lightsUniform'')) (getPositionsFloat32 []),
             GetUniformLocation 7 ''lightColors'',
             Uniform3fv (Some (7, ''lightColors'')) (getColorsFloat32 [])]"
    by blast
  ultimately show ?thesis using i
    by (simp add: cachedWorld_def getPositionsFloat32_def getColorsFloat32_def)
qed

section \<open>The wireframe loop\<close>

declare wireframeLoop.simps [simp del] showNat.simps [simp del]

lemma wireframeLoop_calls:
  "calls (gpu (wireframeLoop i n w)) =
     calls (gpu w) @ map (\<lambda>k. DrawElements LINE_LOOP 3 (3 * k * 2)) [i..<n]"
proof (induction i n w rule: wireframeLoop.induct)
  case (1 i n w)
  show ?case
  proof (cases "i < n")
    case True
    have "wireframeLoop i n w =
            wireframeLoop (i + 1) n (glDo (DrawElements LINE_LOOP 3 (i * 3 * 2)) w)"
      using True by (subst wireframeLoop.simps) simp
    moreover have "calls (gpu (wireframeLoop (i + 1) n (glDo (DrawElements LINE_LOOP 3 (i * 3 * 2)) w)))
        = calls (gpu (glDo (DrawElements LINE_LOOP 3 (i * 3 * 2)) w))
          @ map (\<lambda>k. DrawElements LINE_LOOP 3 (3 * k * 2)) [i + 1..<n]"
      using "1.IH" [OF True refl] .
    ultimately show ?thesis
      using True by (simp add: upt_conv_Cons mult.commute)
  next
    case False
    then show ?thesis by (subst wireframeLoop.simps) simp
  qed
qed

section \<open>Texture setup and cleanup: the paths\<close>

lemma loadFile_fields [simp]:
  "gpu (snd (loadFile path w)) = gpu w"
  "glContext (snd (loadFile path w)) = glContext w"
  "model (snd (loadFile path w)) = model w"
  "camera (snd (loadFile path w)) = camera w"
  "lights (snd (loadFile path w)) = lights w"
  "modelCache (snd (loadFile path w)) = modelCache w"
  "animationFrameRequests (snd (loadFile path w)) = animationFrameRequests w"
  "fst (loadFile path w) = modelCache w path"
  "drawCalls (snd (loadFile path w)) = drawCalls w"
  "setupPreserves w0 (snd (loadFile path w)) = setupPreserves w0 w"
  by (simp_all add: loadFile_def drawCalls_def renderingCalls_def setupPreserves_def)

lemma setupPreserves_fields:
  assumes "setupPreserves w w'"
  shows "glContext w' = glContext w" "camera w' = camera w" "lights w' = lights w"
    "modelCache w' = modelCache w" "animationFrameRequests w' = animationFrameRequests w"
    "createOk (gpu w') = createOk (gpu w)" "uniformDeclared (gpu w') = uniformDeclared (gpu w)"
    "drawCalls w' = drawCalls w"
    "renderingCalls w' = renderingCalls w"
    "canvas_width (gpu w') = canvas_width (gpu w)" "canvas_height (gpu w') = canvas_height (gpu w)"
    "frameNumber w' = frameNumber w" "fps w' = fps w" "lastTime w' = lastTime w"
    "clock w' = clock w"
  using assms by (simp_all add: setupPreserves_def)

lemmas texture_defs = setUpTexture_def Let_def case_prod_unfold

lemma setUpTexture_model [simp]: "model (snd (setUpTexture p u ty s w)) = model w"
  by (simp add: texture_defs split: option.split)

lemma setUpTexture_setupPreserves [simp]:
  "setupPreserves w0 (snd (setUpTexture p u ty s w)) = setupPreserves w0 w"
  by (simp add: texture_defs split: option.split)

lemma setUpTexture_created:
  "created (gpu (snd (setUpTexture p u ty s w))) =
     created (gpu w) + (if glContext w \<noteq> None \<and> model w \<noteq> None then 1 else 0)"
  by (simp add: texture_defs split: option.split)

lemma setUpTexture_returns_Some:
  "fst (setUpTexture p u ty s w) = Returns (Some t) \<Longrightarrow>
   t = created (gpu w) \<and> glContext w \<noteq> None \<and> model w \<noteq> None"
  by (auto simp: texture_defs split: option.splits if_splits)

lemma setUpTexture_data_missing:
  "glContext w \<noteq> None \<Longrightarrow> model w \<noteq> None \<Longrightarrow> textureDataMissing ty w \<Longrightarrow>
   fst (setUpTexture p u ty s w) = Returns None"
  by (auto simp: texture_defs textureDataMissing_def split: option.splits)

lemma setUpTexture_sampler_missing:
  "glContext w \<noteq> None \<Longrightarrow> model w \<noteq> None \<Longrightarrow> createOk (gpu w) (created (gpu w)) \<Longrightarrow>
   \<not> textureDataMissing ty w \<Longrightarrow> \<not> uniformDeclared (gpu w) p s \<Longrightarrow>
   fst (setUpTexture p u ty s w) =
     Throws (''The sampler name '' @ s @ '' was not found in the program'')"
  by (auto simp: texture_defs textureDataMissing_def split: option.splits)

lemma setUpTexture_succeeds:
  "glContext w \<noteq> None \<Longrightarrow> model w \<noteq> None \<Longrightarrow> createOk (gpu w) (created (gpu w)) \<Longrightarrow>
   \<not> textureDataMissing ty w \<Longrightarrow> uniformDeclared (gpu w) p s \<Longrightarrow>
   fst (setUpTexture p u ty s w) = Returns (Some (created (gpu w)))"
  by (auto simp: texture_defs textureDataMissing_def split: option.splits)

lemma textureDataMissing_cong:
  "modelCache w' = modelCache w \<Longrightarrow> map_option textures (model w') = map_option textures (model w)
   \<Longrightarrow> textureDataMissing ty w' = textureDataMissing ty w"
  by (cases "model w"; cases "model w'")
     (auto simp: textureDataMissing_def split: option.splits)

subsection \<open>The diffuse block\<close>

lemma setUpDiffuse_setupPreserves [simp]:
  "setupPreserves w0 (snd (setUpDiffuse p w)) = setupPreserves w0 w"
  by (simp add: setUpDiffuse_def case_prod_unfold split: option.split completion.split)

lemma setUpDiffuse_skip:
  "model w = Some m \<Longrightarrow> \<not> hasDiffuseMap m \<or> diffuseTexture m \<noteq> None \<Longrightarrow>
   setUpDiffuse p w = (Returns (), w)"
  by (auto simp: setUpDiffuse_def)

lemma setUpDiffuse_create:
  assumes "model w = Some m" "hasDiffuseMap m" "diffuseTexture m = None"
  shows "fst (setUpDiffuse p w) =
           (case fst (setUpTexture p 0 ''map_Kd'' ''textureSampler'' w) of
              Throws e \<Rightarrow> Throws e
            | Returns None \<Rightarrow>
                Throws ''Failed to set up diffuse texture, it was expected to be there but it was not''
            | Returns (Some t) \<Rightarrow> Returns ())"
    and "model (snd (setUpDiffuse p w)) =
           (case fst (setUpTexture p 0 ''map_Kd'' ''textureSampler'' w) of
              Throws e \<Rightarrow> Some m
            | Returns t \<Rightarrow> Some (m\<lparr>diffuseTexture := t\<rparr>))"
    and "created (gpu (snd (setUpDiffuse p w))) =
           created (gpu (snd (setUpTexture p 0 ''map_Kd'' ''textureSampler'' w)))"
  using assms
  by (simp_all add: setUpDiffuse_def case_prod_unfold split: option.split completion.split)

lemma setUpDiffuse_returns:
  assumes r: "fst (setUpDiffuse p w) = Returns u" and m: "model w = Some m"
  shows "model (snd (setUpDiffuse p w)) =
           Some (if hasDiffuseMap m \<and> diffuseTexture m = None
                 then m\<lparr>diffuseTexture := Some (created (gpu w))\<rparr> else m)"
    and "created (gpu (snd (setUpDiffuse p w))) =
           created (gpu w) + (if hasDiffuseMap m \<and> diffuseTexture m = None then 1 else 0)"
proof -
  show "model (snd (setUpDiffuse p w)) =
          Some (if hasDiffuseMap m \<and> diffuseTexture m = None
                then m\<lparr>diffuseTexture := Some (created (gpu w))\<rparr> else m)"
  proof (cases "hasDiffuseMap m \<and> diffuseTexture m = None")
    case False
    with setUpDiffuse_skip [OF m, of p] m show ?thesis by auto
  next
    case True
    then have c: "hasDiffuseMap m" "diffuseTexture m = None" by simp_all
    from r setUpDiffuse_create(1) [OF m c, of p]
    obtain t where t: "fst (setUpTexture p 0 ''map_Kd'' ''textureSampler'' w) = Returns (Some t)"
      by (auto split: completion.splits option.splits)
    with setUpTexture_returns_Some [OF t] setUpDiffuse_create(2) [OF m c, of p] True
    show ?thesis by simp
  qed
  show "created (gpu (snd (setUpDiffuse p w))) =
          created (gpu w) + (if hasDiffuseMap m \<and> diffuseTexture m = None then 1 else 0)"
  proof (cases "hasDiffuseMap m \<and> diffuseTexture m = None")
    case False
    with setUpDiffuse_skip [OF m, of p] show ?thesis by auto
  next
    case True
    then have c: "hasDiffuseMap m" "diffuseTexture m = None" by simp_all
    from r setUpDiffuse_create(1) [OF m c, of p]
    obtain t where t: "fst (setUpTexture p 0 ''map_Kd'' ''textureSampler'' w) = Returns (Some t)"
      by (auto split: completion.splits option.splits)
    with setUpTexture_returns_Some [OF t] setUpDiffuse_create(3) [OF m c, of p] True
    show ?thesis by (simp add: setUpTexture_created)
  qed
qed

subsection \<open>The normal-map block\<close>

lemma setUpNormal_setupPreserves [simp]:
  "setupPreserves w0 (snd (setUpNormal p w)) = setupPreserves w0 w"
  by (simp add: setUpNormal_def Let_def case_prod_unfold split: option.split completion.split)

lemma setUpNormal_skip:
  "model w = Some m \<Longrightarrow> \<not> hasNormalMap m \<Longrightarrow> setUpNormal p w = (Returns (), w)"
  by (auto simp: setUpNormal_def)

lemma setUpNormal_present:
  assumes "model w = Some m" "hasNormalMap m" "normalTexture m = Some t"
  shows "fst (setUpNormal p w) = Returns ()"
    and "model (snd (setUpNormal p w)) = Some m"
    and "created (gpu (snd (setUpNormal p w))) = created (gpu w)"
  using assms by (simp_all add: setUpNormal_def Let_def case_prod_unfold)

lemma setUpNormal_create:
  assumes "model w = Some m" "hasNormalMap m" "normalTexture m = None"
  shows "fst (setUpNormal p w) =
           (case fst (setUpTexture p 1 ''map_Bump'' ''normalSampler'' w) of
              Throws e \<Rightarrow> Throws e
            | Returns None \<Rightarrow>
                Throws ''Failed to set up normal texture, it was expected to be there but it was not''
            | Returns (Some t) \<Rightarrow> Returns ())"
    and "model (snd (setUpNormal p w)) =
           (case fst (setUpTexture p 1 ''map_Bump'' ''normalSampler'' w) of
              Throws e \<Rightarrow> Some m
            | Returns t \<Rightarrow> Some (m\<lparr>normalTexture := t\<rparr>))"
    and "created (gpu (snd (setUpNormal p w))) =
           created (gpu (snd (setUpTexture p 1 ''map_Bump'' ''normalSampler'' w)))"
  using assms
  by (simp_all add: setUpNormal_def Let_def case_prod_unfold
      split: option.split completion.split)

lemma setUpNormal_returns:
  assumes r: "fst (setUpNormal p w) = Returns u" and m: "model w = Some m"
  shows "model (snd (setUpNormal p w)) =
           Some (if hasNormalMap m \<and> normalTexture m = None
                 then m\<lparr>normalTexture := Some (created (gpu w))\<rparr> else m)"
proof (cases "hasNormalMap m \<and> normalTexture m = None")
  case False
  then consider "\<not> hasNormalMap m" | t where "hasNormalMap m" "normalTexture m = Some t"
    by auto
  then show ?thesis
  proof cases
    case 1
    with setUpNormal_skip [OF m, of p] m False show ?thesis by auto
  next
    case 2
    with setUpNormal_present(2) [OF m, of t p] False show ?thesis by auto
  qed
next
  case True
  then have c: "hasNormalMap m" "normalTexture m = None" by simp_all
  from r setUpNormal_create(1) [OF m c, of p]
  obtain t where t: "fst (setUpTexture p 1 ''map_Bump'' ''normalSampler'' w) = Returns (Some t)"
    by (auto split: completion.splits option.splits)
  with setUpTexture_returns_Some [OF t] setUpNormal_create(2) [OF m c, of p] True
  show ?thesis by simp
qed

subsection \<open>setUpTextures\<close>

lemma setUpTextures_setupPreserves [simp]:
  "setupPreserves w0 (snd (setUpTextures p w)) = setupPreserves w0 w"
  by (simp add: setUpTextures_def case_prod_unfold split: completion.split)

lemma setUpTextures_fst:
  assumes "glContext w \<noteq> None" "model w \<noteq> None"
  shows "fst (setUpTextures p w) =
           (case fst (setUpDiffuse p w) of
              Throws e \<Rightarrow> Throws e
            | Returns _ \<Rightarrow>
                (case fst (setUpNormal p (snd (setUpDiffuse p w))) of
                   Throws e \<Rightarrow> Throws e
                 | Returns _ \<Rightarrow> Returns True))"
    and "fst (setUpDiffuse p w) \<noteq> Throws e \<longrightarrow> True"
  using assms by (simp_all add: setUpTextures_def case_prod_unfold split: completion.split)

lemma setUpTextures_model:
  assumes "glContext w \<noteq> None" "model w \<noteq> None" "fst (setUpTextures p w) = Returns b"
  shows "snd (setUpTextures p w) = snd (setUpNormal p (snd (setUpDiffuse p w)))"
    and "\<exists>u. fst (setUpDiffuse p w) = Returns u"
    and "\<exists>u. fst (setUpNormal p (snd (setUpDiffuse p w))) = Returns u"
  using assms
  by (auto simp: setUpTextures_def case_prod_unfold split: completion.splits)

lemma setUpTextures_recreates:
  assumes g: "glContext w \<noteq> None" and m: "model w = Some m"
    and r: "fst (setUpTextures p w) = Returns b"
  shows "\<exists>m2. model (snd (setUpTextures p w)) = Some m2
           \<and> (hasDiffuseMap m \<and> diffuseTexture m = None \<longrightarrow>
                diffuseTexture m2 = Some (created (gpu w)))
           \<and> (hasNormalMap m \<and> normalTexture m = None \<longrightarrow>
                normalTexture m2 =
                  Some (created (gpu w)
                        + (if hasDiffuseMap m \<and> diffuseTexture m = None then 1 else 0)))"
proof -
  let ?w1 = "snd (setUpDiffuse p w)"
  let ?m1 = "if hasDiffuseMap m \<and> diffuseTexture m = None
             then m\<lparr>diffuseTexture := Some (created (gpu w))\<rparr> else m"
  from m have mn: "model w \<noteq> None" by simp
  from setUpTextures_model [OF g mn r]
  obtain u1 u2 where s: "snd (setUpTextures p w) = snd (setUpNormal p ?w1)"
    and d: "fst (setUpDiffuse p w) = Returns u1"
    and n: "fst (setUpNormal p ?w1) = Returns u2"
    by blast
  note m1 = setUpDiffuse_returns [OF d m]
  from setUpNormal_returns [OF n m1(1)]
  have "model (snd (setUpNormal p ?w1)) =
          Some (if hasNormalMap ?m1 \<and> normalTexture ?m1 = None
                then ?m1\<lparr>normalTexture := Some (created (gpu ?w1))\<rparr> else ?m1)" .
  with s m1(2) show ?thesis by auto
qed

lemma setUpTextures_diffuse_data_missing:
  assumes "glContext w \<noteq> None" "model w = Some m" "hasDiffuseMap m" "diffuseTexture m = None"
    "textureDataMissing ''map_Kd'' w"
  shows "fst (setUpTextures p w) =
           Throws ''Failed to set up diffuse texture, it was expected to be there but it was not''"
proof -
  from assms have "fst (setUpTexture p 0 ''map_Kd'' ''textureSampler'' w) = Returns None"
    by (simp add: setUpTexture_data_missing)
  with setUpDiffuse_create(1) [OF assms(2,3,4), of p]
  have "fst (setUpDiffuse p w) =
          Throws ''Failed to set up diffuse texture, it was expected to be there but it was not''"
    by simp
  with setUpTextures_fst(1) [of w p] assms show ?thesis by simp
qed

lemma setUpTextures_normal_data_missing:
  assumes "glContext w \<noteq> None" "model w = Some m" "\<not> hasDiffuseMap m \<or> diffuseTexture m \<noteq> None"
    "hasNormalMap m" "normalTexture m = None" "textureDataMissing ''map_Bump'' w"
  shows "fst (setUpTextures p w) =
           Throws ''Failed to set up normal texture, it was expected to be there but it was not''"
proof -
  have d: "setUpDiffuse p w = (Returns (), w)"
    using setUpDiffuse_skip [OF assms(2,3)] .
  from assms have "fst (setUpTexture p 1 ''map_Bump'' ''normalSampler'' w) = Returns None"
    by (simp add: setUpTexture_data_missing)
  with setUpNormal_create(1) [OF assms(2,4,5), of p]
  have "fst (setUpNormal p w) =
          Throws ''Failed to set up normal texture, it was expected to be there but it was not''"
    by simp
  with setUpTextures_fst(1) [of w p] assms d show ?thesis by simp
qed

lemma setUpTextures_diffuse_sampler_missing:
  assumes "glContext w \<noteq> None" "model w = Some m" "hasDiffuseMap m" "diffuseTexture m = None"
    "createOk (gpu w) (created (gpu w))" "\<not> textureDataMissing ''map_Kd'' w"
    "\<not> uniformDeclared (gpu w) p ''textureSampler''"
  shows "fst (setUpTextures p w) =
           Throws ''The sampler name textureSampler was not found in the program''"
proof -
  from assms have "fst (setUpTexture p 0 ''map_Kd'' ''textureSampler'' w) =
      Throws (''The sampler name '' @ ''textureSampler'' @ '' was not found in the program'')"
    by (intro setUpTexture_sampler_missing) simp_all
  with setUpDiffuse_create(1) [OF assms(2,3,4), of p]
  have "fst (setUpDiffuse p w) =
          Throws ''The sampler name textureSampler was not found in the program''"
    by simp
  with setUpTextures_fst(1) [of w p] assms show ?thesis by simp
qed

lemma setUpTextures_normal_sampler_missing:
  assumes "glContext w \<noteq> None" "model w = Some m" "\<not> hasDiffuseMap m \<or> diffuseTexture m \<noteq> None"
    "hasNormalMap m" "normalTexture m = None"
    "createOk (gpu w) (created (gpu w))" "\<not> textureDataMissing ''map_Bump'' w"
    "\<not> uniformDeclared (gpu w) p ''normalSampler''"
  shows "fst (setUpTextures p w) =
           Throws ''The sampler name normalSampler was not found in the program''"
proof -
  have d: "setUpDiffuse p w = (Returns (), w)"
    using setUpDiffuse_skip [OF assms(2,3)] .
  from assms have "fst (setUpTexture p 1 ''map_Bump'' ''normalSampler'' w) =
      Throws (''The sampler name '' @ ''normalSampler'' @ '' was not found in the program'')"
    by (intro setUpTexture_sampler_missing) simp_all
  with setUpNormal_create(1) [OF assms(2,4,5), of p]
  have "fst (setUpNormal p w) =
          Throws ''The sampler name normalSampler was not found in the program''"
    by simp
  with setUpTextures_fst(1) [of w p] assms d show ?thesis by simp
qed

lemma setUpTextures_both_succeed:
  assumes g: "glContext w \<noteq> None" and m: "model w = Some m"
    and f: "hasDiffuseMap m" "diffuseTexture m = None" "hasNormalMap m" "normalTexture m = None"
    and c: "createOk (gpu w) (created (gpu w))" "createOk (gpu w) (created (gpu w) + 1)"
    and d: "\<not> textureDataMissing ''map_Kd'' w" "\<not> textureDataMissing ''map_Bump'' w"
    and u: "uniformDeclared (gpu w) p ''textureSampler''"
      "uniformDeclared (gpu w) p ''normalSampler''"
  shows "fst (setUpTextures p w) = Returns True"
proof -
  let ?w1 = "snd (setUpDiffuse p w)"
  from m have mn: "model w \<noteq> None" by simp
  have t: "fst (setUpTexture p 0 ''map_Kd'' ''textureSampler'' w) = Returns (Some (created (gpu w)))"
    using g mn c(1) d(1) u(1) by (rule setUpTexture_succeeds)
  with setUpDiffuse_create [OF m f(1,2), of p]
  have d1: "fst (setUpDiffuse p w) = Returns ()"
    and m1: "model ?w1 = Some (m\<lparr>diffuseTexture := Some (created (gpu w))\<rparr>)"
    and c1: "created (gpu ?w1) = created (gpu w) + 1"
    using g mn by (simp_all add: setUpTexture_created)
  have "setupPreserves w ?w1" by simp
  note p1 = setupPreserves_fields [OF this]
  have dm: "\<not> textureDataMissing ''map_Bump'' ?w1"
    using d(2) textureDataMissing_cong [of ?w1 w "''map_Bump''"] p1(4) m1 m by simp
  have "fst (setUpTexture p 1 ''map_Bump'' ''normalSampler'' ?w1)
          = Returns (Some (created (gpu ?w1)))"
    using g c(2) u(2) dm p1 m1 c1 by (intro setUpTexture_succeeds) simp_all
  with setUpNormal_create(1) [OF m1, of p] f
  have "fst (setUpNormal p ?w1) = Returns ()" by simp
  with setUpTextures_fst(1) [OF g mn, of p] d1 show ?thesis by simp
qed

subsection \<open>cleanUpTextures\<close>

lemma cleanUpTextures_fields [simp]:
  "glContext (cleanUpTextures w) = glContext w"
  "created (gpu (cleanUpTextures w)) = created (gpu w)"
  "createOk (gpu (cleanUpTextures w)) = createOk (gpu w)"
  "uniformDeclared (gpu (cleanUpTextures w)) = uniformDeclared (gpu w)"
  "modelCache (cleanUpTextures w) = modelCache w"
  by (simp_all add: cleanUpTextures_def Let_def split: option.split)

lemma cleanUpTextures_model:
  assumes "glContext w \<noteq> None" "model w = Some m"
  shows "model (cleanUpTextures w) =
           Some (m\<lparr>diffuseTexture := (if hasDiffuseMap m then None else diffuseTexture m),
                   normalTexture := (if hasNormalMap m then None else normalTexture m)\<rparr>)"
  using assms
  by (auto simp: cleanUpTextures_def Let_def split: option.splits)

lemma cleanUpTextures_calls:
  assumes "glContext w \<noteq> None" "model w = Some m"
  shows "calls (gpu (cleanUpTextures w)) = calls (gpu w) @ deletedTextures m"
  using assms
  by (auto simp: cleanUpTextures_def deletedTextures_def Let_def split: option.splits)

section \<open>renderLoop: the paths\<close>

lemma setUpVertexBuffer_fields [simp]:
  "setupPreserves w0 (setUpVertexBuffer m p w) = setupPreserves w0 w"
  "model (setUpVertexBuffer m p w) = model w"
  "created (gpu (setUpVertexBuffer m p w)) = Suc (Suc (created (gpu w)))"
  by (simp_all add: setUpVertexBuffer_def Let_def case_prod_unfold)

lemma setUpLights_fields [simp]:
  "setupPreserves w0 (snd (setUpLights p w)) = setupPreserves w0 w"
  "model (snd (setUpLights p w)) = model w"
  "created (gpu (snd (setUpLights p w))) = created (gpu w)"
  by (simp_all add: setUpLights_def Let_def case_prod_unfold split: option.split)

lemma setUpLights_no_positions:
  "lightsDue w \<Longrightarrow> \<not> uniformDeclared (gpu w) p ''lightsUniform'' \<Longrightarrow>
   fst (setUpLights p w) = Throws ''Failed to get the storage location of hack''"
  by (auto simp: setUpLights_def lightsDue_def Let_def case_prod_unfold split: option.splits)

lemma setUpLights_no_colors:
  "lightsDue w \<Longrightarrow> uniformDeclared (gpu w) p ''lightsUniform'' \<Longrightarrow>
   \<not> uniformDeclared (gpu w) p ''lightColors'' \<Longrightarrow>
   fst (setUpLights p w) = Throws ''Failed to get the storage location of lightColor''"
  by (auto simp: setUpLights_def lightsDue_def Let_def case_prod_unfold split: option.splits)

lemma setUpLights_ok:
  "model w \<noteq> None \<Longrightarrow>
   (lightsDue w \<longrightarrow> uniformDeclared (gpu w) p ''lightsUniform''
                    \<and> uniformDeclared (gpu w) p ''lightColors'') \<Longrightarrow>
   fst (setUpLights p w) = Returns ()"
  by (auto simp: setUpLights_def lightsDue_def Let_def case_prod_unfold split: option.splits)

lemma lightsDue_cong:
  "glContext w' = glContext w \<Longrightarrow> lights w' = lights w \<Longrightarrow>
   map_option getVertexShaderName (model w') = map_option getVertexShaderName (model w) \<Longrightarrow>
   lightsDue w' = lightsDue w"
  by (cases "model w"; cases "model w'") (auto simp: lightsDue_def)

lemma frameSetup_fields [simp]:
  "setupPreserves w0 (frameSetup m p w) = setupPreserves w0 w"
  "model (frameSetup m p w) = model w"
  "created (gpu (frameSetup m p w)) = Suc (Suc (created (gpu w)))"
  by (simp_all add: frameSetup_def)

lemma compileProgram_returns_handle:
  assumes r: "fst (compileProgram w) = Returns (Some p)" and m: "model w = Some m"
  shows "model (snd (compileProgram w)) = Some (m\<lparr>renderingProgram := Some p\<rparr>)"
    and "created (gpu (snd (compileProgram w))) = created (gpu w) + (if compiling w then 3 else 0)"
proof -
  from r have e: "compileProgram w = (Returns (Some p), snd (compileProgram w))"
    by (simp add: prod_eq_iff)
  from compileProgram_returns_Some [OF e]
  consider (hit) "renderingProgram m = Some p" "snd (compileProgram w) = w"
    | (link) "linkSucceeds w"
    using m by auto
  then have "model (snd (compileProgram w)) = Some (m\<lparr>renderingProgram := Some p\<rparr>)
             \<and> created (gpu (snd (compileProgram w)))
                 = created (gpu w) + (if compiling w then 3 else 0)"
  proof cases
    case hit
    then have "m\<lparr>renderingProgram := Some p\<rparr> = m" by simp
    moreover from hit m have "\<not> compiling w" by (simp add: compiling_def)
    ultimately show ?thesis using hit m by simp
  next
    case link
    then have "compiling w" by (simp add: linkSucceeds_def linked_def)
    with compileProgram_linkSucceeds(1,3,4) [OF link m] r show ?thesis by simp
  qed
  then show "model (snd (compileProgram w)) = Some (m\<lparr>renderingProgram := Some p\<rparr>)"
    and "created (gpu (snd (compileProgram w))) = created (gpu w) + (if compiling w then 3 else 0)"
    by simp_all
qed

text \<open>The world in which the frame sets its textures up, seen from the frame's start.\<close>

lemma frame_before_textures:
  assumes r: "fst (compileProgram w) = Returns (Some p)" and m: "model w = Some m"
  shows "setupPreserves w (frameSetup m p (snd (compileProgram w)))"
    and "model (frameSetup m p (snd (compileProgram w))) = Some (m\<lparr>renderingProgram := Some p\<rparr>)"
    and "created (gpu (frameSetup m p (snd (compileProgram w)))) = createdBeforeTextures w"
    and "textureDataMissing ty (frameSetup m p (snd (compileProgram w)))
           = textureDataMissing ty w"
proof -
  let ?w4 = "frameSetup m p (snd (compileProgram w))"
  show p: "setupPreserves w ?w4" by (simp add: compileProgram_setupPreserves)
  show m4: "model ?w4 = Some (m\<lparr>renderingProgram := Some p\<rparr>)"
    using compileProgram_returns_handle(1) [OF r m] by simp
  show "created (gpu ?w4) = createdBeforeTextures w"
    using compileProgram_returns_handle(2) [OF r m] by (simp add: createdBeforeTextures_def)
  show "textureDataMissing ty ?w4 = textureDataMissing ty w"
    using setupPreserves_fields(4) [OF p] m4 m
    by (intro textureDataMissing_cong) simp_all
qed

lemma renderLoop_compile_returns_null:
  assumes "glContext w \<noteq> None" "model w \<noteq> None" "camera w \<noteq> None"
    "fst (compileProgram w) = Returns None"
  shows "renderLoop w = (Returns (), snd (compileProgram w))"
  using assms by (auto simp: renderLoop_def case_prod_unfold split: option.splits)

lemma renderLoop_lights_throw:
  assumes "glContext w \<noteq> None" "model w = Some m" "camera w \<noteq> None"
    "fst (compileProgram w) = Returns (Some p)"
    "fst (setUpLights p (setUpVertexBuffer m p (glDo (UseProgram p) (snd (compileProgram w)))))
       = Throws e"
  shows "renderLoop w = (Throws e, frameSetup m p (snd (compileProgram w)))"
  using assms
  by (auto simp: renderLoop_def frameSetup_def Let_def case_prod_unfold split: option.splits)

lemma renderLoop_reaches_textures:
  assumes f: "frameReachesTextures w p" and m: "model w = Some m" and c: "camera w = Some c"
  shows "renderLoop w =
           (case fst (setUpTextures p (frameSetup m p (snd (compileProgram w)))) of
              Throws e \<Rightarrow> (Throws e, snd (setUpTextures p (frameSetup m p (snd (compileProgram w)))))
            | Returns _ \<Rightarrow>
                (Returns (),
                 finishFrame c m p (snd (setUpTextures p (frameSetup m p (snd (compileProgram w)))))))"
proof -
  let ?w1 = "snd (compileProgram w)"
  let ?w3 = "setUpVertexBuffer m p (glDo (UseProgram p) ?w1)"
  from f have g: "glContext w \<noteq> None" and r: "fst (compileProgram w) = Returns (Some p)"
    and l: "lightsDue w \<longrightarrow> uniformDeclared (gpu w) p ''lightsUniform''
                         \<and> uniformDeclared (gpu w) p ''lightColors''"
    by (simp_all add: frameReachesTextures_def)
  have p3: "setupPreserves w ?w3" by (simp add: compileProgram_setupPreserves)
  have m3: "model ?w3 = Some (m\<lparr>renderingProgram := Some p\<rparr>)"
    using compileProgram_returns_handle(1) [OF r m] by simp
  have "lightsDue ?w3 = lightsDue w"
    using setupPreserves_fields(1,3) [OF p3] m3 m by (intro lightsDue_cong) simp_all
  with l setupPreserves_fields(7) [OF p3] m3
  have "fst (setUpLights p ?w3) = Returns ()" by (intro setUpLights_ok) simp_all
  with g m c r show ?thesis
    by (simp add: renderLoop_def frameSetup_def Let_def case_prod_unfold
        split: completion.split)
qed

text \<open>A frame that ends in an exception has drawn nothing and has not rescheduled the loop.\<close>

lemma renderLoop_setup_throws:
  assumes f: "frameReachesTextures w p" and m: "model w = Some m"
    and t: "fst (setUpTextures p (frameSetup m p (snd (compileProgram w)))) = Throws e"
  shows "fst (renderLoop w) = Throws e"
    and "animationFrameRequests (snd (renderLoop w)) = animationFrameRequests w"
    and "drawCalls (snd (renderLoop w)) = drawCalls w"
proof -
  from f obtain c where c: "camera w = Some c" by (auto simp: frameReachesTextures_def)
  from f have r: "fst (compileProgram w) = Returns (Some p)"
    by (simp add: frameReachesTextures_def)
  let ?w5 = "snd (setUpTextures p (frameSetup m p (snd (compileProgram w))))"
  from renderLoop_reaches_textures [OF f m c] t
  have e: "renderLoop w = (Throws e, ?w5)" by simp
  have "setupPreserves w ?w5" using frame_before_textures(1) [OF r m] by simp
  from setupPreserves_fields(5,8) [OF this] e
  show "fst (renderLoop w) = Throws e"
    and "animationFrameRequests (snd (renderLoop w)) = animationFrameRequests w"
    and "drawCalls (snd (renderLoop w)) = drawCalls w"
    by simp_all
qed

lemma renderLoop_compile_failure:
  assumes "vertexCompileFails w \<or> fragmentCompileFails w \<or> linkFails w"
  shows "fst (renderLoop w) = Returns ()"
    and "\<exists>es msg. console (snd (renderLoop w)) = console w @ es @ [ConsoleError msg]"
    and "animationFrameRequests (snd (renderLoop w)) = animationFrameRequests w"
    and "drawCalls (snd (renderLoop w)) = drawCalls w"
proof -
  from assms have "compiling w" by (auto simp: outcome_defs)
  then have g: "glContext w \<noteq> None" "model w \<noteq> None" "camera w \<noteq> None"
    by (auto simp: compiling_def split: option.splits)
  from assms have "fst (compileProgram w) = Returns None"
    by (simp add: compileProgram_returns_None)
  from renderLoop_compile_returns_null [OF g this]
  have e: "renderLoop w = (Returns (), snd (compileProgram w))" .
  from e show "fst (renderLoop w) = Returns ()" by simp
  from e compileProgram_logs_failure [OF assms]
  show "\<exists>es msg. console (snd (renderLoop w)) = console w @ es @ [ConsoleError msg]" by simp
  from e setupPreserves_fields(5,8) [OF compileProgram_setupPreserves [of w]]
  show "animationFrameRequests (snd (renderLoop w)) = animationFrameRequests w"
    and "drawCalls (snd (renderLoop w)) = drawCalls w"
    by simp_all
qed

lemma renderLoop_texture_data_missing:
  assumes f: "frameReachesTextures w p" and m: "model w = Some m"
    and d: "(hasDiffuseMap m \<and> diffuseTexture m = None \<and> textureDataMissing ''map_Kd'' w
             \<and> e = ''Failed to set up diffuse texture, it was expected to be there but it was not'')
            \<or> ((\<not> hasDiffuseMap m \<or> diffuseTexture m \<noteq> None)
                \<and> hasNormalMap m \<and> normalTexture m = None \<and> textureDataMissing ''map_Bump'' w
                \<and> e = ''Failed to set up normal texture, it was expected to be there but it was not'')"
  shows "fst (renderLoop w) = Throws e"
    and "animationFrameRequests (snd (renderLoop w)) = animationFrameRequests w"
    and "drawCalls (snd (renderLoop w)) = drawCalls w"
proof -
  from f have r: "fst (compileProgram w) = Returns (Some p)" and g: "glContext w \<noteq> None"
    by (simp_all add: frameReachesTextures_def)
  let ?w4 = "frameSetup m p (snd (compileProgram w))"
  note b = frame_before_textures [OF r m]
  have g4: "glContext ?w4 \<noteq> None" using setupPreserves_fields(1) [OF b(1)] g by simp
  from d have "fst (setUpTextures p ?w4) = Throws e"
  proof
    assume a: "hasDiffuseMap m \<and> diffuseTexture m = None \<and> textureDataMissing ''map_Kd'' w
       \<and> e = ''Failed to set up diffuse texture, it was expected to be there but it was not''"
    with b(4) [of "''map_Kd''"] g4
    show ?thesis
      by (simp add: setUpTextures_diffuse_data_missing [OF g4 b(2)])
  next
    assume a: "(\<not> hasDiffuseMap m \<or> diffuseTexture m \<noteq> None)
       \<and> hasNormalMap m \<and> normalTexture m = None \<and> textureDataMissing ''map_Bump'' w
       \<and> e = ''Failed to set up normal texture, it was expected to be there but it was not''"
    with b(4) [of "''map_Bump''"] g4
    show ?thesis
      by (simp add: setUpTextures_normal_data_missing [OF g4 b(2)])
  qed
  from renderLoop_setup_throws [OF f m this]
  show "fst (renderLoop w) = Throws e"
    and "animationFrameRequests (snd (renderLoop w)) = animationFrameRequests w"
    and "drawCalls (snd (renderLoop w)) = drawCalls w"
    by simp_all
qed

lemma renderLoop_sampler_missing:
  assumes f: "frameReachesTextures w p" and m: "model w = Some m"
    and c: "createOk (gpu w) (createdBeforeTextures w)"
    and d: "(hasDiffuseMap m \<and> diffuseTexture m = None \<and> \<not> textureDataMissing ''map_Kd'' w
             \<and> \<not> uniformDeclared (gpu w) p ''textureSampler''
             \<and> e = ''The sampler name textureSampler was not found in the program'')
            \<or> ((\<not> hasDiffuseMap m \<or> diffuseTexture m \<noteq> None)
                \<and> hasNormalMap m \<and> normalTexture m = None \<and> \<not> textureDataMissing ''map_Bump'' w
                \<and> \<not> uniformDeclared (gpu w) p ''normalSampler''
                \<and> e = ''The sampler name normalSampler was not found in the program'')"
  shows "fst (renderLoop w) = Throws e"
    and "animationFrameRequests (snd (renderLoop w)) = animationFrameRequests w"
    and "drawCalls (snd (renderLoop w)) = drawCalls w"
proof -
  from f have r: "fst (compileProgram w) = Returns (Some p)" and g: "glContext w \<noteq> None"
    by (simp_all add: frameReachesTextures_def)
  let ?w4 = "frameSetup m p (snd (compileProgram w))"
  note b = frame_before_textures [OF r m]
  note q = setupPreserves_fields [OF b(1)]
  have g4: "glContext ?w4 \<noteq> None" using q(1) g by simp
  have c4: "createOk (gpu ?w4) (created (gpu ?w4))" using c q(6) b(3) by simp
  from d have "fst (setUpTextures p ?w4) = Throws e"
  proof
    assume a: "hasDiffuseMap m \<and> diffuseTexture m = None \<and> \<not> textureDataMissing ''map_Kd'' w
       \<and> \<not> uniformDeclared (gpu w) p ''textureSampler''
       \<and> e = ''The sampler name textureSampler was not found in the program''"
    with b(4) [of "''map_Kd''"] q(7) c4
    show ?thesis
      by (simp add: setUpTextures_diffuse_sampler_missing [OF g4 b(2)])
  next
    assume a: "(\<not> hasDiffuseMap m \<or> diffuseTexture m \<noteq> None)
       \<and> hasNormalMap m \<and> normalTexture m = None \<and> \<not> textureDataMissing ''map_Bump'' w
       \<and> \<not> uniformDeclared (gpu w) p ''normalSampler''
       \<and> e = ''The sampler name normalSampler was not found in the program''"
    with b(4) [of "''map_Bump''"] q(7) c4
    show ?thesis
      by (simp add: setUpTextures_normal_sampler_missing [OF g4 b(2)])
  qed
  from renderLoop_setup_throws [OF f m this]
  show "fst (renderLoop w) = Throws e"
    and "animationFrameRequests (snd (renderLoop w)) = animationFrameRequests w"
    and "drawCalls (snd (renderLoop w)) = drawCalls w"
    by simp_all
qed

lemma renderLoop_lights_uniform_missing:
  assumes g: "glContext w \<noteq> None" and m: "model w = Some m" and c: "camera w \<noteq> None"
    and r: "fst (compileProgram w) = Returns (Some p)" and l: "lightsDue w"
    and d: "(\<not> uniformDeclared (gpu w) p ''lightsUniform''
             \<and> e = ''Failed to get the storage location of hack'')
            \<or> (uniformDeclared (gpu w) p ''lightsUniform''
                \<and> \<not> uniformDeclared (gpu w) p ''lightColors''
                \<and> e = ''Failed to get the storage location of lightColor'')"
  shows "fst (renderLoop w) = Throws e"
    and "animationFrameRequests (snd (renderLoop w)) = animationFrameRequests w"
    and "drawCalls (snd (renderLoop w)) = drawCalls w"
proof -
  let ?w1 = "snd (compileProgram w)"
  let ?w3 = "setUpVertexBuffer m p (glDo (UseProgram p) ?w1)"
  have p3: "setupPreserves w ?w3" by (simp add: compileProgram_setupPreserves)
  note q = setupPreserves_fields [OF p3]
  have m3: "model ?w3 = Some (m\<lparr>renderingProgram := Some p\<rparr>)"
    using compileProgram_returns_handle(1) [OF r m] by simp
  have "lightsDue ?w3 = lightsDue w"
    using q(1,3) m3 m by (intro lightsDue_cong) simp_all
  with l have l3: "lightsDue ?w3" by simp
  from d have "fst (setUpLights p ?w3) = Throws e"
  proof
    assume "\<not> uniformDeclared (gpu w) p ''lightsUniform''
            \<and> e = ''Failed to get the storage location of hack''"
    with setUpLights_no_positions [OF l3, of p] q(7) show ?thesis by simp
  next
    assume "uniformDeclared (gpu w) p ''lightsUniform''
            \<and> \<not> uniformDeclared (gpu w) p ''lightColors''
            \<and> e = ''Failed to get the storage location of lightColor''"
    with setUpLights_no_colors [OF l3, of p] q(7) show ?thesis by simp
  qed
  from renderLoop_lights_throw [OF g m c r this]
  have e: "renderLoop w = (Throws e, frameSetup m p ?w1)" .
  have "setupPreserves w (frameSetup m p ?w1)" by (simp add: compileProgram_setupPreserves)
  from setupPreserves_fields(5,8) [OF this] e
  show "fst (renderLoop w) = Throws e"
    and "animationFrameRequests (snd (renderLoop w)) = animationFrameRequests w"
    and "drawCalls (snd (renderLoop w)) = drawCalls w"
    by simp_all
qed

section \<open>The tail of the frame\<close>

text \<open>
  The steps of \<open>renderLoop\<close> after its texture setup, field by field: what each leaves
  alone, and which viewport and draw calls it adds to the log.
\<close>

lemma wireframeLoop_state:
  "wireframeLoop i n w =
     w\<lparr>gpu := (gpu w)\<lparr>calls := calls (gpu w)
                              @ map (\<lambda>k. DrawElements LINE_LOOP 3 (3 * k * 2)) [i..<n]\<rparr>\<rparr>"
proof (induction i n w rule: wireframeLoop.induct)
  case (1 i n w)
  show ?case
  proof (cases "i < n")
    case True
    have "wireframeLoop i n w =
            wireframeLoop (i + 1) n (glDo (DrawElements LINE_LOOP 3 (i * 3 * 2)) w)"
      using True by (subst wireframeLoop.simps) simp
    with "1.IH" [OF True refl] True show ?thesis
      by (simp add: glDo_def upt_conv_Cons mult.commute)
  next
    case False
    then show ?thesis by (subst wireframeLoop.simps) simp
  qed
qed

lemma drawModel_state:
  "drawModel c m w = w\<lparr>gpu := (gpu w)\<lparr>calls := calls (gpu w) @ frameDrawCalls c m\<rparr>\<rparr>"
  by (simp add: drawModel_def frameDrawCalls_def wireframeLoop_state glDo_def split: option.split)

lemma setUpNormalAttribute_fields [simp]:
  "model (setUpNormalAttribute m p w) = model w"
  "glContext (setUpNormalAttribute m p w) = glContext w"
  "frameNumber (setUpNormalAttribute m p w) = frameNumber w"
  "fps (setUpNormalAttribute m p w) = fps w"
  "lastTime (setUpNormalAttribute m p w) = lastTime w"
  "clock (setUpNormalAttribute m p w) = clock w"
  "clockReads (setUpNormalAttribute m p w) = clockReads w"
  "animationFrameRequests (setUpNormalAttribute m p w) = animationFrameRequests w"
  "renderingCalls (setUpNormalAttribute m p w) = renderingCalls w"
  "drawCalls (setUpNormalAttribute m p w) = drawCalls w"
  "created (gpu (setUpNormalAttribute m p w)) = created (gpu w)"
  "canvas_width (gpu (setUpNormalAttribute m p w)) = canvas_width (gpu w)"
  "canvas_height (gpu (setUpNormalAttribute m p w)) = canvas_height (gpu w)"
  by (simp_all add: setUpNormalAttribute_def Let_def case_prod_unfold)

lemma uploadMatrices_fields [simp]:
  "model (uploadMatrices m p w) = model w"
  "glContext (uploadMatrices m p w) = glContext w"
  "frameNumber (uploadMatrices m p w) = frameNumber w"
  "fps (uploadMatrices m p w) = fps w"
  "lastTime (uploadMatrices m p w) = lastTime w"
  "clock (uploadMatrices m p w) = clock w"
  "clockReads (uploadMatrices m p w) = clockReads w"
  "animationFrameRequests (uploadMatrices m p w) = animationFrameRequests w"
  "renderingCalls (uploadMatrices m p w) = renderingCalls w"
  "drawCalls (uploadMatrices m p w) = drawCalls w"
  "created (gpu (uploadMatrices m p w)) = created (gpu w)"
  "canvas_width (gpu (uploadMatrices m p w)) = canvas_width (gpu w)"
  "canvas_height (gpu (uploadMatrices m p w)) = canvas_height (gpu w)"
  by (simp_all add: uploadMatrices_def Let_def case_prod_unfold)

lemma clearCanvas_fields [simp]:
  "model (clearCanvas w) = model w"
  "glContext (clearCanvas w) = glContext w"
  "frameNumber (clearCanvas w) = frameNumber w"
  "fps (clearCanvas w) = fps w"
  "lastTime (clearCanvas w) = lastTime w"
  "clock (clearCanvas w) = clock w"
  "clockReads (clearCanvas w) = clockReads w"
  "animationFrameRequests (clearCanvas w) = animationFrameRequests w"
  "drawCalls (clearCanvas w) = drawCalls w"
  "created (gpu (clearCanvas w)) = created (gpu w)"
  "canvas_width (gpu (clearCanvas w)) = canvas_width (gpu w)"
  "canvas_height (gpu (clearCanvas w)) = canvas_height (gpu w)"
  "renderingCalls (clearCanvas w) =
     renderingCalls w @ [Viewport 0 0 (real (canvas_width (gpu w))) (real (canvas_height (gpu w)))]"
  by (simp_all add: clearCanvas_def Let_def renderingCalls_def drawCalls_def)

lemma setViewport_fields [simp]:
  "model (setViewport c w) = model w"
  "glContext (setViewport c w) = glContext w"
  "frameNumber (setViewport c w) = frameNumber w"
  "fps (setViewport c w) = fps w"
  "lastTime (setViewport c w) = lastTime w"
  "clock (setViewport c w) = clock w"
  "clockReads (setViewport c w) = clockReads w"
  "animationFrameRequests (setViewport c w) = animationFrameRequests w"
  "drawCalls (setViewport c w) = drawCalls w"
  "created (gpu (setViewport c w)) = created (gpu w)"
  "renderingCalls (setViewport c w) =
     renderingCalls w @
     [if usePerspective c
      then Viewport 0 0 (real (canvas_width (gpu w))) (real (canvas_height (gpu w)))
      else Viewport ((real (canvas_width (gpu w))
                      - real (min (canvas_width (gpu w)) (canvas_height (gpu w)))) / 2)
                    ((real (canvas_height (gpu w))
                      - real (min (canvas_width (gpu w)) (canvas_height (gpu w)))) / 2)
                    (real (min (canvas_width (gpu w)) (canvas_height (gpu w))))
                    (real (min (canvas_width (gpu w)) (canvas_height (gpu w))))]"
  by (simp_all add: setViewport_def Let_def min_def)

lemma frameDrawCalls_draws [simp]:
  "filter (\<lambda>c. isViewport c \<or> isDrawElements c) (frameDrawCalls c m) = frameDrawCalls c m"
  "filter isDrawElements (frameDrawCalls c m) = frameDrawCalls c m"
  by (simp_all add: frameDrawCalls_def filter_map comp_def split: option.split)

lemma drawModel_fields [simp]:
  "model (drawModel c m w) = model w"
  "glContext (drawModel c m w) = glContext w"
  "frameNumber (drawModel c m w) = frameNumber w"
  "fps (drawModel c m w) = fps w"
  "lastTime (drawModel c m w) = lastTime w"
  "clock (drawModel c m w) = clock w"
  "clockReads (drawModel c m w) = clockReads w"
  "animationFrameRequests (drawModel c m w) = animationFrameRequests w"
  "created (gpu (drawModel c m w)) = created (gpu w)"
  "renderingCalls (drawModel c m w) = renderingCalls w @ frameDrawCalls c m"
  "drawCalls (drawModel c m w) = drawCalls w @ frameDrawCalls c m"
  by (simp_all add: drawModel_state renderingCalls_def drawCalls_def)

lemma measureFPS_other_fields [simp]:
  "model (measureFPS w) = model w"
  "glContext (measureFPS w) = glContext w"
  "animationFrameRequests (measureFPS w) = animationFrameRequests w"
  "renderingCalls (measureFPS w) = renderingCalls w"
  "drawCalls (measureFPS w) = drawCalls w"
  "clock (measureFPS w) = clock w"
  "created (gpu (measureFPS w)) = created (gpu w)"
  by (simp_all add: measureFPS_def Let_def case_prod_unfold renderingCalls_def drawCalls_def)

lemma measureFPS_fields:
  "frameNumber (measureFPS w) =
     (if clock w (clockReads w) - lastTime w > 1000 then 0 else frameNumber w + 1)"
  "fps (measureFPS w) =
     (if clock w (clockReads w) - lastTime w > 1000 then frameNumber w + 1 else fps w)"
  "lastTime (measureFPS w) =
     (if clock w (clockReads w) - lastTime w > 1000 then clock w (clockReads w) else lastTime w)"
  "console (measureFPS w) =
     console w @ (if clock w (clockReads w) - lastTime w > 1000
                  then [ConsoleLog (''FPS: '' @ showNat (frameNumber w + 1))] else [])"
  by (simp_all add: measureFPS_def Let_def case_prod_unfold)

lemma glDo_more_fields [simp]:
  "clock (glDo c w) = clock w" "clockReads (glDo c w) = clockReads w"
  by (simp_all add: glDo_def)

lemma finishFrame_fields:
  "model (finishFrame c m p w) = model w"
  "glContext (finishFrame c m p w) = glContext w"
  "created (gpu (finishFrame c m p w)) = created (gpu w)"
  "animationFrameRequests (finishFrame c m p w) = Suc (animationFrameRequests w)"
  "renderingCalls (finishFrame c m p w) =
     renderingCalls w @
     [Viewport 0 0 (real (canvas_width (gpu w))) (real (canvas_height (gpu w))),
      if usePerspective c
      then Viewport 0 0 (real (canvas_width (gpu w))) (real (canvas_height (gpu w)))
      else Viewport ((real (canvas_width (gpu w))
                      - real (min (canvas_width (gpu w)) (canvas_height (gpu w)))) / 2)
                    ((real (canvas_height (gpu w))
                      - real (min (canvas_width (gpu w)) (canvas_height (gpu w)))) / 2)
                    (real (min (canvas_width (gpu w)) (canvas_height (gpu w))))
                    (real (min (canvas_width (gpu w)) (canvas_height (gpu w))))]
     @ frameDrawCalls c m"
  "drawCalls (finishFrame c m p w) = drawCalls w @ frameDrawCalls c m"
  "frameNumber (finishFrame c m p w) =
     (if clock w (clockReads w) - lastTime w > 1000 then 0 else frameNumber w + 1)"
  "fps (finishFrame c m p w) =
     (if clock w (clockReads w) - lastTime w > 1000 then frameNumber w + 1 else fps w)"
  "lastTime (finishFrame c m p w) =
     (if clock w (clockReads w) - lastTime w > 1000 then clock w (clockReads w) else lastTime w)"
  by (simp_all add: finishFrame_def Let_def measureFPS_fields)

section \<open>Frames that complete, and frames that stop\<close>

lemma renderLoop_complete:
  assumes "frameCompletes w"
  shows "\<exists>m c p b. model w = Some m \<and> camera w = Some c
           \<and> fst (compileProgram w) = Returns (Some p)
           \<and> fst (setUpTextures p (frameSetup m p (snd (compileProgram w)))) = Returns b
           \<and> renderLoop w =
               (Returns (),
                finishFrame c m p (snd (setUpTextures p (frameSetup m p (snd (compileProgram w))))))"
  using assms
  by (auto simp: frameCompletes_def renderLoop_def frameSetup_def Let_def case_prod_unfold
      split: option.splits completion.splits)

lemma renderLoop_incomplete:
  assumes "\<not> frameCompletes w"
  shows "setupPreserves w (snd (renderLoop w))"
  using assms
  by (auto simp: frameCompletes_def renderLoop_def frameSetup_def Let_def case_prod_unfold
      compileProgram_setupPreserves compileProgram_hit
      split: option.splits completion.splits)

lemma frameCompletes_intro:
  assumes f: "frameReachesTextures w p" and m: "model w = Some m"
    and t: "fst (setUpTextures p (frameSetup m p (snd (compileProgram w)))) = Returns b"
  shows "frameCompletes w"
proof -
  let ?w1 = "snd (compileProgram w)"
  let ?w3 = "setUpVertexBuffer m p (glDo (UseProgram p) ?w1)"
  from f have g: "glContext w \<noteq> None" "camera w \<noteq> None"
    and r: "fst (compileProgram w) = Returns (Some p)"
    and l: "lightsDue w \<longrightarrow> uniformDeclared (gpu w) p ''lightsUniform''
                         \<and> uniformDeclared (gpu w) p ''lightColors''"
    by (simp_all add: frameReachesTextures_def)
  have p3: "setupPreserves w ?w3" by (simp add: compileProgram_setupPreserves)
  have m3: "model ?w3 = Some (m\<lparr>renderingProgram := Some p\<rparr>)"
    using compileProgram_returns_handle(1) [OF r m] by simp
  have "lightsDue ?w3 = lightsDue w"
    using setupPreserves_fields(1,3) [OF p3] m3 m by (intro lightsDue_cong) simp_all
  with l setupPreserves_fields(7) [OF p3] m3
  have "fst (setUpLights p ?w3) = Returns ()" by (intro setUpLights_ok) simp_all
  with g m r t show ?thesis by (simp add: frameCompletes_def)
qed

text \<open>
  A frame of a model that needs both textures created completes when the driver creates
  the two objects, the data of both is cached and the program declares both samplers.
\<close>

lemma frameCompletes_both_textures:
  assumes f: "frameReachesTextures w p" and m: "model w = Some m"
    and n: "hasDiffuseMap m" "diffuseTexture m = None" "hasNormalMap m" "normalTexture m = None"
    and c: "createOk (gpu w) (createdBeforeTextures w)"
      "createOk (gpu w) (createdBeforeTextures w + 1)"
    and d: "\<not> textureDataMissing ''map_Kd'' w" "\<not> textureDataMissing ''map_Bump'' w"
    and u: "uniformDeclared (gpu w) p ''textureSampler''"
      "uniformDeclared (gpu w) p ''normalSampler''"
  shows "frameCompletes w"
proof -
  from f have r: "fst (compileProgram w) = Returns (Some p)" and g: "glContext w \<noteq> None"
    by (simp_all add: frameReachesTextures_def)
  let ?w4 = "frameSetup m p (snd (compileProgram w))"
  note b = frame_before_textures [OF r m]
  note q = setupPreserves_fields [OF b(1)]
  have "fst (setUpTextures p ?w4) = Returns True"
    using q(1,6,7) b(3) b(4) n c d u g
    by (intro setUpTextures_both_succeed [OF _ b(2)]) simp_all
  from frameCompletes_intro [OF f m this] show ?thesis .
qed

text \<open>A frame that stops before its tail leaves the counters, the log's viewport and draw
  calls and the animation-frame requests as they were; a frame that completes runs the tail.\<close>

lemma renderLoop_frame:
  "renderingCalls (snd (renderLoop w)) =
     (if frameCompletes w
      then renderingCalls w @
           [Viewport 0 0 (real (canvas_width (gpu w))) (real (canvas_height (gpu w))),
            if usePerspective (the (camera w))
            then Viewport 0 0 (real (canvas_width (gpu w))) (real (canvas_height (gpu w)))
            else Viewport ((real (canvas_width (gpu w))
                            - real (min (canvas_width (gpu w)) (canvas_height (gpu w)))) / 2)
                          ((real (canvas_height (gpu w))
                            - real (min (canvas_width (gpu w)) (canvas_height (gpu w)))) / 2)
                          (real (min (canvas_width (gpu w)) (canvas_height (gpu w))))
                          (real (min (canvas_width (gpu w)) (canvas_height (gpu w))))]
           @ frameDrawCalls (the (camera w)) (the (model w))
      else renderingCalls w)"
  "drawCalls (snd (renderLoop w)) =
     (if frameCompletes w
      then drawCalls w @ frameDrawCalls (the (camera w)) (the (model w)) else drawCalls w)"
  "animationFrameRequests (snd (renderLoop w)) =
     (if frameCompletes w then Suc (animationFrameRequests w) else animationFrameRequests w)"
  "fst (renderLoop w) = Returns () \<or> \<not> frameCompletes w"
proof -
  have "(frameCompletes w \<longrightarrow>
          renderingCalls (snd (renderLoop w)) =
            renderingCalls w @
            [Viewport 0 0 (real (canvas_width (gpu w))) (real (canvas_height (gpu w))),
             if usePerspective (the (camera w))
             then Viewport 0 0 (real (canvas_width (gpu w))) (real (canvas_height (gpu w)))
             else Viewport ((real (canvas_width (gpu w))
                             - real (min (canvas_width (gpu w)) (canvas_height (gpu w)))) / 2)
                           ((real (canvas_height (gpu w))
                             - real (min (canvas_width (gpu w)) (canvas_height (gpu w)))) / 2)
                           (real (min (canvas_width (gpu w)) (canvas_height (gpu w))))
                           (real (min (canvas_width (gpu w)) (canvas_height (gpu w))))]
            @ frameDrawCalls (the (camera w)) (the (model w))
          \<and> drawCalls (snd (renderLoop w))
              = drawCalls w @ frameDrawCalls (the (camera w)) (the (model w))
          \<and> animationFrameRequests (snd (renderLoop w)) = Suc (animationFrameRequests w)
          \<and> fst (renderLoop w) = Returns ())
        \<and> (\<not> frameCompletes w \<longrightarrow>
             renderingCalls (snd (renderLoop w)) = renderingCalls w
             \<and> drawCalls (snd (renderLoop w)) = drawCalls w
             \<and> animationFrameRequests (snd (renderLoop w)) = animationFrameRequests w)"
  proof (intro conjI impI)
    assume "\<not> frameCompletes w"
    from setupPreserves_fields(5,8,9) [OF renderLoop_incomplete [OF this]]
    show "renderingCalls (snd (renderLoop w)) = renderingCalls w"
      and "drawCalls (snd (renderLoop w)) = drawCalls w"
      and "animationFrameRequests (snd (renderLoop w)) = animationFrameRequests w"
      by simp_all
  next
    assume "frameCompletes w"
    from renderLoop_complete [OF this]
    obtain m c p b where m: "model w = Some m" and c: "camera w = Some c"
      and r: "fst (compileProgram w) = Returns (Some p)"
      and e: "renderLoop w =
               (Returns (),
                finishFrame c m p (snd (setUpTextures p (frameSetup m p (snd (compileProgram w))))))"
      by blast
    let ?w5 = "snd (setUpTextures p (frameSetup m p (snd (compileProgram w))))"
    have "setupPreserves w ?w5" using frame_before_textures(1) [OF r m] by simp
    note q = setupPreserves_fields [OF this]
    from e q m c
    show "renderingCalls (snd (renderLoop w)) =
            renderingCalls w @
            [Viewport 0 0 (real (canvas_width (gpu w))) (real (canvas_height (gpu w))),
             if usePerspective (the (camera w))
             then Viewport 0 0 (real (canvas_width (gpu w))) (real (canvas_height (gpu w)))
             else Viewport ((real (canvas_width (gpu w))
                             - real (min (canvas_width (gpu w)) (canvas_height (gpu w)))) / 2)
                           ((real (canvas_height (gpu w))
                             - real (min (canvas_width (gpu w)) (canvas_height (gpu w)))) / 2)
                           (real (min (canvas_width (gpu w)) (canvas_height (gpu w))))
                           (real (min (canvas_width (gpu w)) (canvas_height (gpu w))))]
            @ frameDrawCalls (the (camera w)) (the (model w))"
      and "drawCalls (snd (renderLoop w))
             = drawCalls w @ frameDrawCalls (the (camera w)) (the (model w))"
      and "animationFrameRequests (snd (renderLoop w)) = Suc (animationFrameRequests w)"
      and "fst (renderLoop w) = Returns ()"
      by (simp_all add: finishFrame_fields)
  qed
  then show
    "renderingCalls (snd (renderLoop w)) =
     (if frameCompletes w
      then renderingCalls w @
           [Viewport 0 0 (real (canvas_width (gpu w))) (real (canvas_height (gpu w))),
            if usePerspective (the (camera w))
            then Viewport 0 0 (real (canvas_width (gpu w))) (real (canvas_height (gpu w)))
            else Viewport ((real (canvas_width (gpu w))
                            - real (min (canvas_width (gpu w)) (canvas_height (gpu w)))) / 2)
                          ((real (canvas_height (gpu w))
                            - real (min (canvas_width (gpu w)) (canvas_height (gpu w)))) / 2)
                          (real (min (canvas_width (gpu w)) (canvas_height (gpu w))))
                          (real (min (canvas_width (gpu w)) (canvas_height (gpu w))))]
           @ frameDrawCalls (the (camera w)) (the (model w))
      else renderingCalls w)"
    "drawCalls (snd (renderLoop w)) =
     (if frameCompletes w
      then drawCalls w @ frameDrawCalls (the (camera w)) (the (model w)) else drawCalls w)"
    "animationFrameRequests (snd (renderLoop w)) =
     (if frameCompletes w then Suc (animationFrameRequests w) else animationFrameRequests w)"
    "fst (renderLoop w) = Returns () \<or> \<not> frameCompletes w"
    by auto
qed

section \<open>When the texture blocks return\<close>

lemma setUpTexture_create_fails:
  "glContext w \<noteq> None \<Longrightarrow> model w \<noteq> None \<Longrightarrow> \<not> createOk (gpu w) (created (gpu w)) \<Longrightarrow>
   fst (setUpTexture p u ty s w) = Returns None"
  by (auto simp: texture_defs split: option.splits)

lemma setUpTexture_Some_iff:
  assumes "glContext w \<noteq> None" "model w \<noteq> None"
  shows "(\<exists>t. fst (setUpTexture p u ty s w) = Returns (Some t)) \<longleftrightarrow>
           createOk (gpu w) (created (gpu w)) \<and> \<not> textureDataMissing ty w
           \<and> uniformDeclared (gpu w) p s"
proof
  assume "\<exists>t. fst (setUpTexture p u ty s w) = Returns (Some t)"
  then obtain t where t: "fst (setUpTexture p u ty s w) = Returns (Some t)" ..
  have "createOk (gpu w) (created (gpu w))"
    using setUpTexture_create_fails [OF assms, of p u ty s] t by auto
  moreover have d: "\<not> textureDataMissing ty w"
    using setUpTexture_data_missing [OF assms, of ty p u s] t by auto
  moreover have "uniformDeclared (gpu w) p s"
    using setUpTexture_sampler_missing [OF assms, of ty p s u] t calculation by auto
  ultimately show "createOk (gpu w) (created (gpu w)) \<and> \<not> textureDataMissing ty w
                   \<and> uniformDeclared (gpu w) p s" by simp
next
  assume "createOk (gpu w) (created (gpu w)) \<and> \<not> textureDataMissing ty w
          \<and> uniformDeclared (gpu w) p s"
  with setUpTexture_succeeds [OF assms, of ty p s u]
  show "\<exists>t. fst (setUpTexture p u ty s w) = Returns (Some t)" by blast
qed

lemma setUpDiffuse_returns_iff:
  assumes g: "glContext w \<noteq> None" and m: "model w = Some m"
  shows "(\<exists>u. fst (setUpDiffuse p w) = Returns u) \<longleftrightarrow>
           \<not> hasDiffuseMap m \<or> diffuseTexture m \<noteq> None
           \<or> (createOk (gpu w) (created (gpu w)) \<and> \<not> textureDataMissing ''map_Kd'' w
               \<and> uniformDeclared (gpu w) p ''textureSampler'')"
proof (cases "hasDiffuseMap m \<and> diffuseTexture m = None")
  case False
  with setUpDiffuse_skip [OF m, of p] show ?thesis by auto
next
  case True
  from m have m': "model w \<noteq> None" by simp
  have "(\<exists>u. fst (setUpDiffuse p w) = Returns u)
          \<longleftrightarrow> (\<exists>t. fst (setUpTexture p 0 ''map_Kd'' ''textureSampler'' w) = Returns (Some t))"
    using True by (simp add: setUpDiffuse_create(1) [OF m] split: completion.split option.split)
  with setUpTexture_Some_iff [OF g m'] True show ?thesis by simp
qed

lemma setUpNormal_returns_iff:
  assumes g: "glContext w \<noteq> None" and m: "model w = Some m"
  shows "(\<exists>u. fst (setUpNormal p w) = Returns u) \<longleftrightarrow>
           \<not> hasNormalMap m \<or> normalTexture m \<noteq> None
           \<or> (createOk (gpu w) (created (gpu w)) \<and> \<not> textureDataMissing ''map_Bump'' w
               \<and> uniformDeclared (gpu w) p ''normalSampler'')"
proof -
  consider (skip) "\<not> hasNormalMap m" | (present) t where "hasNormalMap m" "normalTexture m = Some t"
    | (create) "hasNormalMap m" "normalTexture m = None"
    by (cases "normalTexture m") auto
  then show ?thesis
  proof cases
    case skip
    with setUpNormal_skip [OF m, of p] show ?thesis by auto
  next
    case present
    with setUpNormal_present(1) [OF m, of t p] show ?thesis by auto
  next
    case create
    from m have m': "model w \<noteq> None" by simp
    have "(\<exists>u. fst (setUpNormal p w) = Returns u)
            \<longleftrightarrow> (\<exists>t. fst (setUpTexture p 1 ''map_Bump'' ''normalSampler'' w) = Returns (Some t))"
      using create by (simp add: setUpNormal_create(1) [OF m] split: completion.split option.split)
    with setUpTexture_Some_iff [OF g m'] create show ?thesis by simp
  qed
qed

text \<open>The two blocks in the frame, in terms of the world the frame starts from.\<close>

lemma frame_diffuse_block:
  assumes r: "fst (compileProgram w) = Returns (Some p)" and m: "model w = Some m"
    and g: "glContext w \<noteq> None"
  shows "(\<exists>u. fst (setUpDiffuse p (frameSetup m p (snd (compileProgram w)))) = Returns u)
           \<longleftrightarrow> diffuseSetupPasses w p m"
proof -
  let ?w4 = "frameSetup m p (snd (compileProgram w))"
  note b = frame_before_textures [OF r m]
  note q = setupPreserves_fields [OF b(1)]
  have g4: "glContext ?w4 \<noteq> None" using q(1) g by simp
  show ?thesis
    unfolding setUpDiffuse_returns_iff [OF g4 b(2)] b(3) b(4) q(6,7) diffuseSetupPasses_def
    by simp
qed

lemma frame_normal_block:
  assumes r: "fst (compileProgram w) = Returns (Some p)" and m: "model w = Some m"
    and g: "glContext w \<noteq> None"
    and d: "fst (setUpDiffuse p (frameSetup m p (snd (compileProgram w)))) = Returns u"
  shows "(\<exists>u. fst (setUpNormal p (snd (setUpDiffuse p (frameSetup m p (snd (compileProgram w))))))
               = Returns u)
           \<longleftrightarrow> normalSetupPasses w p m"
    and "hasNormalMap m \<Longrightarrow> normalTexture m = None \<Longrightarrow> textureDataMissing ''map_Bump'' w \<Longrightarrow>
         fst (setUpNormal p (snd (setUpDiffuse p (frameSetup m p (snd (compileProgram w))))))
           = Throws ''Failed to set up normal texture, it was expected to be there but it was not''"
    and "hasNormalMap m \<Longrightarrow> normalTexture m = None \<Longrightarrow>
         createOk (gpu w) (createdBeforeNormal w m) \<Longrightarrow> \<not> textureDataMissing ''map_Bump'' w \<Longrightarrow>
         \<not> uniformDeclared (gpu w) p ''normalSampler'' \<Longrightarrow>
         fst (setUpNormal p (snd (setUpDiffuse p (frameSetup m p (snd (compileProgram w))))))
           = Throws ''The sampler name normalSampler was not found in the program''"
proof -
  let ?w4 = "frameSetup m p (snd (compileProgram w))"
  let ?w5 = "snd (setUpDiffuse p ?w4)"
  let ?m4 = "m\<lparr>renderingProgram := Some p\<rparr>"
  let ?m5 = "if hasDiffuseMap ?m4 \<and> diffuseTexture ?m4 = None
             then ?m4\<lparr>diffuseTexture := Some (created (gpu ?w4))\<rparr> else ?m4"
  note b = frame_before_textures [OF r m]
  have p5: "setupPreserves w ?w5" using b(1) by simp
  note q = setupPreserves_fields [OF p5]
  have g5: "glContext ?w5 \<noteq> None" using q(1) g by simp
  have m5: "model ?w5 = Some ?m5" using setUpDiffuse_returns(1) [OF d b(2)] .
  have c5: "created (gpu ?w5) = createdBeforeNormal w m"
    using setUpDiffuse_returns(2) [OF d b(2)] b(3) by (simp add: createdBeforeNormal_def)
  have t5: "textureDataMissing ty ?w5 = textureDataMissing ty w" for ty
    using q(4) m5 m by (intro textureDataMissing_cong) simp_all
  have f5: "hasNormalMap ?m5 = hasNormalMap m" "normalTexture ?m5 = normalTexture m"
    by simp_all
  show "(\<exists>u. fst (setUpNormal p ?w5) = Returns u) \<longleftrightarrow> normalSetupPasses w p m"
    unfolding setUpNormal_returns_iff [OF g5 m5] f5 c5 t5 q(6,7) normalSetupPasses_def
    by simp
  {
    assume n: "hasNormalMap m" "normalTexture m = None"
    from n f5 have n5: "hasNormalMap ?m5" "normalTexture ?m5 = None" by simp_all
    from m5 have m5': "model ?w5 \<noteq> None" by simp
    {
      assume "textureDataMissing ''map_Bump'' w"
      then have "textureDataMissing ''map_Bump'' ?w5" by (simp add: t5)
      from setUpTexture_data_missing [OF g5 m5' this]
      show "fst (setUpNormal p ?w5)
              = Throws ''Failed to set up normal texture, it was expected to be there but it was not''"
        by (simp add: setUpNormal_create(1) [OF m5 n5])
    }
    {
      assume "createOk (gpu w) (createdBeforeNormal w m)" "\<not> textureDataMissing ''map_Bump'' w"
        "\<not> uniformDeclared (gpu w) p ''normalSampler''"
      then have "createOk (gpu ?w5) (created (gpu ?w5))" "\<not> textureDataMissing ''map_Bump'' ?w5"
        "\<not> uniformDeclared (gpu ?w5) p ''normalSampler''"
        unfolding t5 c5 q(6,7) by simp_all
      from setUpTexture_sampler_missing [OF g5 m5' this]
      show "fst (setUpNormal p ?w5)
              = Throws ''The sampler name normalSampler was not found in the program''"
        by (simp add: setUpNormal_create(1) [OF m5 n5])
    }
  }
qed

text \<open>
  The frame completes exactly when it reaches its texture setup and both blocks return.
\<close>

lemma frameCompletes_iff:
  assumes m: "model w = Some m"
  shows "frameCompletes w \<longleftrightarrow>
           (\<exists>p. frameReachesTextures w p \<and> diffuseSetupPasses w p m \<and> normalSetupPasses w p m)"
proof
  assume "\<exists>p. frameReachesTextures w p \<and> diffuseSetupPasses w p m \<and> normalSetupPasses w p m"
  then obtain p where f: "frameReachesTextures w p" and d: "diffuseSetupPasses w p m"
    and n: "normalSetupPasses w p m" by blast
  from f have r: "fst (compileProgram w) = Returns (Some p)" and g: "glContext w \<noteq> None"
    by (simp_all add: frameReachesTextures_def)
  let ?w4 = "frameSetup m p (snd (compileProgram w))"
  note b = frame_before_textures [OF r m]
  have g4: "glContext ?w4 \<noteq> None" using setupPreserves_fields(1) [OF b(1)] g by simp
  from b(2) have m4: "model ?w4 \<noteq> None" by simp
  from d frame_diffuse_block [OF r m g] obtain u where u: "fst (setUpDiffuse p ?w4) = Returns u"
    by blast
  from n frame_normal_block(1) [OF r m g u]
  obtain v where v: "fst (setUpNormal p (snd (setUpDiffuse p ?w4))) = Returns v" by blast
  have "fst (setUpTextures p ?w4) = Returns True"
    by (simp add: setUpTextures_fst(1) [OF g4 m4] u v)
  from frameCompletes_intro [OF f m this] show "frameCompletes w" .
next
  assume c: "frameCompletes w"
  from renderLoop_complete [OF c] m obtain c' p b where c': "camera w = Some c'"
    and r: "fst (compileProgram w) = Returns (Some p)"
    and t: "fst (setUpTextures p (frameSetup m p (snd (compileProgram w)))) = Returns b"
    by auto
  from c have g: "glContext w \<noteq> None" by (simp add: frameCompletes_def)
  let ?w3 = "setUpVertexBuffer m p (glDo (UseProgram p) (snd (compileProgram w)))"
  let ?w4 = "frameSetup m p (snd (compileProgram w))"
  from c m r have l: "fst (setUpLights p ?w3) \<noteq> Throws e" for e
    by (auto simp: frameCompletes_def split: completion.splits)
  have p3: "setupPreserves w ?w3" by (simp add: compileProgram_setupPreserves)
  have m3: "model ?w3 = Some (m\<lparr>renderingProgram := Some p\<rparr>)"
    using compileProgram_returns_handle(1) [OF r m] by simp
  have d3: "lightsDue ?w3 = lightsDue w"
    using setupPreserves_fields(1,3) [OF p3] m3 m by (intro lightsDue_cong) simp_all
  have "uniformDeclared (gpu w) p ''lightsUniform'' \<and> uniformDeclared (gpu w) p ''lightColors''"
    if "lightsDue w"
  proof (rule ccontr)
    assume "\<not> ?thesis"
    then consider "\<not> uniformDeclared (gpu ?w3) p ''lightsUniform''"
      | "uniformDeclared (gpu ?w3) p ''lightsUniform''"
        "\<not> uniformDeclared (gpu ?w3) p ''lightColors''"
      using setupPreserves_fields(7) [OF p3] by auto
    then show False
    proof cases
      case 1
      from setUpLights_no_positions [of ?w3 p] that d3 1 l show False by auto
    next
      case 2
      from setUpLights_no_colors [of ?w3 p] that d3 2 l show False by auto
    qed
  qed
  with g m c' r have f: "frameReachesTextures w p" by (simp add: frameReachesTextures_def)
  note b = frame_before_textures [OF r m]
  have g4: "glContext ?w4 \<noteq> None" using setupPreserves_fields(1) [OF b(1)] g by simp
  from b(2) have m4: "model ?w4 \<noteq> None" by simp
  from setUpTextures_model(2,3) [OF g4 m4 t]
  obtain u v where u: "fst (setUpDiffuse p ?w4) = Returns u"
    and v: "fst (setUpNormal p (snd (setUpDiffuse p ?w4))) = Returns v" by blast
  from u frame_diffuse_block [OF r m g] have "diffuseSetupPasses w p m" by blast
  moreover from v frame_normal_block(1) [OF r m g u] have "normalSetupPasses w p m" by blast
  ultimately show "\<exists>p. frameReachesTextures w p \<and> diffuseSetupPasses w p m
                       \<and> normalSetupPasses w p m"
    using f by blast
qed

section \<open>Frames that stop in their texture setup\<close>

lemma frameReachesTextures_unique:
  "frameReachesTextures w p \<Longrightarrow> frameReachesTextures w p' \<Longrightarrow> p' = p"
  by (simp add: frameReachesTextures_def)

lemma renderLoop_textures_fail:
  assumes f: "frameReachesTextures w p" and m: "model w = Some m"
    and n: "\<not> diffuseSetupPasses w p m \<or> \<not> normalSetupPasses w p m"
  shows "\<exists>e. fst (renderLoop w) = Throws e"
    and "animationFrameRequests (snd (renderLoop w)) = animationFrameRequests w"
    and "drawCalls (snd (renderLoop w)) = drawCalls w"
proof -
  have c: "\<not> frameCompletes w"
    using n frameReachesTextures_unique [OF f] unfolding frameCompletes_iff [OF m] by blast
  then show "animationFrameRequests (snd (renderLoop w)) = animationFrameRequests w"
    and "drawCalls (snd (renderLoop w)) = drawCalls w"
    by (simp_all add: renderLoop_frame)
  from f obtain c' where c': "camera w = Some c'" by (auto simp: frameReachesTextures_def)
  show "\<exists>e. fst (renderLoop w) = Throws e"
  proof (cases "fst (setUpTextures p (frameSetup m p (snd (compileProgram w))))")
    case (Returns b)
    from frameCompletes_intro [OF f m this] c show ?thesis by simp
  next
    case (Throws e)
    then show ?thesis by (simp add: renderLoop_reaches_textures [OF f m c'])
  qed
qed

lemma renderLoop_normal_block_throws:
  assumes f: "frameReachesTextures w p" and m: "model w = Some m"
    and d: "diffuseSetupPasses w p m" and n: "hasNormalMap m" "normalTexture m = None"
    and e: "(textureDataMissing ''map_Bump'' w
             \<and> e = ''Failed to set up normal texture, it was expected to be there but it was not'')
            \<or> (createOk (gpu w) (createdBeforeNormal w m) \<and> \<not> textureDataMissing ''map_Bump'' w
                \<and> \<not> uniformDeclared (gpu w) p ''normalSampler''
                \<and> e = ''The sampler name normalSampler was not found in the program'')"
  shows "fst (renderLoop w) = Throws e"
    and "animationFrameRequests (snd (renderLoop w)) = animationFrameRequests w"
    and "drawCalls (snd (renderLoop w)) = drawCalls w"
proof -
  from f have r: "fst (compileProgram w) = Returns (Some p)" and g: "glContext w \<noteq> None"
    by (simp_all add: frameReachesTextures_def)
  let ?w4 = "frameSetup m p (snd (compileProgram w))"
  note b = frame_before_textures [OF r m]
  have g4: "glContext ?w4 \<noteq> None" using setupPreserves_fields(1) [OF b(1)] g by simp
  from b(2) have m4: "model ?w4 \<noteq> None" by simp
  from d frame_diffuse_block [OF r m g] obtain u where u: "fst (setUpDiffuse p ?w4) = Returns u"
    by blast
  from e frame_normal_block(2,3) [OF r m g u n]
  have "fst (setUpNormal p (snd (setUpDiffuse p ?w4))) = Throws e" by blast
  then have "fst (setUpTextures p ?w4) = Throws e"
    by (simp add: setUpTextures_fst(1) [OF g4 m4] u)
  from renderLoop_setup_throws [OF f m this]
  show "fst (renderLoop w) = Throws e"
    and "animationFrameRequests (snd (renderLoop w)) = animationFrameRequests w"
    and "drawCalls (snd (renderLoop w)) = drawCalls w"
    by simp_all
qed

section \<open>Facts about the example scenes\<close>

lemma frameReachesTextures_cached:
  "glContext w \<noteq> None \<Longrightarrow> camera w \<noteq> None \<Longrightarrow> model w = Some m \<Longrightarrow>
   renderingProgram m = Some p \<Longrightarrow>
   (lightsDue w \<longrightarrow> uniformDeclared (gpu w) p ''lightsUniform''
                    \<and> uniformDeclared (gpu w) p ''lightColors'') \<Longrightarrow>
   frameReachesTextures w p"
  by (simp add: frameReachesTextures_def compileProgram_hit)

lemma frameCompletes_cached:
  assumes "glContext w \<noteq> None" "camera w \<noteq> None" "model w = Some m" "renderingProgram m = Some p"
    "lightsDue w \<longrightarrow> uniformDeclared (gpu w) p ''lightsUniform''
                    \<and> uniformDeclared (gpu w) p ''lightColors''"
    "diffuseSetupPasses w p m" "normalSetupPasses w p m"
  shows "frameCompletes w"
  unfolding frameCompletes_iff [OF assms(3)]
  using frameReachesTextures_cached [OF assms(1-5)] assms(6,7) by blast

lemma cachedWorld_sel [simp]:
  "gpu cachedWorld = okGpu" "glContext cachedWorld = Some ()"
  "model cachedWorld = Some (okModel\<lparr>renderingProgram := Some 7\<rparr>)"
  "camera cachedWorld = Some okCamera" "lights cachedWorld = Some []"
  "modelCache cachedWorld = [''d.ppm'' \<mapsto> okImage, ''n.ppm'' \<mapsto> okImage]"
  "animationFrameRequests cachedWorld = 0"
  "frameNumber cachedWorld = 0" "fps cachedWorld = 0" "lastTime cachedWorld = 0"
  "clock cachedWorld = (\<lambda>_. 0)" "clockReads cachedWorld = 0"
  "calls (gpu cachedWorld) = []"
  by (simp_all add: cachedWorld_def)

lemma cachedWorld_calls [simp]: "drawCalls cachedWorld = []" "renderingCalls cachedWorld = []"
  by (simp_all add: drawCalls_def renderingCalls_def)

lemma textureMissingWorld_reaches: "frameReachesTextures textureMissingWorld 7"
  by (rule frameReachesTextures_cached [where m = "okModel\<lparr>renderingProgram := Some 7\<rparr>"])
     (simp_all add: textureMissingWorld_def)

lemma textureMissingWorld_missing:
  "model textureMissingWorld = Some (okModel\<lparr>renderingProgram := Some 7\<rparr>)"
  "textureDataMissing ''map_Kd'' textureMissingWorld"
  "textureDataMissing ''map_Bump'' textureMissingWorld"
  "animationFrameRequests textureMissingWorld = 0"
  by (simp_all add: textureMissingWorld_def textureDataMissing_def)

lemma normalMissingWorld_facts:
  "frameReachesTextures normalMissingWorld 7"
  "model normalMissingWorld = Some (okModel\<lparr>renderingProgram := Some 7\<rparr>)"
  "diffuseSetupPasses normalMissingWorld 7 (okModel\<lparr>renderingProgram := Some 7\<rparr>)"
  "\<not> textureDataMissing ''map_Kd'' normalMissingWorld"
  "textureDataMissing ''map_Bump'' normalMissingWorld"
  "animationFrameRequests normalMissingWorld = 0"
  "drawCalls normalMissingWorld = []"
proof -
  show "frameReachesTextures normalMissingWorld 7"
    by (rule frameReachesTextures_cached [where m = "okModel\<lparr>renderingProgram := Some 7\<rparr>"])
       (simp_all add: normalMissingWorld_def)
  show "model normalMissingWorld = Some (okModel\<lparr>renderingProgram := Some 7\<rparr>)"
    "diffuseSetupPasses normalMissingWorld 7 (okModel\<lparr>renderingProgram := Some 7\<rparr>)"
    "\<not> textureDataMissing ''map_Kd'' normalMissingWorld"
    "textureDataMissing ''map_Bump'' normalMissingWorld"
    "animationFrameRequests normalMissingWorld = 0"
    "drawCalls normalMissingWorld = []"
    by (simp_all add: normalMissingWorld_def diffuseSetupPasses_def textureDataMissing_def
        okImage_def drawCalls_def)
qed

section \<open>C2: a failed resource creation stops the loop\<close>

text \<open>
  Claim C2, amended. When the vertex or the fragment shader does not compile, or the
  program does not link, the failure is logged to the console and \<open>renderLoop\<close> returns
  without an exception; it draws nothing and does not request another animation frame,
  so the loop is not rescheduled. When the pixel data of a texture that the frame has to
  create, diffuse or normal, is not in the loader's cache, \<open>renderLoop\<close> ends in an
  uncaught exception; nothing is drawn and no animation frame is requested either. With
  the diffuse data missing the exception is the one of the diffuse block of
  \<open>setUpTextures\<close>; with the normal data missing and a diffuse block that passes (nothing
  to create, or the diffuse texture is created from cached data), it is the one of the
  normal block.
\<close>

theorem renderLoop_failed_setup_halts:
  "(vertexCompileFails w \<or> fragmentCompileFails w \<or> linkFails w \<longrightarrow>
      fst (renderLoop w) = Returns ()
      \<and> (\<exists>es msg. console (snd (renderLoop w)) = console w @ es @ [ConsoleError msg])
      \<and> animationFrameRequests (snd (renderLoop w)) = animationFrameRequests w
      \<and> drawCalls (snd (renderLoop w)) = drawCalls w)
   \<and> (\<forall>p m. frameReachesTextures w p \<and> model w = Some m
          \<and> ((hasDiffuseMap m \<and> diffuseTexture m = None \<and> textureDataMissing ''map_Kd'' w)
              \<or> (hasNormalMap m \<and> normalTexture m = None \<and> textureDataMissing ''map_Bump'' w)) \<longrightarrow>
          (\<exists>e. fst (renderLoop w) = Throws e)
          \<and> animationFrameRequests (snd (renderLoop w)) = animationFrameRequests w
          \<and> drawCalls (snd (renderLoop w)) = drawCalls w)
   \<and> (\<forall>p m. frameReachesTextures w p \<and> model w = Some m
          \<and> hasDiffuseMap m \<and> diffuseTexture m = None \<and> textureDataMissing ''map_Kd'' w \<longrightarrow>
          fst (renderLoop w) =
            Throws ''Failed to set up diffuse texture, it was expected to be there but it was not'')
   \<and> (\<forall>p m. frameReachesTextures w p \<and> model w = Some m \<and> diffuseSetupPasses w p m
          \<and> hasNormalMap m \<and> normalTexture m = None \<and> textureDataMissing ''map_Bump'' w \<longrightarrow>
          fst (renderLoop w) =
            Throws ''Failed to set up normal texture, it was expected to be there but it was not'')"
proof (intro conjI allI impI)
  assume a: "vertexCompileFails w \<or> fragmentCompileFails w \<or> linkFails w"
  from renderLoop_compile_failure [OF a]
  show "fst (renderLoop w) = Returns ()"
    and "\<exists>es msg. console (snd (renderLoop w)) = console w @ es @ [ConsoleError msg]"
    and "animationFrameRequests (snd (renderLoop w)) = animationFrameRequests w"
    and "drawCalls (snd (renderLoop w)) = drawCalls w"
    by simp_all
next
  fix p m
  assume a: "frameReachesTextures w p \<and> model w = Some m
          \<and> ((hasDiffuseMap m \<and> diffuseTexture m = None \<and> textureDataMissing ''map_Kd'' w)
              \<or> (hasNormalMap m \<and> normalTexture m = None \<and> textureDataMissing ''map_Bump'' w))"
  then have f: "frameReachesTextures w p" and m: "model w = Some m" by simp_all
  from a have "\<not> diffuseSetupPasses w p m \<or> \<not> normalSetupPasses w p m"
    by (auto simp: diffuseSetupPasses_def normalSetupPasses_def)
  from renderLoop_textures_fail [OF f m this]
  show "\<exists>e. fst (renderLoop w) = Throws e"
    and "animationFrameRequests (snd (renderLoop w)) = animationFrameRequests w"
    and "drawCalls (snd (renderLoop w)) = drawCalls w"
    by simp_all
next
  fix p m
  assume a: "frameReachesTextures w p \<and> model w = Some m
          \<and> hasDiffuseMap m \<and> diffuseTexture m = None \<and> textureDataMissing ''map_Kd'' w"
  then have f: "frameReachesTextures w p" and m: "model w = Some m" by simp_all
  from a renderLoop_texture_data_missing(1) [OF f m,
    of "''Failed to set up diffuse texture, it was expected to be there but it was not''"]
  show "fst (renderLoop w) =
          Throws ''Failed to set up diffuse texture, it was expected to be there but it was not''"
    by simp
next
  fix p m
  assume a: "frameReachesTextures w p \<and> model w = Some m \<and> diffuseSetupPasses w p m
          \<and> hasNormalMap m \<and> normalTexture m = None \<and> textureDataMissing ''map_Bump'' w"
  then have f: "frameReachesTextures w p" and m: "model w = Some m"
    and d: "diffuseSetupPasses w p m" and n: "hasNormalMap m" "normalTexture m = None"
    by simp_all
  from a renderLoop_normal_block_throws(1) [OF f m d n,
    of "''Failed to set up normal texture, it was expected to be there but it was not''"]
  show "fst (renderLoop w) =
          Throws ''Failed to set up normal texture, it was expected to be there but it was not''"
    by simp
qed

text \<open>
  A link failure returns with nothing requested. With no texture data cached the frame
  throws in its diffuse block. With both textures to create, the diffuse data cached and
  the normal data missing, the diffuse texture is created and the frame throws in its
  normal block, again with nothing drawn or requested.
\<close>

theorem renderLoop_failed_setup_halts_witness:
  "fst (renderLoop linkFailWorld) = Returns ()
   \<and> animationFrameRequests (snd (renderLoop linkFailWorld)) = 0
   \<and> (\<exists>es msg. console (snd (renderLoop linkFailWorld)) = es @ [ConsoleError msg])
   \<and> fst (renderLoop textureMissingWorld) =
       Throws ''Failed to set up diffuse texture, it was expected to be there but it was not''
   \<and> animationFrameRequests (snd (renderLoop textureMissingWorld)) = 0
   \<and> hasDiffuseMap (the (model normalMissingWorld))
   \<and> diffuseTexture (the (model normalMissingWorld)) = None
   \<and> \<not> textureDataMissing ''map_Kd'' normalMissingWorld
   \<and> fst (renderLoop normalMissingWorld) =
       Throws ''Failed to set up normal texture, it was expected to be there but it was not''
   \<and> animationFrameRequests (snd (renderLoop normalMissingWorld)) = 0
   \<and> drawCalls (snd (renderLoop normalMissingWorld)) = []"
proof -
  let ?m = "okModel\<lparr>renderingProgram := Some 7\<rparr>"
  have l: "animationFrameRequests linkFailWorld = 0" "console linkFailWorld = []"
    by (simp_all add: linkFailWorld_def)
  have hl: "vertexCompileFails linkFailWorld \<or> fragmentCompileFails linkFailWorld
            \<or> linkFails linkFailWorld"
    using linkFails_linkFailWorld by simp
  from renderLoop_failed_setup_halts [of linkFailWorld] hl
  have "fst (renderLoop linkFailWorld) = Returns ()
        \<and> (\<exists>es msg. console (snd (renderLoop linkFailWorld))
                        = console linkFailWorld @ es @ [ConsoleError msg])
        \<and> animationFrameRequests (snd (renderLoop linkFailWorld))
            = animationFrameRequests linkFailWorld"
    by blast
  with l have 1: "fst (renderLoop linkFailWorld) = Returns ()
        \<and> animationFrameRequests (snd (renderLoop linkFailWorld)) = 0
        \<and> (\<exists>es msg. console (snd (renderLoop linkFailWorld)) = es @ [ConsoleError msg])"
    by simp
  have ht: "frameReachesTextures textureMissingWorld 7
            \<and> model textureMissingWorld = Some ?m
            \<and> hasDiffuseMap ?m \<and> diffuseTexture ?m = None
            \<and> textureDataMissing ''map_Kd'' textureMissingWorld"
    using textureMissingWorld_reaches textureMissingWorld_missing by simp
  from renderLoop_failed_setup_halts [of textureMissingWorld] ht
  have "fst (renderLoop textureMissingWorld) =
          Throws ''Failed to set up diffuse texture, it was expected to be there but it was not''
        \<and> animationFrameRequests (snd (renderLoop textureMissingWorld))
            = animationFrameRequests textureMissingWorld"
    by blast
  with textureMissingWorld_missing(4)
  have 2: "fst (renderLoop textureMissingWorld) =
          Throws ''Failed to set up diffuse texture, it was expected to be there but it was not''
        \<and> animationFrameRequests (snd (renderLoop textureMissingWorld)) = 0"
    by simp
  have hn: "frameReachesTextures normalMissingWorld 7
            \<and> model normalMissingWorld = Some ?m \<and> diffuseSetupPasses normalMissingWorld 7 ?m
            \<and> hasNormalMap ?m \<and> normalTexture ?m = None
            \<and> textureDataMissing ''map_Bump'' normalMissingWorld"
    using normalMissingWorld_facts by simp
  from renderLoop_failed_setup_halts [of normalMissingWorld] hn
  have "fst (renderLoop normalMissingWorld) =
          Throws ''Failed to set up normal texture, it was expected to be there but it was not''
        \<and> animationFrameRequests (snd (renderLoop normalMissingWorld))
            = animationFrameRequests normalMissingWorld
        \<and> drawCalls (snd (renderLoop normalMissingWorld)) = drawCalls normalMissingWorld"
    by blast
  with normalMissingWorld_facts(2,4,6,7)
  have 3: "hasDiffuseMap (the (model normalMissingWorld))
        \<and> diffuseTexture (the (model normalMissingWorld)) = None
        \<and> \<not> textureDataMissing ''map_Kd'' normalMissingWorld
        \<and> fst (renderLoop normalMissingWorld) =
          Throws ''Failed to set up normal texture, it was expected to be there but it was not''
        \<and> animationFrameRequests (snd (renderLoop normalMissingWorld)) = 0
        \<and> drawCalls (snd (renderLoop normalMissingWorld)) = []"
    by simp
  from 1 2 3 show ?thesis by blast
qed

text \<open>
  The claim as stated fails on both counts. In a frame whose vertex shader does not
  compile, \<open>renderLoop\<close> returns without requesting the next animation frame; in a frame
  whose texture data is not cached yet, it ends in an exception, again with no request.
\<close>

theorem renderLoop_failed_setup_counterexample:
  "fst (renderLoop vertexFailWorld) = Returns ()
   \<and> animationFrameRequests vertexFailWorld = 0
   \<and> animationFrameRequests (snd (renderLoop vertexFailWorld)) = 0
   \<and> fst (renderLoop textureMissingWorld) =
       Throws ''Failed to set up diffuse texture, it was expected to be there but it was not''
   \<and> animationFrameRequests textureMissingWorld = 0
   \<and> animationFrameRequests (snd (renderLoop textureMissingWorld)) = 0"
proof -
  have v: "animationFrameRequests vertexFailWorld = 0" by (simp add: vertexFailWorld_def)
  have a: "vertexCompileFails vertexFailWorld \<or> fragmentCompileFails vertexFailWorld
           \<or> linkFails vertexFailWorld"
    using vertexCompileFails_vertexFailWorld by simp
  have d: "hasDiffuseMap (okModel\<lparr>renderingProgram := Some 7\<rparr>)
           \<and> diffuseTexture (okModel\<lparr>renderingProgram := Some 7\<rparr>) = None
           \<and> textureDataMissing ''map_Kd'' textureMissingWorld
           \<and> ''Failed to set up diffuse texture, it was expected to be there but it was not''
             = ''Failed to set up diffuse texture, it was expected to be there but it was not''"
    using textureMissingWorld_missing(2) by simp
  from renderLoop_compile_failure(1,3) [OF a] v
    renderLoop_texture_data_missing(1,2)
      [OF textureMissingWorld_reaches textureMissingWorld_missing(1) disjI1, OF d]
    textureMissingWorld_missing(4)
  show ?thesis by simp
qed

section \<open>C3: a missing uniform location is fatal for the frame\<close>

lemma noLightsUniformWorld_facts:
  "glContext noLightsUniformWorld \<noteq> None"
  "model noLightsUniformWorld = Some (okModel\<lparr>renderingProgram := Some 7\<rparr>)"
  "camera noLightsUniformWorld \<noteq> None"
  "fst (compileProgram noLightsUniformWorld) = Returns (Some 7)"
  "lightsDue noLightsUniformWorld"
  "\<not> uniformDeclared (gpu noLightsUniformWorld) 7 ''lightsUniform''"
  "animationFrameRequests noLightsUniformWorld = 0"
  "drawCalls noLightsUniformWorld = []"
proof -
  show m: "model noLightsUniformWorld = Some (okModel\<lparr>renderingProgram := Some 7\<rparr>)"
    by (simp add: noLightsUniformWorld_def)
  show "fst (compileProgram noLightsUniformWorld) = Returns (Some 7)"
    using compileProgram_hit [OF m, of 7] by simp
  show "glContext noLightsUniformWorld \<noteq> None" "camera noLightsUniformWorld \<noteq> None"
    "lightsDue noLightsUniformWorld"
    "\<not> uniformDeclared (gpu noLightsUniformWorld) 7 ''lightsUniform''"
    "animationFrameRequests noLightsUniformWorld = 0"
    "drawCalls noLightsUniformWorld = []"
    by (simp_all add: noLightsUniformWorld_def lightsDue_def drawCalls_def)
qed

lemma noSamplerWorld_facts:
  "frameReachesTextures noSamplerWorld 7"
  "model noSamplerWorld = Some (okModel\<lparr>renderingProgram := Some 7\<rparr>)"
  "createOk (gpu noSamplerWorld) (createdBeforeTextures noSamplerWorld)"
  "\<not> textureDataMissing ''map_Kd'' noSamplerWorld"
  "\<not> uniformDeclared (gpu noSamplerWorld) 7 ''textureSampler''"
  "animationFrameRequests noSamplerWorld = 0"
  "drawCalls noSamplerWorld = []"
proof -
  show "frameReachesTextures noSamplerWorld 7"
    by (rule frameReachesTextures_cached [where m = "okModel\<lparr>renderingProgram := Some 7\<rparr>"])
       (simp_all add: noSamplerWorld_def)
  show "model noSamplerWorld = Some (okModel\<lparr>renderingProgram := Some 7\<rparr>)"
    "createOk (gpu noSamplerWorld) (createdBeforeTextures noSamplerWorld)"
    "\<not> textureDataMissing ''map_Kd'' noSamplerWorld"
    "\<not> uniformDeclared (gpu noSamplerWorld) 7 ''textureSampler''"
    "animationFrameRequests noSamplerWorld = 0"
    "drawCalls noSamplerWorld = []"
    by (simp_all add: noSamplerWorld_def textureDataMissing_def drawCalls_def)
qed

lemma noNormalSamplerWorld_facts:
  "frameReachesTextures noNormalSamplerWorld 7"
  "model noNormalSamplerWorld = Some (okModel\<lparr>renderingProgram := Some 7\<rparr>)"
  "diffuseSetupPasses noNormalSamplerWorld 7 (okModel\<lparr>renderingProgram := Some 7\<rparr>)"
  "createOk (gpu noNormalSamplerWorld)
     (createdBeforeNormal noNormalSamplerWorld (okModel\<lparr>renderingProgram := Some 7\<rparr>))"
  "\<not> textureDataMissing ''map_Bump'' noNormalSamplerWorld"
  "\<not> uniformDeclared (gpu noNormalSamplerWorld) 7 ''normalSampler''"
  "uniformDeclared (gpu noNormalSamplerWorld) 7 ''textureSampler''"
  "animationFrameRequests noNormalSamplerWorld = 0"
  "drawCalls noNormalSamplerWorld = []"
proof -
  show "frameReachesTextures noNormalSamplerWorld 7"
    by (rule frameReachesTextures_cached [where m = "okModel\<lparr>renderingProgram := Some 7\<rparr>"])
       (simp_all add: noNormalSamplerWorld_def)
  show "model noNormalSamplerWorld = Some (okModel\<lparr>renderingProgram := Some 7\<rparr>)"
    "diffuseSetupPasses noNormalSamplerWorld 7 (okModel\<lparr>renderingProgram := Some 7\<rparr>)"
    "createOk (gpu noNormalSamplerWorld)
       (createdBeforeNormal noNormalSamplerWorld (okModel\<lparr>renderingProgram := Some 7\<rparr>))"
    "\<not> textureDataMissing ''map_Bump'' noNormalSamplerWorld"
    "\<not> uniformDeclared (gpu noNormalSamplerWorld) 7 ''normalSampler''"
    "uniformDeclared (gpu noNormalSamplerWorld) 7 ''textureSampler''"
    "animationFrameRequests noNormalSamplerWorld = 0"
    "drawCalls noNormalSamplerWorld = []"
    by (simp_all add: noNormalSamplerWorld_def diffuseSetupPasses_def textureDataMissing_def
        okImage_def drawCalls_def)
qed

text \<open>
  Claim C3, amended. A missing uniform location for the lights or for a texture sampler
  is fatal for the frame. When the lights upload is due and the program declares no
  \<open>lightsUniform\<close> (or no \<open>lightColors\<close>) array, \<open>setUpLights\<close> throws. When a texture has to
  be created and the program declares no sampler of its name (\<open>textureSampler\<close>,
  \<open>normalSampler\<close>), the frame ends in an exception; with the texture object created and
  its data cached it is the exception of \<open>setUpTexture\<close> for that sampler, for the normal
  map also when the diffuse texture is created in the same frame. The exception leaves
  \<open>renderLoop\<close> uncaught: the frame draws nothing and requests no further animation frame.
\<close>

theorem renderLoop_missing_uniform_throws:
  "(\<forall>p m. glContext w \<noteq> None \<and> model w = Some m \<and> camera w \<noteq> None
          \<and> fst (compileProgram w) = Returns (Some p) \<and> lightsDue w
          \<and> \<not> uniformDeclared (gpu w) p ''lightsUniform'' \<longrightarrow>
          fst (renderLoop w) = Throws ''Failed to get the storage location of hack''
          \<and> animationFrameRequests (snd (renderLoop w)) = animationFrameRequests w
          \<and> drawCalls (snd (renderLoop w)) = drawCalls w)
   \<and> (\<forall>p m. glContext w \<noteq> None \<and> model w = Some m \<and> camera w \<noteq> None
          \<and> fst (compileProgram w) = Returns (Some p) \<and> lightsDue w
          \<and> uniformDeclared (gpu w) p ''lightsUniform''
          \<and> \<not> uniformDeclared (gpu w) p ''lightColors'' \<longrightarrow>
          fst (renderLoop w) = Throws ''Failed to get the storage location of lightColor''
          \<and> animationFrameRequests (snd (renderLoop w)) = animationFrameRequests w
          \<and> drawCalls (snd (renderLoop w)) = drawCalls w)
   \<and> (\<forall>p m. frameReachesTextures w p \<and> model w = Some m
          \<and> createOk (gpu w) (createdBeforeTextures w)
          \<and> hasDiffuseMap m \<and> diffuseTexture m = None \<and> \<not> textureDataMissing ''map_Kd'' w
          \<and> \<not> uniformDeclared (gpu w) p ''textureSampler'' \<longrightarrow>
          fst (renderLoop w) =
            Throws ''The sampler name textureSampler was not found in the program''
          \<and> animationFrameRequests (snd (renderLoop w)) = animationFrameRequests w
          \<and> drawCalls (snd (renderLoop w)) = drawCalls w)
   \<and> (\<forall>p m. frameReachesTextures w p \<and> model w = Some m
          \<and> diffuseSetupPasses w p m \<and> createOk (gpu w) (createdBeforeNormal w m)
          \<and> hasNormalMap m \<and> normalTexture m = None \<and> \<not> textureDataMissing ''map_Bump'' w
          \<and> \<not> uniformDeclared (gpu w) p ''normalSampler'' \<longrightarrow>
          fst (renderLoop w) =
            Throws ''The sampler name normalSampler was not found in the program''
          \<and> animationFrameRequests (snd (renderLoop w)) = animationFrameRequests w
          \<and> drawCalls (snd (renderLoop w)) = drawCalls w)
   \<and> (\<forall>p m. frameReachesTextures w p \<and> model w = Some m
          \<and> ((hasDiffuseMap m \<and> diffuseTexture m = None
               \<and> \<not> uniformDeclared (gpu w) p ''textureSampler'')
              \<or> (hasNormalMap m \<and> normalTexture m = None
                  \<and> \<not> uniformDeclared (gpu w) p ''normalSampler'')) \<longrightarrow>
          (\<exists>e. fst (renderLoop w) = Throws e)
          \<and> animationFrameRequests (snd (renderLoop w)) = animationFrameRequests w
          \<and> drawCalls (snd (renderLoop w)) = drawCalls w)"
proof (intro conjI allI impI)
  fix p m
  assume a: "glContext w \<noteq> None \<and> model w = Some m \<and> camera w \<noteq> None
          \<and> fst (compileProgram w) = Returns (Some p) \<and> lightsDue w
          \<and> \<not> uniformDeclared (gpu w) p ''lightsUniform''"
  then have h: "glContext w \<noteq> None" "model w = Some m" "camera w \<noteq> None"
    "fst (compileProgram w) = Returns (Some p)" "lightsDue w"
    by simp_all
  from a renderLoop_lights_uniform_missing [OF h,
    of "''Failed to get the storage location of hack''"]
  show "fst (renderLoop w) = Throws ''Failed to get the storage location of hack''"
    and "animationFrameRequests (snd (renderLoop w)) = animationFrameRequests w"
    and "drawCalls (snd (renderLoop w)) = drawCalls w"
    by simp_all
next
  fix p m
  assume a: "glContext w \<noteq> None \<and> model w = Some m \<and> camera w \<noteq> None
          \<and> fst (compileProgram w) = Returns (Some p) \<and> lightsDue w
          \<and> uniformDeclared (gpu w) p ''lightsUniform''
          \<and> \<not> uniformDeclared (gpu w) p ''lightColors''"
  then have h: "glContext w \<noteq> None" "model w = Some m" "camera w \<noteq> None"
    "fst (compileProgram w) = Returns (Some p)" "lightsDue w"
    by simp_all
  from a renderLoop_lights_uniform_missing [OF h,
    of "''Failed to get the storage location of lightColor''"]
  show "fst (renderLoop w) = Throws ''Failed to get the storage location of lightColor''"
    and "animationFrameRequests (snd (renderLoop w)) = animationFrameRequests w"
    and "drawCalls (snd (renderLoop w)) = drawCalls w"
    by simp_all
next
  fix p m
  assume a: "frameReachesTextures w p \<and> model w = Some m
          \<and> createOk (gpu w) (createdBeforeTextures w)
          \<and> hasDiffuseMap m \<and> diffuseTexture m = None \<and> \<not> textureDataMissing ''map_Kd'' w
          \<and> \<not> uniformDeclared (gpu w) p ''textureSampler''"
  then have h: "frameReachesTextures w p" "model w = Some m"
    "createOk (gpu w) (createdBeforeTextures w)"
    by simp_all
  from a renderLoop_sampler_missing [OF h,
    of "''The sampler name textureSampler was not found in the program''"]
  show "fst (renderLoop w) =
          Throws ''The sampler name textureSampler was not found in the program''"
    and "animationFrameRequests (snd (renderLoop w)) = animationFrameRequests w"
    and "drawCalls (snd (renderLoop w)) = drawCalls w"
    by simp_all
next
  fix p m
  assume a: "frameReachesTextures w p \<and> model w = Some m
          \<and> diffuseSetupPasses w p m \<and> createOk (gpu w) (createdBeforeNormal w m)
          \<and> hasNormalMap m \<and> normalTexture m = None \<and> \<not> textureDataMissing ''map_Bump'' w
          \<and> \<not> uniformDeclared (gpu w) p ''normalSampler''"
  then have h: "frameReachesTextures w p" "model w = Some m" "diffuseSetupPasses w p m"
    "hasNormalMap m" "normalTexture m = None"
    by simp_all
  from a renderLoop_normal_block_throws [OF h,
    of "''The sampler name normalSampler was not found in the program''"]
  show "fst (renderLoop w) =
          Throws ''The sampler name normalSampler was not found in the program''"
    and "animationFrameRequests (snd (renderLoop w)) = animationFrameRequests w"
    and "drawCalls (snd (renderLoop w)) = drawCalls w"
    by simp_all
next
  fix p m
  assume a: "frameReachesTextures w p \<and> model w = Some m
          \<and> ((hasDiffuseMap m \<and> diffuseTexture m = None
               \<and> \<not> uniformDeclared (gpu w) p ''textureSampler'')
              \<or> (hasNormalMap m \<and> normalTexture m = None
                  \<and> \<not> uniformDeclared (gpu w) p ''normalSampler''))"
  then have f: "frameReachesTextures w p" and m: "model w = Some m" by simp_all
  from a have "\<not> diffuseSetupPasses w p m \<or> \<not> normalSetupPasses w p m"
    by (auto simp: diffuseSetupPasses_def normalSetupPasses_def)
  from renderLoop_textures_fail [OF f m this]
  show "\<exists>e. fst (renderLoop w) = Throws e"
    and "animationFrameRequests (snd (renderLoop w)) = animationFrameRequests w"
    and "drawCalls (snd (renderLoop w)) = drawCalls w"
    by simp_all
qed

text \<open>
  Scenes with one declaration missing each. In the last one both textures have to be
  created: the diffuse texture is set up, then the normal sampler is not found.
\<close>

theorem renderLoop_missing_uniform_throws_witness:
  "fst (renderLoop noLightsUniformWorld) = Throws ''Failed to get the storage location of hack''
   \<and> animationFrameRequests (snd (renderLoop noLightsUniformWorld)) = 0
   \<and> drawCalls (snd (renderLoop noLightsUniformWorld)) = []
   \<and> fst (renderLoop (cachedWorld
            \<lparr>gpu := okGpu\<lparr>uniformDeclared := (\<lambda>_ name. name \<noteq> ''lightColors'')\<rparr>\<rparr>)) =
       Throws ''Failed to get the storage location of lightColor''
   \<and> fst (renderLoop noSamplerWorld) =
       Throws ''The sampler name textureSampler was not found in the program''
   \<and> animationFrameRequests (snd (renderLoop noSamplerWorld)) = 0
   \<and> hasDiffuseMap (the (model noNormalSamplerWorld))
   \<and> diffuseTexture (the (model noNormalSamplerWorld)) = None
   \<and> fst (renderLoop noNormalSamplerWorld) =
       Throws ''The sampler name normalSampler was not found in the program''
   \<and> animationFrameRequests (snd (renderLoop noNormalSamplerWorld)) = 0
   \<and> drawCalls (snd (renderLoop noNormalSamplerWorld)) = []"
proof -
  let ?c = "cachedWorld\<lparr>gpu := okGpu\<lparr>uniformDeclared := (\<lambda>_ name. name \<noteq> ''lightColors'')\<rparr>\<rparr>"
  let ?m = "okModel\<lparr>renderingProgram := Some 7\<rparr>"
  have cm: "model ?c = Some ?m" by simp
  have c: "glContext ?c \<noteq> None \<and> model ?c = Some ?m
           \<and> camera ?c \<noteq> None \<and> fst (compileProgram ?c) = Returns (Some 7) \<and> lightsDue ?c
           \<and> uniformDeclared (gpu ?c) 7 ''lightsUniform''
           \<and> \<not> uniformDeclared (gpu ?c) 7 ''lightColors''"
    using compileProgram_hit [OF cm, of 7] by (simp add: lightsDue_def)
  have hl: "glContext noLightsUniformWorld \<noteq> None
            \<and> model noLightsUniformWorld = Some ?m
            \<and> camera noLightsUniformWorld \<noteq> None
            \<and> fst (compileProgram noLightsUniformWorld) = Returns (Some 7)
            \<and> lightsDue noLightsUniformWorld
            \<and> \<not> uniformDeclared (gpu noLightsUniformWorld) 7 ''lightsUniform''"
    using noLightsUniformWorld_facts by simp
  from renderLoop_missing_uniform_throws [of noLightsUniformWorld] hl
  have "fst (renderLoop noLightsUniformWorld)
          = Throws ''Failed to get the storage location of hack''
        \<and> animationFrameRequests (snd (renderLoop noLightsUniformWorld))
            = animationFrameRequests noLightsUniformWorld
        \<and> drawCalls (snd (renderLoop noLightsUniformWorld)) = drawCalls noLightsUniformWorld"
    by blast
  with noLightsUniformWorld_facts(7,8)
  have 1: "fst (renderLoop noLightsUniformWorld)
          = Throws ''Failed to get the storage location of hack''
        \<and> animationFrameRequests (snd (renderLoop noLightsUniformWorld)) = 0
        \<and> drawCalls (snd (renderLoop noLightsUniformWorld)) = []"
    by simp
  from renderLoop_missing_uniform_throws [of ?c] c
  have 2: "fst (renderLoop ?c) = Throws ''Failed to get the storage location of lightColor''"
    by blast
  have hs: "frameReachesTextures noSamplerWorld 7
            \<and> model noSamplerWorld = Some ?m
            \<and> createOk (gpu noSamplerWorld) (createdBeforeTextures noSamplerWorld)
            \<and> hasDiffuseMap ?m \<and> diffuseTexture ?m = None
            \<and> \<not> textureDataMissing ''map_Kd'' noSamplerWorld
            \<and> \<not> uniformDeclared (gpu noSamplerWorld) 7 ''textureSampler''"
    using noSamplerWorld_facts by simp
  from renderLoop_missing_uniform_throws [of noSamplerWorld] hs
  have "fst (renderLoop noSamplerWorld) =
          Throws ''The sampler name textureSampler was not found in the program''
        \<and> animationFrameRequests (snd (renderLoop noSamplerWorld))
            = animationFrameRequests noSamplerWorld"
    by blast
  with noSamplerWorld_facts(6)
  have 3: "fst (renderLoop noSamplerWorld) =
          Throws ''The sampler name textureSampler was not found in the program''
        \<and> animationFrameRequests (snd (renderLoop noSamplerWorld)) = 0"
    by simp
  have hn: "frameReachesTextures noNormalSamplerWorld 7 \<and> model noNormalSamplerWorld = Some ?m
            \<and> diffuseSetupPasses noNormalSamplerWorld 7 ?m
            \<and> createOk (gpu noNormalSamplerWorld) (createdBeforeNormal noNormalSamplerWorld ?m)
            \<and> hasNormalMap ?m \<and> normalTexture ?m = None
            \<and> \<not> textureDataMissing ''map_Bump'' noNormalSamplerWorld
            \<and> \<not> uniformDeclared (gpu noNormalSamplerWorld) 7 ''normalSampler''"
    using noNormalSamplerWorld_facts by simp
  from renderLoop_missing_uniform_throws [of noNormalSamplerWorld] hn
  have "fst (renderLoop noNormalSamplerWorld) =
          Throws ''The sampler name normalSampler was not found in the program''
        \<and> animationFrameRequests (snd (renderLoop noNormalSamplerWorld))
            = animationFrameRequests noNormalSamplerWorld
        \<and> drawCalls (snd (renderLoop noNormalSamplerWorld)) = drawCalls noNormalSamplerWorld"
    by blast
  with noNormalSamplerWorld_facts(2,8,9)
  have 4: "hasDiffuseMap (the (model noNormalSamplerWorld))
        \<and> diffuseTexture (the (model noNormalSamplerWorld)) = None
        \<and> fst (renderLoop noNormalSamplerWorld) =
          Throws ''The sampler name normalSampler was not found in the program''
        \<and> animationFrameRequests (snd (renderLoop noNormalSamplerWorld)) = 0
        \<and> drawCalls (snd (renderLoop noNormalSamplerWorld)) = []"
    by simp
  from 1 2 3 4 show ?thesis by blast
qed

text \<open>
  The claim as stated fails: with a program that declares no \<open>lightsUniform\<close> array, or no
  \<open>textureSampler\<close>, the frame ends in an exception and nothing is drawn.
\<close>

theorem renderLoop_missing_uniform_counterexample:
  "fst (renderLoop noLightsUniformWorld) = Throws ''Failed to get the storage location of hack''
   \<and> drawCalls (snd (renderLoop noLightsUniformWorld)) = []
   \<and> fst (renderLoop noSamplerWorld) =
       Throws ''The sampler name textureSampler was not found in the program''
   \<and> drawCalls (snd (renderLoop noSamplerWorld)) = []"
proof -
  have l: "\<not> uniformDeclared (gpu noLightsUniformWorld) 7 ''lightsUniform''
           \<and> ''Failed to get the storage location of hack''
             = ''Failed to get the storage location of hack''"
    using noLightsUniformWorld_facts(6) by simp
  have s: "hasDiffuseMap (okModel\<lparr>renderingProgram := Some 7\<rparr>)
           \<and> diffuseTexture (okModel\<lparr>renderingProgram := Some 7\<rparr>) = None
           \<and> \<not> textureDataMissing ''map_Kd'' noSamplerWorld
           \<and> \<not> uniformDeclared (gpu noSamplerWorld) 7 ''textureSampler''
           \<and> ''The sampler name textureSampler was not found in the program''
             = ''The sampler name textureSampler was not found in the program''"
    using noSamplerWorld_facts(4,5) by simp
  from renderLoop_lights_uniform_missing(1,3)
         [OF noLightsUniformWorld_facts(1-5) disjI1, OF l]
       noLightsUniformWorld_facts(8)
       renderLoop_sampler_missing(1,3) [OF noSamplerWorld_facts(1-3) disjI1, OF s]
       noSamplerWorld_facts(7)
  show ?thesis by simp
qed

section \<open>The scene invariant\<close>

text \<open>
  Every function that writes a texture handle or creates an object keeps the invariant:
  the texture blocks set a handle only under its flag, to the object just created.
\<close>

lemma sceneInvariant_intro:
  assumes "sceneInvariant w" "glContext w' = glContext w" "created (gpu w) \<le> created (gpu w')"
    "model w' = model w
     \<or> (\<exists>m x. model w = Some m \<and> model w' = Some (m\<lparr>renderingProgram := x\<rparr>))
     \<or> (\<exists>m t. model w = Some m \<and> hasDiffuseMap m
                \<and> (t = None \<or> (\<exists>h. t = Some h \<and> glContext w \<noteq> None \<and> h < created (gpu w')))
                \<and> model w' = Some (m\<lparr>diffuseTexture := t\<rparr>))
     \<or> (\<exists>m t. model w = Some m \<and> hasNormalMap m
                \<and> (t = None \<or> (\<exists>h. t = Some h \<and> glContext w \<noteq> None \<and> h < created (gpu w')))
                \<and> model w' = Some (m\<lparr>normalTexture := t\<rparr>))"
  shows "sceneInvariant w'"
  using assms
  by (cases "model w")
     (auto simp: sceneInvariant_def textureInvariant_def split: option.splits)

lemma sceneInvariant_cleanUpTextures: "sceneInvariant w \<Longrightarrow> sceneInvariant (cleanUpTextures w)"
proof (cases "glContext w \<noteq> None \<and> model w \<noteq> None")
  case False
  assume "sceneInvariant w"
  with False show ?thesis by (auto simp: cleanUpTextures_def)
next
  case True
  assume i: "sceneInvariant w"
  from True obtain m where g: "glContext w \<noteq> None" and m: "model w = Some m" by auto
  from i show ?thesis
    by (auto simp: sceneInvariant_def textureInvariant_def cleanUpTextures_model [OF g m] m
        split: option.splits)
qed

lemma setUpDiffuse_glContext [simp]: "glContext (snd (setUpDiffuse p w)) = glContext w"
proof -
  have "setupPreserves w (snd (setUpDiffuse p w))" by simp
  from setupPreserves_fields(1) [OF this] show ?thesis .
qed

lemma setUpNormal_glContext [simp]: "glContext (snd (setUpNormal p w)) = glContext w"
proof -
  have "setupPreserves w (snd (setUpNormal p w))" by simp
  from setupPreserves_fields(1) [OF this] show ?thesis .
qed

lemma sceneInvariant_setUpDiffuse:
  assumes i: "sceneInvariant w" and g: "glContext w \<noteq> None"
  shows "sceneInvariant (snd (setUpDiffuse p w))"
proof (cases "model w")
  case None
  then show ?thesis using i by (simp add: setUpDiffuse_def)
next
  case (Some m)
  show ?thesis
  proof (cases "hasDiffuseMap m \<and> diffuseTexture m = None")
    case False
    with setUpDiffuse_skip [OF Some, of p] i show ?thesis by auto
  next
    case True
    then have h: "hasDiffuseMap m" "diffuseTexture m = None" by simp_all
    from Some have m': "model w \<noteq> None" by simp
    note c = setUpDiffuse_create [OF Some h, of p]
    have cr: "created (gpu (snd (setUpDiffuse p w))) = created (gpu w) + 1"
      using c(3) g m' by (simp add: setUpTexture_created)
    show ?thesis
    proof (rule sceneInvariant_intro [OF i])
      show "glContext (snd (setUpDiffuse p w)) = glContext w" by simp
      show "created (gpu w) \<le> created (gpu (snd (setUpDiffuse p w)))" using cr by simp
      show "model (snd (setUpDiffuse p w)) = model w
         \<or> (\<exists>m x. model w = Some m
                  \<and> model (snd (setUpDiffuse p w)) = Some (m\<lparr>renderingProgram := x\<rparr>))
         \<or> (\<exists>m t. model w = Some m \<and> hasDiffuseMap m
                \<and> (t = None \<or> (\<exists>h. t = Some h \<and> glContext w \<noteq> None
                                    \<and> h < created (gpu (snd (setUpDiffuse p w)))))
                \<and> model (snd (setUpDiffuse p w)) = Some (m\<lparr>diffuseTexture := t\<rparr>))
         \<or> (\<exists>m t. model w = Some m \<and> hasNormalMap m
                \<and> (t = None \<or> (\<exists>h. t = Some h \<and> glContext w \<noteq> None
                                    \<and> h < created (gpu (snd (setUpDiffuse p w)))))
                \<and> model (snd (setUpDiffuse p w)) = Some (m\<lparr>normalTexture := t\<rparr>))"
      proof (cases "fst (setUpTexture p 0 ''map_Kd'' ''textureSampler'' w)")
        case (Throws e)
        with c(2) Some show ?thesis by simp
      next
        case (Returns t)
        have "t = None \<or> (\<exists>h. t = Some h \<and> glContext w \<noteq> None
                               \<and> h < created (gpu (snd (setUpDiffuse p w))))"
        proof (cases t)
          case None then show ?thesis by simp
        next
          case (Some h)
          with Returns setUpTexture_returns_Some [of p 0 "''map_Kd''" "''textureSampler''" w h]
          show ?thesis using cr g by simp
        qed
        moreover from c(2) Returns
        have "model (snd (setUpDiffuse p w)) = Some (m\<lparr>diffuseTexture := t\<rparr>)" by simp
        ultimately show ?thesis using Some h(1) by blast
      qed
    qed
  qed
qed

lemma sceneInvariant_setUpNormal:
  assumes i: "sceneInvariant w" and g: "glContext w \<noteq> None"
  shows "sceneInvariant (snd (setUpNormal p w))"
proof (cases "model w")
  case None
  then show ?thesis using i by (simp add: setUpNormal_def)
next
  case (Some m)
  consider (skip) "\<not> hasNormalMap m" | (present) t where "hasNormalMap m" "normalTexture m = Some t"
    | (create) "hasNormalMap m" "normalTexture m = None"
    by (cases "normalTexture m") auto
  then show ?thesis
  proof cases
    case skip
    with setUpNormal_skip [OF Some, of p] i show ?thesis by auto
  next
    case present
    note c = setUpNormal_present [OF Some present, of p]
    show ?thesis
      by (rule sceneInvariant_intro [OF i]) (simp_all add: c Some)
  next
    case create
    from Some have m': "model w \<noteq> None" by simp
    note c = setUpNormal_create [OF Some create, of p]
    have cr: "created (gpu (snd (setUpNormal p w))) = created (gpu w) + 1"
      using c(3) g m' by (simp add: setUpTexture_created)
    show ?thesis
    proof (rule sceneInvariant_intro [OF i])
      show "glContext (snd (setUpNormal p w)) = glContext w" by simp
      show "created (gpu w) \<le> created (gpu (snd (setUpNormal p w)))" using cr by simp
      show "model (snd (setUpNormal p w)) = model w
         \<or> (\<exists>m x. model w = Some m
                  \<and> model (snd (setUpNormal p w)) = Some (m\<lparr>renderingProgram := x\<rparr>))
         \<or> (\<exists>m t. model w = Some m \<and> hasDiffuseMap m
                \<and> (t = None \<or> (\<exists>h. t = Some h \<and> glContext w \<noteq> None
                                    \<and> h < created (gpu (snd (setUpNormal p w)))))
                \<and> model (snd (setUpNormal p w)) = Some (m\<lparr>diffuseTexture := t\<rparr>))
         \<or> (\<exists>m t. model w = Some m \<and> hasNormalMap m
                \<and> (t = None \<or> (\<exists>h. t = Some h \<and> glContext w \<noteq> None
                                    \<and> h < created (gpu (snd (setUpNormal p w)))))
                \<and> model (snd (setUpNormal p w)) = Some (m\<lparr>normalTexture := t\<rparr>))"
      proof (cases "fst (setUpTexture p 1 ''map_Bump'' ''normalSampler'' w)")
        case (Throws e)
        with c(2) Some show ?thesis by simp
      next
        case (Returns t)
        have "t = None \<or> (\<exists>h. t = Some h \<and> glContext w \<noteq> None
                               \<and> h < created (gpu (snd (setUpNormal p w))))"
        proof (cases t)
          case None then show ?thesis by simp
        next
          case (Some h)
          with Returns setUpTexture_returns_Some [of p 1 "''map_Bump''" "''normalSampler''" w h]
          show ?thesis using cr g by simp
        qed
        moreover from c(2) Returns
        have "model (snd (setUpNormal p w)) = Some (m\<lparr>normalTexture := t\<rparr>)" by simp
        ultimately show ?thesis using Some create(1) by blast
      qed
    qed
  qed
qed

lemma setUpTextures_snd:
  "snd (setUpTextures p w) = w
   \<or> (glContext w \<noteq> None
      \<and> (snd (setUpTextures p w) = snd (setUpDiffuse p w)
         \<or> snd (setUpTextures p w) = snd (setUpNormal p (snd (setUpDiffuse p w)))))"
  by (auto simp: setUpTextures_def case_prod_unfold split: completion.splits)

lemma sceneInvariant_setUpTextures:
  assumes i: "sceneInvariant w"
  shows "sceneInvariant (snd (setUpTextures p w))"
proof -
  from setUpTextures_snd [of p w]
  consider "snd (setUpTextures p w) = w"
    | "glContext w \<noteq> None" "snd (setUpTextures p w) = snd (setUpDiffuse p w)"
    | "glContext w \<noteq> None"
      "snd (setUpTextures p w) = snd (setUpNormal p (snd (setUpDiffuse p w)))"
    by blast
  then show ?thesis
  proof cases
    case 1 with i show ?thesis by simp
  next
    case 2 with sceneInvariant_setUpDiffuse [OF i] show ?thesis by simp
  next
    case 3
    from sceneInvariant_setUpDiffuse [OF i 3(1), of p]
    have "sceneInvariant (snd (setUpNormal p (snd (setUpDiffuse p w))))"
      by (rule sceneInvariant_setUpNormal) (simp add: 3(1))
    with 3 show ?thesis by simp
  qed
qed

lemma compileProgram_created_mono: "created (gpu w) \<le> created (gpu (snd (compileProgram w)))"
  by (simp add: compile_defs split: option.split)

lemma compileProgram_glContext [simp]: "glContext (snd (compileProgram w)) = glContext w"
  using setupPreserves_fields(1) [OF compileProgram_setupPreserves] .

lemma compileProgram_model_cases:
  "model (snd (compileProgram w)) = model w
   \<or> (\<exists>m x. model w = Some m \<and> model (snd (compileProgram w)) = Some (m\<lparr>renderingProgram := x\<rparr>))"
  by (auto simp: compile_defs split: option.splits)

lemma sceneInvariant_compileProgram:
  assumes i: "sceneInvariant w"
  shows "sceneInvariant (snd (compileProgram w))"
  using compileProgram_model_cases [of w]
  by (intro sceneInvariant_intro [OF i] compileProgram_created_mono) auto

lemma frameSetup_more_fields [simp]:
  "glContext (frameSetup m p w) = glContext w"
  using setupPreserves_fields(1) [of w "frameSetup m p w"] by simp

lemma sceneInvariant_frameSetup:
  assumes i: "sceneInvariant w"
  shows "sceneInvariant (frameSetup m p w)"
  by (rule sceneInvariant_intro [OF i]) simp_all

lemma sceneInvariant_finishFrame:
  assumes i: "sceneInvariant w"
  shows "sceneInvariant (finishFrame c m p w)"
  by (rule sceneInvariant_intro [OF i]) (simp_all add: finishFrame_fields)

lemma renderLoop_snd_cases:
  "snd (renderLoop w) = w \<or> snd (renderLoop w) = snd (compileProgram w)
   \<or> (\<exists>m p. snd (renderLoop w) = frameSetup m p (snd (compileProgram w))
            \<or> snd (renderLoop w) = snd (setUpTextures p (frameSetup m p (snd (compileProgram w))))
            \<or> (\<exists>c. snd (renderLoop w)
                     = finishFrame c m p
                         (snd (setUpTextures p (frameSetup m p (snd (compileProgram w)))))))"
  by (simp add: renderLoop_def frameSetup_def Let_def case_prod_unfold
      split: option.split completion.split) blast

lemma sceneInvariant_renderLoop:
  assumes i: "sceneInvariant w"
  shows "sceneInvariant (snd (renderLoop w))"
proof -
  note c = sceneInvariant_compileProgram [OF i]
  note t = sceneInvariant_setUpTextures [OF sceneInvariant_frameSetup [OF c]]
  from renderLoop_snd_cases [of w] i c sceneInvariant_frameSetup [OF c] t
    sceneInvariant_finishFrame [OF t]
  show ?thesis by (elim disjE exE) simp_all
qed

section \<open>C4: cleanup and the next setup\<close>

lemma texturedWorld_sel [simp]:
  "glContext texturedWorld = Some ()" "model texturedWorld = Some texturedModel"
  "calls (gpu texturedWorld) = []" "created (gpu texturedWorld) = 5"
  "createOk (gpu texturedWorld) = (\<lambda>_. True)"
  "uniformDeclared (gpu texturedWorld) = (\<lambda>_ _. True)"
  "modelCache texturedWorld = [''d.ppm'' \<mapsto> okImage, ''n.ppm'' \<mapsto> okImage]"
  "hasDiffuseMap texturedModel" "hasNormalMap texturedModel"
  "diffuseTexture texturedModel = Some 3" "normalTexture texturedModel = Some 4"
  "textures texturedModel = [''map_Kd'' \<mapsto> ''d.ppm'', ''map_Bump'' \<mapsto> ''n.ppm'']"
  by (simp_all add: texturedWorld_def texturedModel_def)

lemma sceneInvariant_handles:
  assumes "sceneInvariant w" "model w = Some m"
  shows "diffuseTexture m = Some t \<Longrightarrow> hasDiffuseMap m \<and> glContext w \<noteq> None \<and> t < created (gpu w)"
    and "normalTexture m = Some t \<Longrightarrow> hasNormalMap m \<and> glContext w \<noteq> None \<and> t < created (gpu w)"
  using assms by (auto simp: sceneInvariant_def textureInvariant_def)

lemma cleanUpTextures_invariant_model:
  assumes i: "sceneInvariant w" and m: "model w = Some m"
  shows "model (cleanUpTextures w) = Some (m\<lparr>diffuseTexture := None, normalTexture := None\<rparr>)"
    and "calls (gpu (cleanUpTextures w)) =
           calls (gpu w)
           @ (case diffuseTexture m of None \<Rightarrow> [] | Some t \<Rightarrow> [DeleteTexture t])
           @ (case normalTexture m of None \<Rightarrow> [] | Some t \<Rightarrow> [DeleteTexture t])"
proof -
  have "model (cleanUpTextures w) = Some (m\<lparr>diffuseTexture := None, normalTexture := None\<rparr>)
        \<and> calls (gpu (cleanUpTextures w)) =
           calls (gpu w)
           @ (case diffuseTexture m of None \<Rightarrow> [] | Some t \<Rightarrow> [DeleteTexture t])
           @ (case normalTexture m of None \<Rightarrow> [] | Some t \<Rightarrow> [DeleteTexture t])"
  proof (cases "glContext w")
    case None
    with sceneInvariant_handles [OF i m] have "diffuseTexture m = None" "normalTexture m = None"
      by (metis option.exhaust)+
    with None m show ?thesis by (simp add: cleanUpTextures_def)
  next
    case (Some u)
    then have g: "glContext w \<noteq> None" by simp
    from sceneInvariant_handles [OF i m]
    have f: "diffuseTexture m \<noteq> None \<longrightarrow> hasDiffuseMap m"
      "normalTexture m \<noteq> None \<longrightarrow> hasNormalMap m" by auto
    have "m\<lparr>diffuseTexture := (if hasDiffuseMap m then None else diffuseTexture m),
            normalTexture := (if hasNormalMap m then None else normalTexture m)\<rparr>
          = m\<lparr>diffuseTexture := None, normalTexture := None\<rparr>"
      using f by auto
    moreover have "deletedTextures m =
           (case diffuseTexture m of None \<Rightarrow> [] | Some t \<Rightarrow> [DeleteTexture t])
           @ (case normalTexture m of None \<Rightarrow> [] | Some t \<Rightarrow> [DeleteTexture t])"
      using f by (auto simp: deletedTextures_def split: option.splits)
    ultimately show ?thesis
      using cleanUpTextures_model [OF g m] cleanUpTextures_calls [OF g m] by simp
  qed
  then show "model (cleanUpTextures w) = Some (m\<lparr>diffuseTexture := None, normalTexture := None\<rparr>)"
    and "calls (gpu (cleanUpTextures w)) =
           calls (gpu w)
           @ (case diffuseTexture m of None \<Rightarrow> [] | Some t \<Rightarrow> [DeleteTexture t])
           @ (case normalTexture m of None \<Rightarrow> [] | Some t \<Rightarrow> [DeleteTexture t])"
    by simp_all
qed

lemma setUpTextures_True:
  "fst (setUpTextures p w) = Returns True \<Longrightarrow> glContext w \<noteq> None \<and> model w \<noteq> None"
  by (auto simp: setUpTextures_def split: if_splits)

text \<open>
  Claim C4. In every state of the scene that keeps the invariant of the data model (a
  texture handle of the model is set only if the model has that map and the context has
  created the object), \<open>cleanUpTextures\<close> deletes each texture whose handle is set, the
  diffuse one first, and leaves both handles \<open>null\<close>; the flags are unchanged and the
  invariant is kept. Whenever a following \<open>setUpTextures\<close> returns \<open>true\<close>, each map that
  the model has holds a texture object created by that call, which is not the handle
  the model held before the cleanup, and the invariant is kept again.
\<close>

theorem cleanUpTextures_then_setup_recreates:
  "sceneInvariant w \<and> model w = Some m \<longrightarrow>
     (\<exists>m'. model (cleanUpTextures w) = Some m'
         \<and> diffuseTexture m' = None \<and> normalTexture m' = None
         \<and> hasDiffuseMap m' = hasDiffuseMap m \<and> hasNormalMap m' = hasNormalMap m)
     \<and> calls (gpu (cleanUpTextures w)) =
         calls (gpu w)
         @ (case diffuseTexture m of None \<Rightarrow> [] | Some t \<Rightarrow> [DeleteTexture t])
         @ (case normalTexture m of None \<Rightarrow> [] | Some t \<Rightarrow> [DeleteTexture t])
     \<and> sceneInvariant (cleanUpTextures w)
     \<and> (\<forall>p. fst (setUpTextures p (cleanUpTextures w)) = Returns True \<longrightarrow>
           (\<exists>m2. model (snd (setUpTextures p (cleanUpTextures w))) = Some m2
               \<and> (hasDiffuseMap m \<longrightarrow>
                    diffuseTexture m2 = Some (created (gpu w))
                    \<and> diffuseTexture m2 \<noteq> diffuseTexture m)
               \<and> (hasNormalMap m \<longrightarrow>
                    normalTexture m2 =
                      Some (created (gpu w) + (if hasDiffuseMap m then 1 else 0))
                    \<and> normalTexture m2 \<noteq> normalTexture m)
               \<and> (\<not> hasDiffuseMap m \<longrightarrow> diffuseTexture m2 = None)
               \<and> (\<not> hasNormalMap m \<longrightarrow> normalTexture m2 = None))
           \<and> sceneInvariant (snd (setUpTextures p (cleanUpTextures w))))"
proof (intro impI conjI allI)
  assume a: "sceneInvariant w \<and> model w = Some m"
  then have i: "sceneInvariant w" and m: "model w = Some m" by simp_all
  let ?m' = "m\<lparr>diffuseTexture := None, normalTexture := None\<rparr>"
  note cm = cleanUpTextures_invariant_model [OF i m]
  note h = sceneInvariant_handles [OF i m]
  show "\<exists>m'. model (cleanUpTextures w) = Some m'
         \<and> diffuseTexture m' = None \<and> normalTexture m' = None
         \<and> hasDiffuseMap m' = hasDiffuseMap m \<and> hasNormalMap m' = hasNormalMap m"
    using cm(1) by simp
  show "calls (gpu (cleanUpTextures w)) =
         calls (gpu w)
         @ (case diffuseTexture m of None \<Rightarrow> [] | Some t \<Rightarrow> [DeleteTexture t])
         @ (case normalTexture m of None \<Rightarrow> [] | Some t \<Rightarrow> [DeleteTexture t])"
    by (rule cm(2))
  show i': "sceneInvariant (cleanUpTextures w)" by (rule sceneInvariant_cleanUpTextures [OF i])
  fix p assume r: "fst (setUpTextures p (cleanUpTextures w)) = Returns True"
  from setUpTextures_True [OF r] have g': "glContext (cleanUpTextures w) \<noteq> None" by simp
  from setUpTextures_recreates [OF g' cm(1) r]
  obtain m2 where m2: "model (snd (setUpTextures p (cleanUpTextures w))) = Some m2"
    and d: "hasDiffuseMap m \<longrightarrow> diffuseTexture m2 = Some (created (gpu w))"
    and n: "hasNormalMap m \<longrightarrow>
              normalTexture m2 = Some (created (gpu w) + (if hasDiffuseMap m then 1 else 0))"
    by auto
  show "sceneInvariant (snd (setUpTextures p (cleanUpTextures w)))"
    by (rule sceneInvariant_setUpTextures [OF i'])
  then have t2: "textureInvariant m2" using m2 by (simp add: sceneInvariant_def)
  have k: "hasDiffuseMap m2 = hasDiffuseMap m" "hasNormalMap m2 = hasNormalMap m"
  proof -
    from setUpTextures_model [OF g' _ r] cm(1)
    have s: "snd (setUpTextures p (cleanUpTextures w))
               = snd (setUpNormal p (snd (setUpDiffuse p (cleanUpTextures w))))"
      and "\<exists>u. fst (setUpDiffuse p (cleanUpTextures w)) = Returns u"
      and "\<exists>u. fst (setUpNormal p (snd (setUpDiffuse p (cleanUpTextures w)))) = Returns u"
      by simp_all
    then obtain u v where u: "fst (setUpDiffuse p (cleanUpTextures w)) = Returns u"
      and v: "fst (setUpNormal p (snd (setUpDiffuse p (cleanUpTextures w)))) = Returns v"
      by blast
    from setUpNormal_returns [OF v setUpDiffuse_returns(1) [OF u cm(1)]] s m2
    show "hasDiffuseMap m2 = hasDiffuseMap m" "hasNormalMap m2 = hasNormalMap m"
      by (auto split: if_splits)
  qed
  have "diffuseTexture m2 \<noteq> diffuseTexture m" if "hasDiffuseMap m"
    using d h(1) that by (cases "diffuseTexture m") auto
  moreover have "normalTexture m2 \<noteq> normalTexture m" if "hasNormalMap m"
    using n h(2) that by (cases "normalTexture m") auto
  moreover have "diffuseTexture m2 = None" if "\<not> hasDiffuseMap m"
    using t2 k that by (auto simp: textureInvariant_def)
  moreover have "normalTexture m2 = None" if "\<not> hasNormalMap m"
    using t2 k that by (auto simp: textureInvariant_def)
  ultimately
  show "\<exists>m2. model (snd (setUpTextures p (cleanUpTextures w))) = Some m2
          \<and> (hasDiffuseMap m \<longrightarrow>
               diffuseTexture m2 = Some (created (gpu w))
               \<and> diffuseTexture m2 \<noteq> diffuseTexture m)
          \<and> (hasNormalMap m \<longrightarrow>
               normalTexture m2 = Some (created (gpu w) + (if hasDiffuseMap m then 1 else 0))
               \<and> normalTexture m2 \<noteq> normalTexture m)
          \<and> (\<not> hasDiffuseMap m \<longrightarrow> diffuseTexture m2 = None)
          \<and> (\<not> hasNormalMap m \<longrightarrow> normalTexture m2 = None)"
    using m2 d n by blast
qed

text \<open>
  A model holding the textures 3 and 4 of a context that has created five objects: the
  cleanup deletes both, and the next setup creates the textures 5 and 6.
\<close>

theorem cleanUpTextures_then_setup_recreates_witness:
  "sceneInvariant texturedWorld
   \<and> calls (gpu (cleanUpTextures texturedWorld)) = [DeleteTexture 3, DeleteTexture 4]
   \<and> (\<exists>m'. model (cleanUpTextures texturedWorld) = Some m'
          \<and> diffuseTexture m' = None \<and> normalTexture m' = None)
   \<and> fst (setUpTextures 7 (cleanUpTextures texturedWorld)) = Returns True
   \<and> (\<exists>m2. model (snd (setUpTextures 7 (cleanUpTextures texturedWorld))) = Some m2
          \<and> diffuseTexture m2 = Some 5 \<and> normalTexture m2 = Some 6)"
proof -
  let ?w' = "cleanUpTextures texturedWorld"
  have i: "sceneInvariant texturedWorld"
    by (simp add: sceneInvariant_def textureInvariant_def)
  then have a: "sceneInvariant texturedWorld \<and> model texturedWorld = Some texturedModel"
    by simp
  note t = cleanUpTextures_then_setup_recreates [of texturedWorld texturedModel]
  from t a obtain m' where m': "model ?w' = Some m'" "hasDiffuseMap m'" "hasNormalMap m'"
    "diffuseTexture m' = None" "normalTexture m' = None"
    by auto
  have tx: "textures m' = textures texturedModel"
    using m'(1) cleanUpTextures_model [of texturedWorld texturedModel] by auto
  have dm: "\<not> textureDataMissing ''map_Kd'' ?w'" "\<not> textureDataMissing ''map_Bump'' ?w'"
    using m'(1) tx by (simp_all add: textureDataMissing_def)
  have s: "fst (setUpTextures 7 ?w') = Returns True"
    using m' dm by (intro setUpTextures_both_succeed [where m = m']) simp_all
  from t a have c: "calls (gpu ?w') = [DeleteTexture 3, DeleteTexture 4]"
    by simp
  from t a have "\<forall>p. fst (setUpTextures p ?w') = Returns True \<longrightarrow>
           (\<exists>m2. model (snd (setUpTextures p ?w')) = Some m2
               \<and> diffuseTexture m2 = Some 5 \<and> normalTexture m2 = Some 6)"
    by simp blast
  with s have "\<exists>m2. model (snd (setUpTextures 7 ?w')) = Some m2
          \<and> diffuseTexture m2 = Some 5 \<and> normalTexture m2 = Some 6"
    by blast
  with i c m' s show ?thesis by auto
qed

section \<open>Example scenes whose frame completes\<close>

lemma frameCompletes_example:
  assumes "glContext w \<noteq> None" "camera w \<noteq> None"
    "model w = Some (okModel\<lparr>renderingProgram := Some 7\<rparr>)"
    "createOk (gpu w) = (\<lambda>_. True)" "uniformDeclared (gpu w) = (\<lambda>_ _. True)"
    "modelCache w = [''d.ppm'' \<mapsto> okImage, ''n.ppm'' \<mapsto> okImage]"
  shows "frameCompletes w"
proof (rule frameCompletes_cached [where m = "okModel\<lparr>renderingProgram := Some 7\<rparr>" and p = 7])
  show "diffuseSetupPasses w 7 (okModel\<lparr>renderingProgram := Some 7\<rparr>)"
    using assms by (simp add: diffuseSetupPasses_def textureDataMissing_def)
  show "normalSetupPasses w 7 (okModel\<lparr>renderingProgram := Some 7\<rparr>)"
    using assms by (simp add: normalSetupPasses_def textureDataMissing_def)
qed (simp_all add: assms)

lemma frameCompletes_cachedWorld: "frameCompletes cachedWorld"
  by (rule frameCompletes_example) simp_all

lemma wireframeWorld_sel [simp]:
  "model wireframeWorld = Some (okModel\<lparr>renderingProgram := Some 7\<rparr>)"
  "camera wireframeWorld = Some (okCamera\<lparr>renderSolid := False\<rparr>)"
  "drawCalls wireframeWorld = []"
  by (simp_all add: wireframeWorld_def drawCalls_def)

lemma frameCompletes_wireframeWorld: "frameCompletes wireframeWorld"
  by (rule frameCompletes_example) (simp_all add: wireframeWorld_def)

lemma portraitWorld_sel [simp]:
  "model portraitWorld = Some (okModel\<lparr>renderingProgram := Some 7\<rparr>)"
  "camera portraitWorld = Some okCamera"
  "canvas_width (gpu portraitWorld) = 600" "canvas_height (gpu portraitWorld) = 800"
  "renderingCalls portraitWorld = []"
  by (simp_all add: portraitWorld_def renderingCalls_def)

lemma frameCompletes_portraitWorld: "frameCompletes portraitWorld"
  by (rule frameCompletes_example) (simp_all add: portraitWorld_def)

lemma perspectiveWorld_sel [simp]:
  "model perspectiveWorld = Some (okModel\<lparr>renderingProgram := Some 7\<rparr>)"
  "camera perspectiveWorld = Some (okCamera\<lparr>usePerspective := True\<rparr>)"
  "canvas_width (gpu perspectiveWorld) = 800" "canvas_height (gpu perspectiveWorld) = 600"
  "renderingCalls perspectiveWorld = []"
  by (simp_all add: perspectiveWorld_def renderingCalls_def)

lemma frameCompletes_perspectiveWorld: "frameCompletes perspectiveWorld"
  by (rule frameCompletes_example) (simp_all add: perspectiveWorld_def)

lemma frameDrawCalls_wireframe:
  assumes "\<not> renderSolid c" "numTriangles m = Some n"
  shows "length (frameDrawCalls c m) = n"
    and "i < n \<Longrightarrow> frameDrawCalls c m ! i = DrawElements LINE_LOOP 3 (3 * i * 2)"
  using assms by (simp_all add: frameDrawCalls_def)

section \<open>C5: the draw calls of a frame\<close>

text \<open>
  Claim C5. A frame of \<open>renderLoop\<close> that gets through its setup draws the model as
  follows. When the camera does not render solid (wireframe) and the model has \<open>n\<close>
  triangles, the frame issues exactly \<open>n\<close> draw calls, the \<open>i\<close>-th a line loop of 3
  vertices that starts at index \<open>3 i\<close>, which is byte \<open>3 i 2\<close> of the buffer of 16-bit
  indices. When the camera renders solid, the frame issues exactly one draw call, an
  indexed triangle list over the whole index buffer from offset 0. A frame that stops
  in its setup issues no draw call.
\<close>

theorem renderLoop_draw_calls:
  "(frameCompletes w \<and> model w = Some m \<and> camera w = Some c \<longrightarrow>
      (\<not> renderSolid c \<longrightarrow>
         (\<forall>n. numTriangles m = Some n \<longrightarrow>
            (\<exists>ds. drawCalls (snd (renderLoop w)) = drawCalls w @ ds \<and> length ds = n
                 \<and> (\<forall>i<n. ds ! i = DrawElements LINE_LOOP 3 (3 * i * 2)))))
      \<and> (renderSolid c \<longrightarrow>
           drawCalls (snd (renderLoop w)) =
             drawCalls w @ [DrawElements TRIANGLES (length (vertexIndices m)) 0]))
   \<and> (\<not> frameCompletes w \<longrightarrow> drawCalls (snd (renderLoop w)) = drawCalls w)"
proof (intro conjI impI allI)
  assume "\<not> frameCompletes w"
  then show "drawCalls (snd (renderLoop w)) = drawCalls w" by (simp add: renderLoop_frame(2))
next
  assume a: "frameCompletes w \<and> model w = Some m \<and> camera w = Some c"
  then have d: "drawCalls (snd (renderLoop w)) = drawCalls w @ frameDrawCalls c m"
    by (simp add: renderLoop_frame(2))
  {
    assume "renderSolid c"
    with d show "drawCalls (snd (renderLoop w)) =
             drawCalls w @ [DrawElements TRIANGLES (length (vertexIndices m)) 0]"
      by (simp add: frameDrawCalls_def)
  }
  {
    fix n assume s: "\<not> renderSolid c" and n: "numTriangles m = Some n"
    from d frameDrawCalls_wireframe [OF s n]
    show "\<exists>ds. drawCalls (snd (renderLoop w)) = drawCalls w @ ds \<and> length ds = n
                 \<and> (\<forall>i<n. ds ! i = DrawElements LINE_LOOP 3 (3 * i * 2))"
      by blast
  }
qed

text \<open>
  The model of the example scenes has two triangles and six indices. In wireframe the
  frame draws two line loops, at the byte offsets 0 and 6; solid, one triangle list of
  six indices; with the texture data missing, nothing.
\<close>

theorem renderLoop_draw_calls_witness:
  "drawCalls (snd (renderLoop wireframeWorld))
     = [DrawElements LINE_LOOP 3 0, DrawElements LINE_LOOP 3 6]
   \<and> drawCalls (snd (renderLoop cachedWorld)) = [DrawElements TRIANGLES 6 0]
   \<and> drawCalls (snd (renderLoop normalMissingWorld)) = []"
proof -
  let ?m = "okModel\<lparr>renderingProgram := Some 7\<rparr>"
  have hw: "frameCompletes wireframeWorld \<and> model wireframeWorld = Some ?m
            \<and> camera wireframeWorld = Some (okCamera\<lparr>renderSolid := False\<rparr>)"
    using frameCompletes_wireframeWorld by simp
  have "\<not> renderSolid (okCamera\<lparr>renderSolid := False\<rparr>)" "numTriangles ?m = Some 2" by simp_all
  with renderLoop_draw_calls [of wireframeWorld ?m "okCamera\<lparr>renderSolid := False\<rparr>"] hw
  obtain ds where ds: "drawCalls (snd (renderLoop wireframeWorld)) = drawCalls wireframeWorld @ ds"
    "length ds = 2" "\<forall>i<2. ds ! i = DrawElements LINE_LOOP 3 (3 * i * 2)"
    by blast
  from ds(3) have "ds ! 0 = DrawElements LINE_LOOP 3 0" "ds ! 1 = DrawElements LINE_LOOP 3 6"
    by simp_all
  with ds(2) have "ds = [DrawElements LINE_LOOP 3 0, DrawElements LINE_LOOP 3 6]"
    by (cases ds; cases "tl ds") auto
  with ds(1) have 1: "drawCalls (snd (renderLoop wireframeWorld))
     = [DrawElements LINE_LOOP 3 0, DrawElements LINE_LOOP 3 6]"
    by simp
  have hc: "frameCompletes cachedWorld \<and> model cachedWorld = Some ?m
            \<and> camera cachedWorld = Some okCamera"
    using frameCompletes_cachedWorld by simp
  with renderLoop_draw_calls [of cachedWorld ?m okCamera]
  have 2: "drawCalls (snd (renderLoop cachedWorld)) = [DrawElements TRIANGLES 6 0]"
    by simp
  have "\<not> normalSetupPasses normalMissingWorld 7 ?m"
    using normalMissingWorld_facts(5) by (simp add: normalSetupPasses_def)
  with frameReachesTextures_unique [OF normalMissingWorld_facts(1)]
  have "\<not> frameCompletes normalMissingWorld"
    unfolding frameCompletes_iff [OF normalMissingWorld_facts(2)] by blast
  with renderLoop_draw_calls [of normalMissingWorld] normalMissingWorld_facts(7)
  have 3: "drawCalls (snd (renderLoop normalMissingWorld)) = []" by simp
  from 1 2 3 show ?thesis by simp
qed

section \<open>C6: the viewport of a frame\<close>

lemma frameDrawCalls_isDrawElements: "\<forall>d\<in>set (frameDrawCalls c m). isDrawElements d"
  by (auto simp: frameDrawCalls_def split: option.splits)

text \<open>
  Claim C6. A frame of \<open>renderLoop\<close> that gets through its setup sets the viewport twice,
  first to the whole canvas when it clears, then to the viewport of the camera, and
  issues its draw calls after that with no other viewport call in between, so that the
  second viewport is the one the model is drawn in. For a canvas of width \<open>cw\<close> and
  height \<open>ch\<close> and a camera that is not in perspective mode, that viewport is the largest
  centred square: its size is \<open>min cw ch\<close>, its x offset \<open>(cw - min cw ch) / 2\<close> and its
  y offset \<open>(ch - min cw ch) / 2\<close>. In perspective mode it is the whole canvas. A frame
  that stops in its setup sets no viewport.
\<close>

theorem renderLoop_viewport:
  "(frameCompletes w \<and> camera w = Some c
      \<and> cw = canvas_width (gpu w) \<and> ch = canvas_height (gpu w) \<longrightarrow>
      (\<exists>ds. renderingCalls (snd (renderLoop w)) =
               renderingCalls w
               @ [Viewport 0 0 (real cw) (real ch),
                  if usePerspective c then Viewport 0 0 (real cw) (real ch)
                  else Viewport ((real cw - real (min cw ch)) / 2)
                                ((real ch - real (min cw ch)) / 2)
                                (real (min cw ch)) (real (min cw ch))]
               @ ds
           \<and> drawCalls (snd (renderLoop w)) = drawCalls w @ ds
           \<and> (\<forall>d\<in>set ds. isDrawElements d)))
   \<and> (\<not> frameCompletes w \<longrightarrow> renderingCalls (snd (renderLoop w)) = renderingCalls w)"
proof (intro conjI impI)
  assume "\<not> frameCompletes w"
  then show "renderingCalls (snd (renderLoop w)) = renderingCalls w"
    by (simp add: renderLoop_frame(1))
next
  assume a: "frameCompletes w \<and> camera w = Some c
      \<and> cw = canvas_width (gpu w) \<and> ch = canvas_height (gpu w)"
  let ?ds = "frameDrawCalls (the (camera w)) (the (model w))"
  from a have "renderingCalls (snd (renderLoop w)) =
               renderingCalls w
               @ [Viewport 0 0 (real cw) (real ch),
                  if usePerspective c then Viewport 0 0 (real cw) (real ch)
                  else Viewport ((real cw - real (min cw ch)) / 2)
                                ((real ch - real (min cw ch)) / 2)
                                (real (min cw ch)) (real (min cw ch))]
               @ ?ds"
    by (simp add: renderLoop_frame(1))
  moreover from a have "drawCalls (snd (renderLoop w)) = drawCalls w @ ?ds"
    by (simp add: renderLoop_frame(2))
  ultimately
  show "\<exists>ds. renderingCalls (snd (renderLoop w)) =
               renderingCalls w
               @ [Viewport 0 0 (real cw) (real ch),
                  if usePerspective c then Viewport 0 0 (real cw) (real ch)
                  else Viewport ((real cw - real (min cw ch)) / 2)
                                ((real ch - real (min cw ch)) / 2)
                                (real (min cw ch)) (real (min cw ch))]
               @ ds
           \<and> drawCalls (snd (renderLoop w)) = drawCalls w @ ds
           \<and> (\<forall>d\<in>set ds. isDrawElements d)"
    using frameDrawCalls_isDrawElements by blast
qed

text \<open>
  A canvas of 800 by 600 gives the square of size 600 at x offset 100 and y offset 0, a
  canvas of 600 by 800 the square of size 600 at x offset 0 and y offset 100, and a
  camera in perspective mode the whole canvas of 800 by 600.
\<close>

theorem renderLoop_viewport_witness:
  "renderingCalls (snd (renderLoop cachedWorld))
     = [Viewport 0 0 800 600, Viewport 100 0 600 600, DrawElements TRIANGLES 6 0]
   \<and> renderingCalls (snd (renderLoop portraitWorld))
     = [Viewport 0 0 600 800, Viewport 0 100 600 600, DrawElements TRIANGLES 6 0]
   \<and> renderingCalls (snd (renderLoop perspectiveWorld))
     = [Viewport 0 0 800 600, Viewport 0 0 800 600, DrawElements TRIANGLES 6 0]
   \<and> renderingCalls (snd (renderLoop normalMissingWorld)) = []"
proof -
  let ?m = "okModel\<lparr>renderingProgram := Some 7\<rparr>"
  have d: "frameDrawCalls okCamera ?m = [DrawElements TRIANGLES 6 0]"
    "frameDrawCalls (okCamera\<lparr>usePerspective := True\<rparr>) ?m = [DrawElements TRIANGLES 6 0]"
    by (simp_all add: frameDrawCalls_def)
  have hc: "frameCompletes cachedWorld \<and> camera cachedWorld = Some okCamera
            \<and> 800 = canvas_width (gpu cachedWorld) \<and> 600 = canvas_height (gpu cachedWorld)"
    using frameCompletes_cachedWorld by simp
  from renderLoop_viewport [of cachedWorld okCamera 800 600] hc
  obtain ds where ds: "renderingCalls (snd (renderLoop cachedWorld)) =
      renderingCalls cachedWorld
      @ [Viewport 0 0 (real 800) (real 600),
         if usePerspective okCamera then Viewport 0 0 (real 800) (real 600)
         else Viewport ((real 800 - real (min 800 600)) / 2)
                       ((real 600 - real (min 800 600)) / 2)
                       (real (min 800 600)) (real (min 800 600))]
      @ ds"
    "drawCalls (snd (renderLoop cachedWorld)) = drawCalls cachedWorld @ ds"
    by blast
  from ds(2) frameCompletes_cachedWorld d(1)
  have "ds = [DrawElements TRIANGLES 6 0]" by (simp add: renderLoop_frame(2))
  with ds(1) have 1: "renderingCalls (snd (renderLoop cachedWorld))
     = [Viewport 0 0 800 600, Viewport 100 0 600 600, DrawElements TRIANGLES 6 0]"
    by simp
  have hp: "frameCompletes portraitWorld \<and> camera portraitWorld = Some okCamera
            \<and> 600 = canvas_width (gpu portraitWorld) \<and> 800 = canvas_height (gpu portraitWorld)"
    using frameCompletes_portraitWorld by simp
  from renderLoop_viewport [of portraitWorld okCamera 600 800] hp
  obtain ds where ds: "renderingCalls (snd (renderLoop portraitWorld)) =
      renderingCalls portraitWorld
      @ [Viewport 0 0 (real 600) (real 800),
         if usePerspective okCamera then Viewport 0 0 (real 600) (real 800)
         else Viewport ((real 600 - real (min 600 800)) / 2)
                       ((real 800 - real (min 600 800)) / 2)
                       (real (min 600 800)) (real (min 600 800))]
      @ ds"
    "drawCalls (snd (renderLoop portraitWorld)) = drawCalls portraitWorld @ ds"
    by blast
  from ds(2) frameCompletes_portraitWorld d(1)
  have "ds = [DrawElements TRIANGLES 6 0]" by (simp add: renderLoop_frame(2))
  with ds(1) have 2: "renderingCalls (snd (renderLoop portraitWorld))
     = [Viewport 0 0 600 800, Viewport 0 100 600 600, DrawElements TRIANGLES 6 0]"
    by simp
  have hq: "frameCompletes perspectiveWorld
            \<and> camera perspectiveWorld = Some (okCamera\<lparr>usePerspective := True\<rparr>)
            \<and> 800 = canvas_width (gpu perspectiveWorld)
            \<and> 600 = canvas_height (gpu perspectiveWorld)"
    using frameCompletes_perspectiveWorld by simp
  from renderLoop_viewport [of perspectiveWorld "okCamera\<lparr>usePerspective := True\<rparr>" 800 600] hq
  obtain ds where ds: "renderingCalls (snd (renderLoop perspectiveWorld)) =
      renderingCalls perspectiveWorld
      @ [Viewport 0 0 (real 800) (real 600),
         if usePerspective (okCamera\<lparr>usePerspective := True\<rparr>)
         then Viewport 0 0 (real 800) (real 600)
         else Viewport ((real 800 - real (min 800 600)) / 2)
                       ((real 600 - real (min 800 600)) / 2)
                       (real (min 800 600)) (real (min 800 600))]
      @ ds"
    "drawCalls (snd (renderLoop perspectiveWorld)) = drawCalls perspectiveWorld @ ds"
    by blast
  from ds(2) frameCompletes_perspectiveWorld d(2)
  have "ds = [DrawElements TRIANGLES 6 0]" by (simp add: renderLoop_frame(2))
  with ds(1) have 3: "renderingCalls (snd (renderLoop perspectiveWorld))
     = [Viewport 0 0 800 600, Viewport 0 0 800 600, DrawElements TRIANGLES 6 0]"
    by simp
  have "\<not> normalSetupPasses normalMissingWorld 7 ?m"
    using normalMissingWorld_facts(5) by (simp add: normalSetupPasses_def)
  with frameReachesTextures_unique [OF normalMissingWorld_facts(1)]
  have "\<not> frameCompletes normalMissingWorld"
    unfolding frameCompletes_iff [OF normalMissingWorld_facts(2)] by blast
  with renderLoop_viewport [of normalMissingWorld]
  have 4: "renderingCalls (snd (renderLoop normalMissingWorld)) = []"
    by (simp add: normalMissingWorld_def renderingCalls_def)
  from 1 2 3 4 show ?thesis by simp
qed

section \<open>Reading the clock\<close>

text \<open>
  Before its measurement the frame reads the clock only in the normal block of
  \<open>setUpTextures\<close>, once, for the texture animation.
\<close>

lemma loadFile_clockReads [simp]: "clockReads (snd (loadFile path w)) = clockReads w"
  by (simp add: loadFile_def split: option.split)

lemma getLocation_clockReads [simp]:
  "clockReads (snd (getUniformLocation p name w)) = clockReads w"
  "clockReads (snd (getAttribLocation p name w)) = clockReads w"
  by (simp_all add: getUniformLocation_def getAttribLocation_def)

lemma compileProgram_clockReads [simp]: "clockReads (snd (compileProgram w)) = clockReads w"
  by (simp add: compile_defs split: option.split)

lemma frameSetup_clockReads [simp]: "clockReads (frameSetup m p w) = clockReads w"
  by (simp add: frameSetup_def setUpLights_def setUpVertexBuffer_def Let_def case_prod_unfold
      split: option.split)

lemma setUpTexture_clockReads [simp]:
  "clockReads (snd (setUpTexture p u ty s w)) = clockReads w"
  by (simp add: texture_defs split: option.split)

lemma setUpDiffuse_clockReads [simp]: "clockReads (snd (setUpDiffuse p w)) = clockReads w"
  by (simp add: setUpDiffuse_def case_prod_unfold split: option.split completion.split)

lemma setUpNormal_clockReads:
  assumes "fst (setUpNormal p w) = Returns u" "model w = Some m"
  shows "clockReads (snd (setUpNormal p w)) = clockReads w + (if hasNormalMap m then 1 else 0)"
  using assms
  by (auto simp: setUpNormal_def case_prod_unfold Let_def
      split: option.splits completion.splits if_splits)

lemma setUpTextures_clockReads:
  assumes g: "glContext w \<noteq> None" and m: "model w = Some m"
    and r: "fst (setUpTextures p w) = Returns b"
  shows "clockReads (snd (setUpTextures p w)) = clockReads w + (if hasNormalMap m then 1 else 0)"
proof -
  from m have m': "model w \<noteq> None" by simp
  from setUpTextures_model [OF g m' r]
  obtain u v where s: "snd (setUpTextures p w) = snd (setUpNormal p (snd (setUpDiffuse p w)))"
    and u: "fst (setUpDiffuse p w) = Returns u"
    and v: "fst (setUpNormal p (snd (setUpDiffuse p w))) = Returns v"
    by blast
  from setUpNormal_clockReads [OF v setUpDiffuse_returns(1) [OF u m]] s
  show ?thesis by simp
qed

lemma renderLoop_counters:
  assumes "frameCompletes w" "model w = Some m"
  shows "frameNumber (snd (renderLoop w)) =
           (if clock w (clockReads w + (if hasNormalMap m then 1 else 0)) - lastTime w > 1000
            then 0 else frameNumber w + 1)"
    and "fps (snd (renderLoop w)) =
           (if clock w (clockReads w + (if hasNormalMap m then 1 else 0)) - lastTime w > 1000
            then frameNumber w + 1 else fps w)"
    and "lastTime (snd (renderLoop w)) =
           (if clock w (clockReads w + (if hasNormalMap m then 1 else 0)) - lastTime w > 1000
            then clock w (clockReads w + (if hasNormalMap m then 1 else 0)) else lastTime w)"
proof -
  from renderLoop_complete [OF assms(1)] assms(2)
  obtain c p b where c: "camera w = Some c"
    and r: "fst (compileProgram w) = Returns (Some p)"
    and t: "fst (setUpTextures p (frameSetup m p (snd (compileProgram w)))) = Returns b"
    and e: "renderLoop w =
             (Returns (),
              finishFrame c m p (snd (setUpTextures p (frameSetup m p (snd (compileProgram w))))))"
    by auto
  let ?w4 = "frameSetup m p (snd (compileProgram w))"
  let ?w5 = "snd (setUpTextures p ?w4)"
  from assms(1) have g: "glContext w \<noteq> None" by (simp add: frameCompletes_def)
  note b = frame_before_textures [OF r assms(2)]
  have g4: "glContext ?w4 \<noteq> None" using setupPreserves_fields(1) [OF b(1)] g by simp
  have p5: "setupPreserves w ?w5" using b(1) by simp
  note q = setupPreserves_fields [OF p5]
  have k: "clockReads ?w5 = clockReads w + (if hasNormalMap m then 1 else 0)"
    using setUpTextures_clockReads [OF g4 b(2) t] by simp
  show "frameNumber (snd (renderLoop w)) =
           (if clock w (clockReads w + (if hasNormalMap m then 1 else 0)) - lastTime w > 1000
            then 0 else frameNumber w + 1)"
    and "fps (snd (renderLoop w)) =
           (if clock w (clockReads w + (if hasNormalMap m then 1 else 0)) - lastTime w > 1000
            then frameNumber w + 1 else fps w)"
    and "lastTime (snd (renderLoop w)) =
           (if clock w (clockReads w + (if hasNormalMap m then 1 else 0)) - lastTime w > 1000
            then clock w (clockReads w + (if hasNormalMap m then 1 else 0)) else lastTime w)"
    unfolding e snd_conv finishFrame_fields k q(12,13,14,15) by simp_all
qed

lemma renderLoop_counters_unchanged:
  assumes "\<not> frameCompletes w"
  shows "frameNumber (snd (renderLoop w)) = frameNumber w" "fps (snd (renderLoop w)) = fps w"
    "lastTime (snd (renderLoop w)) = lastTime w"
  using setupPreserves_fields(12,13,14) [OF renderLoop_incomplete [OF assms]] .

section \<open>C7: the frame counter\<close>

lemma fpsWorld_sel [simp]:
  "clock (fpsWorld now) = (\<lambda>_. now)" "clockReads (fpsWorld now) = 0"
  "lastTime (fpsWorld now) = 0" "frameNumber (fpsWorld now) = 59" "fps (fpsWorld now) = 0"
  by (simp_all add: fpsWorld_def)

lemma fpsFrameWorld_sel [simp]:
  "model (fpsFrameWorld now) = Some (okModel\<lparr>renderingProgram := Some 7\<rparr>)"
  "clock (fpsFrameWorld now) = (\<lambda>_. now)" "clockReads (fpsFrameWorld now) = 0"
  "lastTime (fpsFrameWorld now) = 0" "frameNumber (fpsFrameWorld now) = 59"
  "fps (fpsFrameWorld now) = 0"
  by (simp_all add: fpsFrameWorld_def)

lemma frameCompletes_fpsFrameWorld: "frameCompletes (fpsFrameWorld now)"
  by (rule frameCompletes_example) (simp_all add: fpsFrameWorld_def)

text \<open>
  Claim C7, amended. The frame counter is advanced by one in every frame that reaches
  the measurement. When strictly more than 1000 time units have passed since the window
  started, the reported frames per second is the counter so advanced, a line is logged,
  the counter is reset to 0 and the window starts now. Otherwise, also after exactly 1000
  units, nothing is reported and the counter keeps counting. This is so for the
  measurement step by itself and for the whole frame of \<open>renderLoop\<close>: a frame that gets
  through its setup measures once, with the clock reading that follows the one the
  normal block of \<open>setUpTextures\<close> takes for a model with a normal map, and a frame that
  stops in its setup leaves the counter, the reported rate and the window start as they
  were.
\<close>

theorem measureFPS_window:
  "(clock w (clockReads w) - lastTime w > 1000 \<longrightarrow>
      fps (measureFPS w) = frameNumber w + 1 \<and> frameNumber (measureFPS w) = 0
      \<and> lastTime (measureFPS w) = clock w (clockReads w)
      \<and> console (measureFPS w) =
          console w @ [ConsoleLog (''FPS: '' @ showNat (frameNumber w + 1))])
   \<and> (clock w (clockReads w) - lastTime w \<le> 1000 \<longrightarrow>
        fps (measureFPS w) = fps w \<and> frameNumber (measureFPS w) = frameNumber w + 1
        \<and> lastTime (measureFPS w) = lastTime w \<and> console (measureFPS w) = console w)
   \<and> (\<forall>m now. frameCompletes w \<and> model w = Some m
          \<and> now = clock w (clockReads w + (if hasNormalMap m then 1 else 0)) \<longrightarrow>
          (now - lastTime w > 1000 \<longrightarrow>
             fps (snd (renderLoop w)) = frameNumber w + 1
             \<and> frameNumber (snd (renderLoop w)) = 0
             \<and> lastTime (snd (renderLoop w)) = now)
          \<and> (now - lastTime w \<le> 1000 \<longrightarrow>
               fps (snd (renderLoop w)) = fps w
               \<and> frameNumber (snd (renderLoop w)) = frameNumber w + 1
               \<and> lastTime (snd (renderLoop w)) = lastTime w))
   \<and> (\<not> frameCompletes w \<longrightarrow>
        fps (snd (renderLoop w)) = fps w \<and> frameNumber (snd (renderLoop w)) = frameNumber w
        \<and> lastTime (snd (renderLoop w)) = lastTime w)"
proof (intro conjI)
  show "clock w (clockReads w) - lastTime w > 1000 \<longrightarrow>
      fps (measureFPS w) = frameNumber w + 1 \<and> frameNumber (measureFPS w) = 0
      \<and> lastTime (measureFPS w) = clock w (clockReads w)
      \<and> console (measureFPS w) =
          console w @ [ConsoleLog (''FPS: '' @ showNat (frameNumber w + 1))]"
    by (simp add: measureFPS_fields)
  show "clock w (clockReads w) - lastTime w \<le> 1000 \<longrightarrow>
        fps (measureFPS w) = fps w \<and> frameNumber (measureFPS w) = frameNumber w + 1
        \<and> lastTime (measureFPS w) = lastTime w \<and> console (measureFPS w) = console w"
    by (simp add: measureFPS_fields)
  show "\<forall>m now. frameCompletes w \<and> model w = Some m
          \<and> now = clock w (clockReads w + (if hasNormalMap m then 1 else 0)) \<longrightarrow>
          (now - lastTime w > 1000 \<longrightarrow>
             fps (snd (renderLoop w)) = frameNumber w + 1
             \<and> frameNumber (snd (renderLoop w)) = 0
             \<and> lastTime (snd (renderLoop w)) = now)
          \<and> (now - lastTime w \<le> 1000 \<longrightarrow>
               fps (snd (renderLoop w)) = fps w
               \<and> frameNumber (snd (renderLoop w)) = frameNumber w + 1
               \<and> lastTime (snd (renderLoop w)) = lastTime w)"
  proof (intro allI impI)
    fix m now
    assume a: "frameCompletes w \<and> model w = Some m
          \<and> now = clock w (clockReads w + (if hasNormalMap m then 1 else 0))"
    then have f: "frameCompletes w" and m: "model w = Some m" by simp_all
    from a show "(now - lastTime w > 1000 \<longrightarrow>
             fps (snd (renderLoop w)) = frameNumber w + 1
             \<and> frameNumber (snd (renderLoop w)) = 0
             \<and> lastTime (snd (renderLoop w)) = now)
          \<and> (now - lastTime w \<le> 1000 \<longrightarrow>
               fps (snd (renderLoop w)) = fps w
               \<and> frameNumber (snd (renderLoop w)) = frameNumber w + 1
               \<and> lastTime (snd (renderLoop w)) = lastTime w)"
      unfolding renderLoop_counters [OF f m] by simp
  qed
  show "\<not> frameCompletes w \<longrightarrow>
        fps (snd (renderLoop w)) = fps w \<and> frameNumber (snd (renderLoop w)) = frameNumber w
        \<and> lastTime (snd (renderLoop w)) = lastTime w"
    using renderLoop_counters_unchanged [of w] by simp
qed

text \<open>
  The 60th frame of a window, measured at time 1001 and at time 999: by the measurement
  step, and by a whole frame of \<open>renderLoop\<close>.
\<close>

theorem measureFPS_window_witness:
  "fps (measureFPS (fpsWorld 1001)) = 60 \<and> frameNumber (measureFPS (fpsWorld 1001)) = 0
   \<and> lastTime (measureFPS (fpsWorld 1001)) = 1001
   \<and> fps (measureFPS (fpsWorld 999)) = 0 \<and> frameNumber (measureFPS (fpsWorld 999)) = 60
   \<and> fps (snd (renderLoop (fpsFrameWorld 1001))) = 60
   \<and> frameNumber (snd (renderLoop (fpsFrameWorld 1001))) = 0
   \<and> lastTime (snd (renderLoop (fpsFrameWorld 1001))) = 1001
   \<and> fps (snd (renderLoop (fpsFrameWorld 999))) = 0
   \<and> frameNumber (snd (renderLoop (fpsFrameWorld 999))) = 60"
proof -
  let ?m = "okModel\<lparr>renderingProgram := Some 7\<rparr>"
  have 1: "fps (measureFPS (fpsWorld 1001)) = 60 \<and> frameNumber (measureFPS (fpsWorld 1001)) = 0
   \<and> lastTime (measureFPS (fpsWorld 1001)) = 1001
   \<and> fps (measureFPS (fpsWorld 999)) = 0 \<and> frameNumber (measureFPS (fpsWorld 999)) = 60"
    using measureFPS_window [of "fpsWorld 1001"] measureFPS_window [of "fpsWorld 999"]
    by simp
  have h: "frameCompletes (fpsFrameWorld now) \<and> model (fpsFrameWorld now) = Some ?m
           \<and> now = clock (fpsFrameWorld now)
                     (clockReads (fpsFrameWorld now) + (if hasNormalMap ?m then 1 else 0))"
    for now
    using frameCompletes_fpsFrameWorld [of now] by simp
  from measureFPS_window [of "fpsFrameWorld 1001"] h [of 1001]
  have "(1001 - lastTime (fpsFrameWorld 1001) > 1000 \<longrightarrow>
             fps (snd (renderLoop (fpsFrameWorld 1001))) = frameNumber (fpsFrameWorld 1001) + 1
             \<and> frameNumber (snd (renderLoop (fpsFrameWorld 1001))) = 0
             \<and> lastTime (snd (renderLoop (fpsFrameWorld 1001))) = 1001)"
    by blast
  then have 2: "fps (snd (renderLoop (fpsFrameWorld 1001))) = 60
   \<and> frameNumber (snd (renderLoop (fpsFrameWorld 1001))) = 0
   \<and> lastTime (snd (renderLoop (fpsFrameWorld 1001))) = 1001"
    by simp
  from measureFPS_window [of "fpsFrameWorld 999"] h [of 999]
  have "(999 - lastTime (fpsFrameWorld 999) \<le> 1000 \<longrightarrow>
               fps (snd (renderLoop (fpsFrameWorld 999))) = fps (fpsFrameWorld 999)
               \<and> frameNumber (snd (renderLoop (fpsFrameWorld 999)))
                   = frameNumber (fpsFrameWorld 999) + 1
               \<and> lastTime (snd (renderLoop (fpsFrameWorld 999))) = lastTime (fpsFrameWorld 999))"
    by blast
  then have 3: "fps (snd (renderLoop (fpsFrameWorld 999))) = 0
   \<and> frameNumber (snd (renderLoop (fpsFrameWorld 999))) = 60"
    by simp
  from 1 2 3 show ?thesis by simp
qed

text \<open>
  The claim as stated fails at exactly 1000 time units: with the 60th frame of the window
  rendered at time 1000, no rate is reported and the counter is 60, not 0. The same
  holds of the whole frame of \<open>renderLoop\<close>.
\<close>

theorem measureFPS_exactly_1000_counterexample:
  "clock (fpsWorld 1000) (clockReads (fpsWorld 1000)) - lastTime (fpsWorld 1000) = 1000
   \<and> fps (measureFPS (fpsWorld 1000)) = 0
   \<and> frameNumber (measureFPS (fpsWorld 1000)) = 60
   \<and> fst (renderLoop (fpsFrameWorld 1000)) = Returns ()
   \<and> fps (snd (renderLoop (fpsFrameWorld 1000))) = 0
   \<and> frameNumber (snd (renderLoop (fpsFrameWorld 1000))) = 60"
proof -
  have "clock (fpsWorld 1000) (clockReads (fpsWorld 1000)) - lastTime (fpsWorld 1000) = 1000
   \<and> fps (measureFPS (fpsWorld 1000)) = 0
   \<and> frameNumber (measureFPS (fpsWorld 1000)) = 60"
    by (simp add: measureFPS_fields)
  moreover have "fst (renderLoop (fpsFrameWorld 1000)) = Returns ()"
    using renderLoop_frame(4) [of "fpsFrameWorld 1000"] frameCompletes_fpsFrameWorld by simp
  moreover have "fps (snd (renderLoop (fpsFrameWorld 1000))) = 0
   \<and> frameNumber (snd (renderLoop (fpsFrameWorld 1000))) = 60"
    by (simp add: renderLoop_counters [OF frameCompletes_fpsFrameWorld fpsFrameWorld_sel(1)])
  ultimately show ?thesis by simp
qed

section \<open>A first frame\<close>

text \<open>
  The first frame of the example scene compiles and links its program, creates both
  textures, draws and requests the next frame; the scene invariant holds before and after.
\<close>

lemma renderLoop_okWorld:
  "frameCompletes okWorld
   \<and> fst (renderLoop okWorld) = Returns ()
   \<and> animationFrameRequests (snd (renderLoop okWorld)) = 1
   \<and> drawCalls (snd (renderLoop okWorld)) = [DrawElements TRIANGLES 6 0]
   \<and> sceneInvariant okWorld \<and> sceneInvariant (snd (renderLoop okWorld))"
proof -
  have r: "fst (compileProgram okWorld) = Returns (Some 2)"
    using compileProgram_linkSucceeds(1) [OF linkSucceeds_okWorld, of okModel] by simp
  have f: "frameReachesTextures okWorld 2"
    using r by (simp add: frameReachesTextures_def)
  have m: "model okWorld = Some okModel" by simp
  have d: "\<not> textureDataMissing ''map_Kd'' okWorld" "\<not> textureDataMissing ''map_Bump'' okWorld"
    by (simp_all add: textureDataMissing_def)
  have c: "frameCompletes okWorld"
    using d by (intro frameCompletes_both_textures [OF f m]) simp_all
  have i: "sceneInvariant okWorld" by (simp add: sceneInvariant_def textureInvariant_def)
  have "frameDrawCalls okCamera okModel = [DrawElements TRIANGLES 6 0]"
    by (simp add: frameDrawCalls_def)
  with c i sceneInvariant_renderLoop [OF i] renderLoop_frame(2,3,4) [of okWorld]
  show ?thesis by (simp add: drawCalls_def)
qed

end
